theory Spec2Isabelle
  imports Main "HOL-Library.Word" "HOL-Library.Char_ord" "HOL-Library.List_Lexorder"
    "HOL-Library.Multiset"
begin

section \<open>Bytes, errors, Clarity values\<close>

text \<open>A \<^verbatim>\<open>Uint8Array\<close> is a list of 8-bit words. Keys, hashes and addresses travel through
  the builders as (hex or c32) strings, as they do in the source.\<close>

type_synonym bytes = "8 word list"

text \<open>Errors as values. \<open>UnsupportedMultiSig\<close> and \<open>AddressKeyMismatch\<close> are the spec's names
  for the rejection \<^verbatim>\<open>Promise.reject('Multi-sig ... not yet implemented')\<close> and for
  \<^verbatim>\<open>throw new Error('Failed to find matching multi-sig address given public-keys.')\<close>;
  each carries the message of the source. \<open>Error\<close> is any other \<^verbatim>\<open>throw new Error(msg)\<close>.
  Failures raised inside helpers that are not among the sources (payload constructors,
  collaborators) reach the builders as values of this type too.\<close>

datatype error =
    UnsupportedMultiSig string
  | AddressKeyMismatch string
  | Error string
  | ValueTooLong
  | InvalidIdentifier
  | CollaboratorFailure string
  | MalformedLength
  | UnknownClarityType

text \<open>The Clarity value union of the spec (section 3). The boolean constructors are the
  \<^verbatim>\<open>ClarityType.BoolTrue\<close> and \<^verbatim>\<open>ClarityType.BoolFalse\<close> of the source.\<close>

datatype ClarityValue =
    IntCV int
  | UIntCV int
  | BufferCV bytes
  | BoolTrue
  | BoolFalse
  | StandardPrincipalCV "8 word" bytes
  | ContractPrincipalCV "8 word" bytes string
  | OptionalNone
  | OptionalSome ClarityValue
  | ResponseOk ClarityValue
  | ResponseErr ClarityValue
  | ListCV "ClarityValue list"
  | TupleCV "(string \<times> ClarityValue) list"

definition trueCV :: ClarityValue where
  "trueCV = BoolTrue"

definition falseCV :: ClarityValue where
  "falseCV = BoolFalse"

definition boolCV :: "bool \<Rightarrow> ClarityValue" where
  "boolCV b = (if b then trueCV else falseCV)"

section \<open>Networks\<close>

definition HIRO_MAINNET_URL :: string where
  "HIRO_MAINNET_URL = ''http://34.143.166.224:20443''"

definition HIRO_TESTNET_URL :: string where
  "HIRO_TESTNET_URL = ''http://localhost:20443''"

definition DEVNET_URL :: string where
  "DEVNET_URL = ''http://localhost:3999''"

text \<open>The enums of the network package's constants module are not among the sources; each
  is declared with the members \<^verbatim>\<open>network.ts\<close> names.\<close>

datatype ChainId = ChainId_Mainnet | ChainId_Testnet

datatype TransactionVersion = TransactionVersion_Mainnet | TransactionVersion_Testnet

datatype PeerNetworkId = PeerNetworkId_Mainnet | PeerNetworkId_Testnet

datatype AddressVersion =
  MainnetSingleSig | MainnetMultiSig | TestnetSingleSig | TestnetMultiSig

record AddressVersions =
  singleSig :: AddressVersion
  multiSig :: AddressVersion

text \<open>The client of a network: its base URL. The optional \<^verbatim>\<open>fetch\<close> function is the
  transport of the collaborators and is not modelled.\<close>

record Client =
  baseUrl :: string

record FunaiNetwork =
  chainId :: ChainId
  transactionVersion :: TransactionVersion
  peerNetworkId :: PeerNetworkId
  magicBytes :: string
  bootAddress :: string
  addressVersion :: AddressVersions
  client :: Client

definition FUNAI_MAINNET :: FunaiNetwork where
  "FUNAI_MAINNET = \<lparr>
     chainId = ChainId_Mainnet,
     transactionVersion = TransactionVersion_Mainnet,
     peerNetworkId = PeerNetworkId_Mainnet,
     magicBytes = ''X2'',
     bootAddress = ''SP000000000000000000002Q6VF78'',
     addressVersion = \<lparr>singleSig = MainnetSingleSig, multiSig = MainnetMultiSig\<rparr>,
     client = \<lparr>baseUrl = HIRO_MAINNET_URL\<rparr>\<rparr>"

definition FUNAI_TESTNET :: FunaiNetwork where
  "FUNAI_TESTNET = \<lparr>
     chainId = ChainId_Testnet,
     transactionVersion = TransactionVersion_Testnet,
     peerNetworkId = PeerNetworkId_Testnet,
     magicBytes = ''T2'',
     bootAddress = ''ST000000000000000000002AMW42H'',
     addressVersion = \<lparr>singleSig = TestnetSingleSig, multiSig = TestnetMultiSig\<rparr>,
     client = \<lparr>baseUrl = HIRO_TESTNET_URL\<rparr>\<rparr>"

definition FUNAI_DEVNET :: FunaiNetwork where
  "FUNAI_DEVNET = FUNAI_TESTNET\<lparr>
     addressVersion := addressVersion FUNAI_TESTNET,
     magicBytes := ''id'',
     client := \<lparr>baseUrl = DEVNET_URL\<rparr>\<rparr>"

definition FUNAI_MOCKNET :: FunaiNetwork where
  "FUNAI_MOCKNET = FUNAI_DEVNET\<lparr>
     addressVersion := addressVersion FUNAI_DEVNET,
     client := client FUNAI_DEVNET\<rparr>"

datatype FunaiNetworkName = mainnet | testnet | devnet | mocknet

text \<open>\<^verbatim>\<open>networkFromName\<close>: the \<^verbatim>\<open>default\<close> branch of the source throws on an unknown
  name; the four names of \<^verbatim>\<open>FunaiNetworkName\<close> are the whole type.\<close>

fun networkFromName :: "FunaiNetworkName \<Rightarrow> FunaiNetwork" where
  "networkFromName mainnet = FUNAI_MAINNET"
| "networkFromName testnet = FUNAI_TESTNET"
| "networkFromName devnet = FUNAI_DEVNET"
| "networkFromName mocknet = FUNAI_MOCKNET"

text \<open>The \<^verbatim>\<open>network\<close> option is a name or a network object.\<close>

datatype NetworkParam = NetworkName FunaiNetworkName | NetworkObject FunaiNetwork

fun networkFrom :: "NetworkParam \<Rightarrow> FunaiNetwork" where
  "networkFrom (NetworkName n) = networkFromName n"
| "networkFrom (NetworkObject n) = n"

text \<open>\<^verbatim>\<open>Object.assign({}, clientFromNetwork(options.network), txOptions.client)\<close>: the
  caller's client, when given, overrides the network's.\<close>

definition clientFromNetwork :: "FunaiNetwork \<Rightarrow> Client" where
  "clientFromNetwork n = client n"

definition assignClient :: "FunaiNetwork \<Rightarrow> Client option \<Rightarrow> Client" where
  "assignClient n c = (case c of None \<Rightarrow> clientFromNetwork n | Some c' \<Rightarrow> c')"

section \<open>Wire types\<close>

text \<open>The interfaces of \<^verbatim>\<open>wire/types.ts\<close>, a datatype each, fields in the order of the
  interface. The enums they mention live in the constants module, which is not among the
  sources: \<open>PayloadType\<close> has one member per payload interface, the others the members the
  spec names.\<close>

datatype PubKeyEncoding = Compressed | Uncompressed

datatype ClarityVersion = Clarity1 | Clarity2 | Clarity3

datatype TenureChangeCause = BlockFound | Extended

datatype PostConditionMode = Allow | Deny

datatype FungibleConditionCode = Equal | Greater | GreaterEqual | Less | LessEqual

datatype NonFungibleConditionCode = Sends | DoesNotSend

datatype PayloadType =
    TokenTransfer | ContractCall | SmartContract | VersionedSmartContract
  | PoisonMicroblock | Coinbase | CoinbaseToAltRecipient | NakamotoCoinbase
  | TenureChange | Infer | RegisterModel

datatype MemoStringWire = MemoStringWire string

text \<open>content, lengthPrefixBytes, maxLengthBytes\<close>

datatype LengthPrefixedStringWire = LengthPrefixedStringWire string nat nat

text \<open>version, hash160\<close>

datatype AddressWire = AddressWire AddressVersion string

datatype PayloadWire =
    TokenTransferPayloadWire ClarityValue int MemoStringWire
  | ContractCallPayload AddressWire LengthPrefixedStringWire LengthPrefixedStringWire
      "ClarityValue list"
  | SmartContractPayloadWire LengthPrefixedStringWire LengthPrefixedStringWire
  | VersionedSmartContractPayloadWire ClarityVersion LengthPrefixedStringWire
      LengthPrefixedStringWire
  | PoisonPayloadWire
  | CoinbasePayloadWire bytes
  | CoinbasePayloadToAltRecipient bytes ClarityValue
  | NakamotoCoinbasePayloadWire bytes "ClarityValue option" bytes
  | TenureChangePayloadWire string string string string nat TenureChangeCause string
  | InferPayloadWire ClarityValue int LengthPrefixedStringWire LengthPrefixedStringWire
      ClarityValue LengthPrefixedStringWire
  | RegisterModelPayloadWire LengthPrefixedStringWire LengthPrefixedStringWire

fun payloadType :: "PayloadWire \<Rightarrow> PayloadType" where
  "payloadType (TokenTransferPayloadWire _ _ _) = TokenTransfer"
| "payloadType (ContractCallPayload _ _ _ _) = ContractCall"
| "payloadType (SmartContractPayloadWire _ _) = SmartContract"
| "payloadType (VersionedSmartContractPayloadWire _ _ _) = VersionedSmartContract"
| "payloadType PoisonPayloadWire = PoisonMicroblock"
| "payloadType (CoinbasePayloadWire _) = Coinbase"
| "payloadType (CoinbasePayloadToAltRecipient _ _) = CoinbaseToAltRecipient"
| "payloadType (NakamotoCoinbasePayloadWire _ _ _) = NakamotoCoinbase"
| "payloadType (TenureChangePayloadWire _ _ _ _ _ _ _) = TenureChange"
| "payloadType (InferPayloadWire _ _ _ _ _ _) = Infer"
| "payloadType (RegisterModelPayloadWire _ _) = RegisterModel"

datatype PostConditionPrincipalWire =
    OriginPrincipalWire
  | StandardPrincipalWire AddressWire
  | ContractPrincipalWire AddressWire LengthPrefixedStringWire

datatype AssetWire = AssetWire AddressWire LengthPrefixedStringWire LengthPrefixedStringWire

datatype PostConditionWire =
    STXPostConditionWire PostConditionPrincipalWire FungibleConditionCode int
  | FungiblePostConditionWire PostConditionPrincipalWire FungibleConditionCode int AssetWire
  | NonFungiblePostConditionWire PostConditionPrincipalWire NonFungibleConditionCode
      AssetWire ClarityValue

text \<open>lengthPrefixBytes, values (the builders only make lists of post-conditions)\<close>

datatype LengthPrefixedList = LengthPrefixedList nat "PostConditionWire list"

datatype TransactionAuthFieldContentsWire = PublicKeyWire bytes | MessageSignatureWire string

record TransactionAuthFieldWire =
  pubKeyEncoding :: PubKeyEncoding
  contents :: TransactionAuthFieldContentsWire

section \<open>Spending conditions, authorizations, transactions\<close>

text \<open>Modelled from the spec: the authorization module is not among the sources. Section 3
  gives a single-sig condition a hash mode, the signer's hash160, nonce, fee and one
  signature field, and a multi-sig condition a hash mode, the signer's hash160, nonce, fee,
  the ordered authorization fields and the required-signature count. The hash modes are the
  four the spec names.\<close>

datatype AddressHashMode = P2PKH | P2WPKH | P2SH | P2SHNonSequential

datatype SpendingCondition =
    SingleSigSpendingCondition (hashMode: AddressHashMode) (signer: string)
      (sc_nonce: int) (sc_fee: int) PubKeyEncoding string
  | MultiSigSpendingCondition (hashMode: AddressHashMode) (signer: string)
      (sc_nonce: int) (sc_fee: int) "TransactionAuthFieldWire list" nat

text \<open>Modelled from the spec: \<open>isSingleSig(condition)\<close> discriminates by hash mode
  (section 4.4); P2PKH and P2WPKH are the single-sig modes (section 3).\<close>

definition isSingleSig :: "SpendingCondition \<Rightarrow> bool" where
  "isSingleSig c = (hashMode c = P2PKH \<or> hashMode c = P2WPKH)"

text \<open>Modelled from the spec: an authorization is Standard (the origin condition) or
  Sponsored (the origin condition and the sponsor's, which is attached later by the set-sponsor
  operation: \<open>None\<close> until then).\<close>

datatype Authorization =
    StandardAuth SpendingCondition
  | SponsoredAuth SpendingCondition "SpendingCondition option"

definition createStandardAuth :: "SpendingCondition \<Rightarrow> Authorization" where
  "createStandardAuth sc = StandardAuth sc"

definition createSponsoredAuth :: "SpendingCondition \<Rightarrow> Authorization" where
  "createSponsoredAuth sc = SponsoredAuth sc None"

text \<open>\<^verbatim>\<open>auth.spendingCondition\<close>: the origin's condition.\<close>

fun spendingCondition :: "Authorization \<Rightarrow> SpendingCondition" where
  "spendingCondition (StandardAuth sc) = sc"
| "spendingCondition (SponsoredAuth sc _) = sc"

text \<open>The object \<^verbatim>\<open>new FunaiTransactionWire({...})\<close> is built from: the fields the builders
  pass. The transfer, infer and register-model builders pass no post-conditions and no
  post-condition mode (\<open>None\<close>).\<close>

record FunaiTransactionWire =
  tx_transactionVersion :: TransactionVersion
  tx_chainId :: ChainId
  auth :: Authorization
  payload :: PayloadWire
  postConditions :: "LengthPrefixedList option"
  postConditionMode :: "PostConditionMode option"

text \<open>\<^verbatim>\<open>c32address(version, hash160)\<close> of the c32check library: the address string is
  kept symbolic, as the pair it encodes (the encoding is injective).\<close>

datatype C32Address = c32address AddressVersion string

section \<open>Optional keys of an options object\<close>

text \<open>An optional key of an options object is absent, or present with the value
  \<^verbatim>\<open>undefined\<close> or \<^verbatim>\<open>null\<close>, or present with a value. \<^verbatim>\<open>Object.assign\<close> and the
  spread \<^verbatim>\<open>{...options}\<close> copy every key that is present, whatever its value, so the three
  are told apart there; \<^verbatim>\<open>options.k == null\<close> and the truthiness of \<^verbatim>\<open>options.k\<close> read an
  absent key and a present \<^verbatim>\<open>undefined\<close> or \<^verbatim>\<open>null\<close> alike.\<close>

datatype Nullish = Undefined | Null

datatype 'a Key = Absent | Void Nullish | Given 'a

text \<open>\<^verbatim>\<open>options.k\<close> as \<^verbatim>\<open>== null\<close> and truthiness read it: \<open>None\<close> is \<^verbatim>\<open>undefined\<close> or
  \<^verbatim>\<open>null\<close>.\<close>

fun keyValue :: "'a Key \<Rightarrow> 'a option" where
  "keyValue Absent = None"
| "keyValue (Void _) = None"
| "keyValue (Given v) = Some v"

text \<open>\<^verbatim>\<open>Object.assign({k: default}, options).k\<close>: the default where the key is absent, the
  key's value, \<^verbatim>\<open>undefined\<close> and \<^verbatim>\<open>null\<close> included, where it is present.\<close>

fun assigned :: "'a \<Rightarrow> 'a Key \<Rightarrow> Nullish + 'a" where
  "assigned d Absent = Inr d"
| "assigned d (Void n) = Inl n"
| "assigned d (Given v) = Inr v"


text \<open>The \<^verbatim>\<open>address\<close> of a nonce request, \<^verbatim>\<open>fetchNonce({ address, ...options })\<close>: the
  spread comes after the computed address, so an \<^verbatim>\<open>address\<close> key of the options, which
  multi-sig options may have, replaces it, whatever its value.\<close>

datatype RequestAddress =
    DerivedAddress C32Address
  | OptionsAddress string
  | NullishAddress Nullish

fun requestAddress :: "C32Address \<Rightarrow> string Key \<Rightarrow> RequestAddress" where
  "requestAddress computed Absent = DerivedAddress computed"
| "requestAddress computed (Void n) = NullishAddress n"
| "requestAddress computed (Given a) = OptionsAddress a"

section \<open>Collaborators and helpers outside the sources\<close>

text \<open>What the builders do to the outside world, in order: requests to the fee-estimation,
  nonce-lookup and ABI collaborators, and signatures computed by the signer.\<close>

datatype Call =
    FetchFeeEstimate FunaiTransactionWire FunaiNetwork Client
  | FetchNonce RequestAddress FunaiNetwork Client
  | FetchAbi string string FunaiNetwork Client
  | SignWithKey string string

fun isFeeCall :: "Call \<Rightarrow> bool" where
  "isFeeCall (FetchFeeEstimate _ _ _) = True"
| "isFeeCall _ = False"

fun isNonceCall :: "Call \<Rightarrow> bool" where
  "isNonceCall (FetchNonce _ _ _) = True"
| "isNonceCall _ = False"

fun isSignCall :: "Call \<Rightarrow> bool" where
  "isSignCall (SignWithKey _ _) = True"
| "isSignCall _ = False"

text \<open>The ABI of a contract and a post-condition in its non-wire form are opaque here (the
  modules that declare them are not among the sources). An ABI is kept as the text of the
  interface it describes.\<close>

datatype ClarityAbi = ClarityAbi string

typedecl PostCondition

text \<open>\<^verbatim>\<open>recipient: string | PrincipalCV\<close>\<close>

datatype Recipient = RecipientAddress string | RecipientCV ClarityValue

text \<open>\<^verbatim>\<open>postConditionMode?: PostConditionModeName | PostConditionMode\<close>\<close>

datatype PostConditionModeParam = ModeName string | ModeValue PostConditionMode

text \<open>\<^verbatim>\<open>postConditions?: PostCondition[] | PostConditionWire[]\<close>, element by element: the
  source tests \<^verbatim>\<open>typeof pc.type === 'string'\<close>.\<close>

datatype PostConditionParam = NonWire PostCondition | Wire PostConditionWire

text \<open>The key functions and the cryptographic primitives (the keys and wire modules, and the
  hash and signature primitives the spec treats as black boxes). Keys are in hex form, so
  \<^verbatim>\<open>publicKeyToHex\<close> and \<^verbatim>\<open>privateKeyToHex\<close> are the identity.
  \<open>addressFromPublicKeys\<close> stands for \<^verbatim>\<open>addressFromPublicKeys(0, mode, n, keys).hash160\<close>
  and \<open>createAddress\<close> for \<^verbatim>\<open>createAddress(address).hash160\<close>: the builders read nothing
  else of either result. \<open>nullishInteger\<close> is what the spending-condition constructors make
  of a nonce or fee that is \<^verbatim>\<open>undefined\<close> or \<^verbatim>\<open>null\<close>: an error of their integer
  conversion, or an integer.\<close>

record Keys =
  nullishInteger :: "Nullish \<Rightarrow> error + int"
  privateKeyToPublic :: "string \<Rightarrow> string"
  createFunaiPublicKey :: "string \<Rightarrow> bytes"
  publicKeyEncoding :: "string \<Rightarrow> PubKeyEncoding"
  addressFromPublicKeys :: "AddressHashMode \<Rightarrow> nat \<Rightarrow> bytes list \<Rightarrow> string"
  createAddress :: "string \<Rightarrow> string"
  publicKeyToAddress :: "AddressVersion \<Rightarrow> string \<Rightarrow> C32Address"
  getAddressFromPrivateKey :: "string \<Rightarrow> FunaiNetwork \<Rightarrow> string"
  signBegin :: "FunaiTransactionWire \<Rightarrow> string"
  sponsorSignBegin :: "FunaiTransactionWire \<Rightarrow> string"
  sigHashPreSign :: "string \<Rightarrow> PubKeyEncoding \<Rightarrow> int \<Rightarrow> int \<Rightarrow> string"
  signWithKey :: "string \<Rightarrow> string \<Rightarrow> string"
  sigHashPostSign :: "string \<Rightarrow> TransactionAuthFieldWire \<Rightarrow> string"

text \<open>The payload constructors and the other helpers of the wire, post-condition, ABI and
  transaction modules. A payload constructor validates its fields and may reject them
  (spec, section 4.3), so it returns an error or a payload.\<close>

record Wires =
  createTokenTransferPayload :: "Recipient \<Rightarrow> int \<Rightarrow> string \<Rightarrow> error + PayloadWire"
  createInferPayload ::
    "string \<Rightarrow> int \<Rightarrow> string \<Rightarrow> string \<Rightarrow> string \<Rightarrow> string \<Rightarrow> error + PayloadWire"
  createRegisterModelPayload :: "string \<Rightarrow> string \<Rightarrow> error + PayloadWire"
  createSmartContractPayload :: "string \<Rightarrow> string \<Rightarrow> ClarityVersion \<Rightarrow> error + PayloadWire"
  createContractCallPayload ::
    "string \<Rightarrow> string \<Rightarrow> string \<Rightarrow> ClarityValue list \<Rightarrow> error + PayloadWire"
  createLPList :: "PostConditionWire list \<Rightarrow> LengthPrefixedList"
  postConditionToWire :: "PostCondition \<Rightarrow> PostConditionWire"
  postConditionModeFrom :: "PostConditionModeParam \<Rightarrow> PostConditionMode"
  validateContractCall :: "PayloadWire \<Rightarrow> ClarityAbi \<Rightarrow> error option"
  setFee :: "FunaiTransactionWire \<Rightarrow> int \<Rightarrow> FunaiTransactionWire"
  setNonce :: "FunaiTransactionWire \<Rightarrow> int \<Rightarrow> FunaiTransactionWire"
  setSponsor :: "FunaiTransactionWire \<Rightarrow> SpendingCondition \<Rightarrow> FunaiTransactionWire"
  deriveNetworkFromTx :: "FunaiTransactionWire \<Rightarrow> FunaiNetwork"
  serialize :: "FunaiTransactionWire \<Rightarrow> bytes"

text \<open>The external collaborators (the fetch module). An answer may depend on everything
  requested so far, so two runs need not get the same answer to the same request; a failed
  request is an error, which the builders pass on.\<close>

record Collaborators =
  fetchFeeEstimate ::
    "Call list \<Rightarrow> FunaiTransactionWire \<Rightarrow> FunaiNetwork \<Rightarrow> Client \<Rightarrow> error + int"
  fetchNonce :: "Call list \<Rightarrow> RequestAddress \<Rightarrow> FunaiNetwork \<Rightarrow> Client \<Rightarrow> error + int"
  fetchAbi :: "Call list \<Rightarrow> string \<Rightarrow> string \<Rightarrow> FunaiNetwork \<Rightarrow> Client \<Rightarrow> error + ClarityAbi"

record Env =
  keys :: Keys
  wires :: Wires
  collaborators :: Collaborators

section \<open>Building the origin's spending condition\<close>

text \<open>Modelled from the spec: the two constructors of section 4.4 build a condition with an
  empty signature area; the signer's hash160 is derived from the key or keys. The placeholder
  signature is the 65 zero bytes of a message signature, in hex.\<close>

definition emptyMessageSignature :: string where
  "emptyMessageSignature = replicate 130 (CHR ''0'')"

definition createSingleSigSpendingCondition ::
  "Keys \<Rightarrow> AddressHashMode \<Rightarrow> string \<Rightarrow> int \<Rightarrow> int \<Rightarrow> SpendingCondition" where
  "createSingleSigSpendingCondition k mode pubKey nonce' fee' =
     SingleSigSpendingCondition mode
       (addressFromPublicKeys k mode 1 [createFunaiPublicKey k pubKey])
       nonce' fee' (publicKeyEncoding k pubKey) emptyMessageSignature"

definition createMultiSigSpendingCondition ::
  "Keys \<Rightarrow> AddressHashMode \<Rightarrow> nat \<Rightarrow> string list \<Rightarrow> int \<Rightarrow> int \<Rightarrow> SpendingCondition" where
  "createMultiSigSpendingCondition k mode numSigs pubKeys nonce' fee' =
     MultiSigSpendingCondition mode
       (addressFromPublicKeys k mode numSigs (map (createFunaiPublicKey k) pubKeys))
       nonce' fee' [] numSigs"

text \<open>Modelled from the spec: the constructors are handed \<^verbatim>\<open>options.nonce\<close> and
  \<^verbatim>\<open>options.fee\<close> as they are after \<^verbatim>\<open>Object.assign\<close>, so either may be \<^verbatim>\<open>undefined\<close>
  or \<^verbatim>\<open>null\<close>. They convert the nonce, then the fee (the order of their parameters in
  section 4.4) to integers; an integer is taken as it is.\<close>

definition integerArgument :: "Keys \<Rightarrow> Nullish + int \<Rightarrow> error + int" where
  "integerArgument k v = (case v of Inl n \<Rightarrow> nullishInteger k n | Inr i \<Rightarrow> Inr i)"

definition withIntegers ::
  "Keys \<Rightarrow> Nullish + int \<Rightarrow> Nullish + int \<Rightarrow> (int \<Rightarrow> int \<Rightarrow> 'a) \<Rightarrow> error + 'a" where
  "withIntegers k nonce' fee' build =
     (case integerArgument k nonce' of
        Inl e \<Rightarrow> Inl e
      | Inr n \<Rightarrow>
          (case integerArgument k fee' of
             Inl e \<Rightarrow> Inl e
           | Inr f \<Rightarrow> Inr (build n f)))"

text \<open>\<^verbatim>\<open>sortPublicKeysForAddress\<close>. \<^verbatim>\<open>publicKeys.slice().sort()\<close> sorts the hex strings
  ascending by their sequences of character codes, which is the order of \<open>string\<close> here.\<close>

definition sortPublicKeysForAddress ::
  "Keys \<Rightarrow> string list \<Rightarrow> nat \<Rightarrow> AddressHashMode \<Rightarrow> string \<Rightarrow> error + string list" where
  "sortPublicKeysForAddress k publicKeys numSigs mode hash =
     (let hashUnsorted =
            addressFromPublicKeys k mode numSigs (map (createFunaiPublicKey k) publicKeys)
      in if hashUnsorted = hash then Inr publicKeys
         else
           (let publicKeysSorted = sort publicKeys;
                hashSorted =
                  addressFromPublicKeys k mode numSigs
                    (map (createFunaiPublicKey k) publicKeysSorted)
            in if hashSorted = hash then Inr publicKeysSorted
               else Inl (AddressKeyMismatch
                 ''Failed to find matching multi-sig address given public-keys.'')))"

text \<open>The key part of an options object. An unsigned builder tests
  \<^verbatim>\<open>'publicKey' in options\<close>, a signed one \<^verbatim>\<open>'senderKey' in txOptions\<close>; the other branch
  is the multi-sig one, whose options are numSignatures, publicKeys, address,
  useNonSequentialMultiSig (and signerKeys when signed).\<close>

datatype UnsignedKeys =
    PublicKey string
  | UnsignedMultiSig nat "string list" "string Key" "bool option"

datatype SignedKeys =
    SenderKey string
  | SignedMultiSig nat "string list" "string Key" "bool option" "string list"

text \<open>The \<^verbatim>\<open>address\<close> key of the options: single-sig options have none.\<close>

fun optionsAddress :: "UnsignedKeys \<Rightarrow> string Key" where
  "optionsAddress (PublicKey _) = Absent"
| "optionsAddress (UnsignedMultiSig _ _ address _) = address"

text \<open>\<^verbatim>\<open>address ? sortPublicKeysForAddress(publicKeys, numSigs, hashMode,
  createAddress(address).hash160) : publicKeys\<close>: the order of the member keys that the
  builders and the multi-sig signing path work with. The argument is the value of
  \<^verbatim>\<open>options.address\<close>; \<^verbatim>\<open>undefined\<close>, \<^verbatim>\<open>null\<close> (\<open>None\<close>) and the empty string are
  falsy.\<close>

definition resolvePublicKeys ::
  "Keys \<Rightarrow> string list \<Rightarrow> nat \<Rightarrow> AddressHashMode \<Rightarrow> string option \<Rightarrow> error + string list" where
  "resolvePublicKeys k publicKeys numSigs mode address =
     (case address of
        None \<Rightarrow> Inr publicKeys
      | Some a \<Rightarrow>
          if a = [] then Inr publicKeys
          else sortPublicKeysForAddress k publicKeys numSigs mode (createAddress k a))"

text \<open>Truthiness of an optional boolean (\<^verbatim>\<open>options.sponsored ? ... : ...\<close>): absent and
  false are falsy.\<close>

fun truthyBool :: "bool option \<Rightarrow> bool" where
  "truthyBool None = False"
| "truthyBool (Some b) = b"

text \<open>The branch on the key part that the transfer, deploy and call builders each spell out
  (lines 346--378, 546--578, 696--728 of the transaction builders).\<close>

fun originSpendingCondition ::
  "Keys \<Rightarrow> UnsignedKeys \<Rightarrow> Nullish + int \<Rightarrow> Nullish + int \<Rightarrow> error + SpendingCondition" where
  "originSpendingCondition k (PublicKey publicKey) nonce' fee' =
     withIntegers k nonce' fee' (createSingleSigSpendingCondition k P2PKH publicKey)"
| "originSpendingCondition k (UnsignedMultiSig numSignatures publicKeys address useNonSeq)
     nonce' fee' =
     (let mode = (if truthyBool useNonSeq then P2SHNonSequential else P2SH)
      in case resolvePublicKeys k publicKeys numSignatures mode (keyValue address) of
           Inl e \<Rightarrow> Inl e
         | Inr pks \<Rightarrow>
             withIntegers k nonce' fee'
               (createMultiSigSpendingCondition k mode numSignatures pks))"

section \<open>Fee and nonce\<close>

text \<open>The two statements that close every unsigned builder:
  \<^verbatim>\<open>if (txOptions.fee == null) { fee = await fetchFeeEstimate(...); transaction.setFee(fee) }\<close>
  and the same for the nonce, whose address is
  \<^verbatim>\<open>c32address(options.network.addressVersion.singleSig, transaction.auth.spendingCondition.signer)\<close>
  unless the options have an \<^verbatim>\<open>address\<close> key (\<^verbatim>\<open>fetchNonce({ address, ...options })\<close>).
  The first argument is the value of \<^verbatim>\<open>txOptions.fee\<close>, respectively \<^verbatim>\<open>txOptions.nonce\<close>:
  \<open>None\<close> is \<^verbatim>\<open>undefined\<close> or \<^verbatim>\<open>null\<close>, an option the caller left out.\<close>

definition feeStep ::
  "Env \<Rightarrow> int option \<Rightarrow> FunaiNetwork \<Rightarrow> Client \<Rightarrow> FunaiTransactionWire \<Rightarrow> Call list
    \<Rightarrow> (error + FunaiTransactionWire) \<times> Call list" where
  "feeStep env txFee net cl tx tr =
     (case txFee of
        Some _ \<Rightarrow> (Inr tx, tr)
      | None \<Rightarrow>
          (case fetchFeeEstimate (collaborators env) tr tx net cl of
             Inl e \<Rightarrow> (Inl e, tr @ [FetchFeeEstimate tx net cl])
           | Inr f \<Rightarrow> (Inr (setFee (wires env) tx f), tr @ [FetchFeeEstimate tx net cl])))"

definition nonceAddress :: "FunaiNetwork \<Rightarrow> FunaiTransactionWire \<Rightarrow> C32Address" where
  "nonceAddress net tx =
     c32address (singleSig (addressVersion net)) (signer (spendingCondition (auth tx)))"

definition nonceStep ::
  "Env \<Rightarrow> int option \<Rightarrow> string Key \<Rightarrow> FunaiNetwork \<Rightarrow> Client \<Rightarrow> FunaiTransactionWire
    \<Rightarrow> Call list \<Rightarrow> (error + FunaiTransactionWire) \<times> Call list" where
  "nonceStep env txNonce addressKey net cl tx tr =
     (case txNonce of
        Some _ \<Rightarrow> (Inr tx, tr)
      | None \<Rightarrow>
          (let address = requestAddress (nonceAddress net tx) addressKey
           in case fetchNonce (collaborators env) tr address net cl of
                Inl e \<Rightarrow> (Inl e, tr @ [FetchNonce address net cl])
              | Inr n \<Rightarrow> (Inr (setNonce (wires env) tx n), tr @ [FetchNonce address net cl])))"

definition feeAndNonce ::
  "Env \<Rightarrow> int option \<Rightarrow> int option \<Rightarrow> string Key \<Rightarrow> FunaiNetwork \<Rightarrow> Client
    \<Rightarrow> FunaiTransactionWire \<Rightarrow> Call list \<Rightarrow> (error + FunaiTransactionWire) \<times> Call list" where
  "feeAndNonce env txFee txNonce addressKey net cl tx tr =
     (case feeStep env txFee net cl tx tr of
        (Inl e, tr1) \<Rightarrow> (Inl e, tr1)
      | (Inr tx1, tr1) \<Rightarrow> nonceStep env txNonce addressKey net cl tx1 tr1)"

section \<open>Options\<close>

text \<open>The options of the API layer's \<^verbatim>\<open>submitInferenceTask\<close>.\<close>

record SubmitInferenceTaskOptions =
  privateKey :: string
  userInput :: string
  context' :: string
  modelName :: string
  amount :: int
  maxInferTime :: int
  nodePrincipal :: "string option"
  fee :: "int Key"
  nonce :: "int Key"
  taskId :: "string option"

text \<open>The options of \<^verbatim>\<open>sponsorTransaction\<close>.\<close>

record SponsorOptionsOpts =
  transaction :: FunaiTransactionWire
  sponsorPrivateKey :: string
  fee :: "int option"
  sponsorNonce :: "int option"
  sponsorAddressHashmode :: "AddressHashMode option"
  network :: "NetworkParam option"
  clientParam :: "Client option"

section \<open>The unsigned builders\<close>

text \<open>The options every builder takes: fee, nonce, sponsored, network and client, each
  optional; for the fee and the nonce a key that is absent is told from one that is present
  with \<^verbatim>\<open>undefined\<close> or \<^verbatim>\<open>null\<close>. For the other optional keys \<open>None\<close> is a key that the
  caller left out, where the default of the builder stands. The builder's own fields extend
  them. \<open>nodePrincipal\<close> is not a field of the source's \<^verbatim>\<open>InferOptions\<close>, but the API layer
  passes it (\<^verbatim>\<open>submitInferenceTask\<close>).\<close>

record TxOptions =
  fee :: "int Key"
  nonce :: "int Key"
  sponsored :: "bool option"
  network :: "NetworkParam option"
  clientParam :: "Client option"

record TokenTransferOptions = TxOptions +
  recipient :: Recipient
  amount :: int
  memo :: "string option"

record InferOptions = TxOptions +
  inferUserAddress :: string
  amount :: int
  userInput :: string
  context' :: string
  modelName :: string
  nodePrincipal :: "string option"

record RegisterModelOptions = TxOptions +
  modelName :: string
  modelParams :: string

record BaseContractDeployOptions = TxOptions +
  clarityVersion :: "ClarityVersion option"
  contractName :: string
  codeBody :: string
  postConditionMode :: "PostConditionModeParam option"
  postConditions :: "PostConditionParam list option"

text \<open>\<^verbatim>\<open>validateWithAbi?: boolean | ClarityAbi\<close>\<close>

datatype ValidateWithAbi = AbiFlag bool | AbiValue ClarityAbi

record ContractCallOptions = TxOptions +
  contractAddress :: string
  contractName :: string
  functionName :: string
  functionArgs :: "ClarityValue list"
  postConditionMode :: "PostConditionModeParam option"
  postConditions :: "PostConditionParam list option"
  validateWithAbi :: "ValidateWithAbi option"

text \<open>\<^verbatim>\<open>Object.assign(defaultOptions, txOptions)\<close>, field by field: a default stands where
  the caller gave nothing. For the fee and the nonce the default 0 stands only where the key is
  absent: a key present with \<^verbatim>\<open>undefined\<close> or \<^verbatim>\<open>null\<close> is copied over the default.
  \<open>callerFee\<close> and \<open>callerNonce\<close> are \<^verbatim>\<open>txOptions.fee\<close> and \<^verbatim>\<open>txOptions.nonce\<close>,
  which the builders test with \<^verbatim>\<open>== null\<close>.\<close>

definition optionsFee :: "'a TxOptions_scheme \<Rightarrow> Nullish + int" where
  "optionsFee txOptions = assigned 0 (fee txOptions)"

definition optionsNonce :: "'a TxOptions_scheme \<Rightarrow> Nullish + int" where
  "optionsNonce txOptions = assigned 0 (nonce txOptions)"

definition callerFee :: "'a TxOptions_scheme \<Rightarrow> int option" where
  "callerFee txOptions = keyValue (fee txOptions)"

definition callerNonce :: "'a TxOptions_scheme \<Rightarrow> int option" where
  "callerNonce txOptions = keyValue (nonce txOptions)"

definition optionsNetwork :: "'a TxOptions_scheme \<Rightarrow> FunaiNetwork" where
  "optionsNetwork txOptions =
     networkFrom (case network txOptions of None \<Rightarrow> NetworkObject FUNAI_MAINNET | Some n \<Rightarrow> n)"

definition optionsClient :: "'a TxOptions_scheme \<Rightarrow> Client" where
  "optionsClient txOptions = assignClient (optionsNetwork txOptions) (clientParam txOptions)"

definition optionsAuth :: "'a TxOptions_scheme \<Rightarrow> SpendingCondition \<Rightarrow> Authorization" where
  "optionsAuth txOptions sc =
     (if truthyBool (sponsored txOptions) then createSponsoredAuth sc else createStandardAuth sc)"

text \<open>\<^verbatim>\<open>(options.postConditions ?? []).map(pc => typeof pc.type === 'string' ?
  postConditionToWire(pc) : pc)\<close>, then \<^verbatim>\<open>createLPList\<close>.\<close>

fun postConditionWire :: "Wires \<Rightarrow> PostConditionParam \<Rightarrow> PostConditionWire" where
  "postConditionWire w (NonWire pc) = postConditionToWire w pc"
| "postConditionWire w (Wire pc) = pc"

definition lpPostConditions :: "Wires \<Rightarrow> PostConditionParam list option \<Rightarrow> LengthPrefixedList" where
  "lpPostConditions w pcs =
     createLPList w (map (postConditionWire w) (case pcs of None \<Rightarrow> [] | Some l \<Rightarrow> l))"

definition optionsPostConditionMode ::
  "Wires \<Rightarrow> PostConditionModeParam option \<Rightarrow> PostConditionMode" where
  "optionsPostConditionMode w m =
     postConditionModeFrom w (case m of None \<Rightarrow> ModeValue Deny | Some m' \<Rightarrow> m')"

definition multiSigInferMessage :: string where
  "multiSigInferMessage = ''Multi-sig infer not yet implemented''"

definition multiSigRegisterModelMessage :: string where
  "multiSigRegisterModelMessage = ''Multi-sig register-model not yet implemented''"

definition nullPrincipal :: string where
  "nullPrincipal = ''ST000000000000000000002AMW42H''"

definition makeUnsignedInfer ::
  "Env \<Rightarrow> UnsignedKeys \<Rightarrow> InferOptions \<Rightarrow> Call list
    \<Rightarrow> (error + FunaiTransactionWire) \<times> Call list" where
  "makeUnsignedInfer env keyOptions txOptions tr =
     (case createInferPayload (wires env) (inferUserAddress txOptions)
             (InferOptions.amount txOptions) (userInput txOptions) (context' txOptions)
             nullPrincipal (InferOptions.modelName txOptions) of
        Inl e \<Rightarrow> (Inl e, tr)
      | Inr payload' \<Rightarrow>
          (case keyOptions of
             PublicKey publicKey \<Rightarrow>
               (case withIntegers (keys env) (optionsNonce txOptions) (optionsFee txOptions)
                       (createSingleSigSpendingCondition (keys env) P2PKH publicKey) of
                  Inl e \<Rightarrow> (Inl e, tr)
                | Inr spendingCondition' \<Rightarrow>
                    (let transaction = \<lparr>
                           tx_transactionVersion = transactionVersion (optionsNetwork txOptions),
                           tx_chainId = chainId (optionsNetwork txOptions),
                           auth = optionsAuth txOptions spendingCondition',
                           payload = payload',
                           postConditions = None,
                           postConditionMode = None\<rparr>
                     in feeAndNonce env (callerFee txOptions) (callerNonce txOptions) Absent
                          (optionsNetwork txOptions) (optionsClient txOptions) transaction tr))
           | UnsignedMultiSig _ _ _ _ \<Rightarrow> (Inl (UnsupportedMultiSig multiSigInferMessage), tr)))"

definition makeUnsignedRegisterModel ::
  "Env \<Rightarrow> UnsignedKeys \<Rightarrow> RegisterModelOptions \<Rightarrow> Call list
    \<Rightarrow> (error + FunaiTransactionWire) \<times> Call list" where
  "makeUnsignedRegisterModel env keyOptions txOptions tr =
     (case createRegisterModelPayload (wires env) (RegisterModelOptions.modelName txOptions)
             (modelParams txOptions) of
        Inl e \<Rightarrow> (Inl e, tr)
      | Inr payload' \<Rightarrow>
          (case keyOptions of
             PublicKey publicKey \<Rightarrow>
               (case withIntegers (keys env) (optionsNonce txOptions) (optionsFee txOptions)
                       (createSingleSigSpendingCondition (keys env) P2PKH publicKey) of
                  Inl e \<Rightarrow> (Inl e, tr)
                | Inr spendingCondition' \<Rightarrow>
                    (let transaction = \<lparr>
                           tx_transactionVersion = transactionVersion (optionsNetwork txOptions),
                           tx_chainId = chainId (optionsNetwork txOptions),
                           auth = optionsAuth txOptions spendingCondition',
                           payload = payload',
                           postConditions = None,
                           postConditionMode = None\<rparr>
                     in feeAndNonce env (callerFee txOptions) (callerNonce txOptions) Absent
                          (optionsNetwork txOptions) (optionsClient txOptions) transaction tr))
           | UnsignedMultiSig _ _ _ _ \<Rightarrow>
               (Inl (UnsupportedMultiSig multiSigRegisterModelMessage), tr)))"

definition makeUnsignedFunaiTokenTransfer ::
  "Env \<Rightarrow> UnsignedKeys \<Rightarrow> TokenTransferOptions \<Rightarrow> Call list
    \<Rightarrow> (error + FunaiTransactionWire) \<times> Call list" where
  "makeUnsignedFunaiTokenTransfer env keyOptions txOptions tr =
     (case createTokenTransferPayload (wires env) (recipient txOptions)
             (TokenTransferOptions.amount txOptions)
             (case memo txOptions of None \<Rightarrow> [] | Some m \<Rightarrow> m) of
        Inl e \<Rightarrow> (Inl e, tr)
      | Inr payload' \<Rightarrow>
          (case originSpendingCondition (keys env) keyOptions (optionsNonce txOptions)
                  (optionsFee txOptions) of
             Inl e \<Rightarrow> (Inl e, tr)
           | Inr spendingCondition' \<Rightarrow>
               (let transaction = \<lparr>
                      tx_transactionVersion = transactionVersion (optionsNetwork txOptions),
                      tx_chainId = chainId (optionsNetwork txOptions),
                      auth = optionsAuth txOptions spendingCondition',
                      payload = payload',
                      postConditions = None,
                      postConditionMode = None\<rparr>
                in feeAndNonce env (callerFee txOptions) (callerNonce txOptions)
                     (optionsAddress keyOptions) (optionsNetwork txOptions)
                     (optionsClient txOptions) transaction tr)))"

definition makeUnsignedContractDeploy ::
  "Env \<Rightarrow> UnsignedKeys \<Rightarrow> BaseContractDeployOptions \<Rightarrow> Call list
    \<Rightarrow> (error + FunaiTransactionWire) \<times> Call list" where
  "makeUnsignedContractDeploy env keyOptions txOptions tr =
     (case createSmartContractPayload (wires env)
             (BaseContractDeployOptions.contractName txOptions) (codeBody txOptions)
             (case clarityVersion txOptions of None \<Rightarrow> Clarity3 | Some v \<Rightarrow> v) of
        Inl e \<Rightarrow> (Inl e, tr)
      | Inr payload' \<Rightarrow>
          (case originSpendingCondition (keys env) keyOptions (optionsNonce txOptions)
                  (optionsFee txOptions) of
             Inl e \<Rightarrow> (Inl e, tr)
           | Inr spendingCondition' \<Rightarrow>
               (let transaction = \<lparr>
                      tx_transactionVersion = transactionVersion (optionsNetwork txOptions),
                      tx_chainId = chainId (optionsNetwork txOptions),
                      auth = optionsAuth txOptions spendingCondition',
                      payload = payload',
                      postConditions = Some (lpPostConditions (wires env)
                        (BaseContractDeployOptions.postConditions txOptions)),
                      postConditionMode = Some (optionsPostConditionMode (wires env)
                        (BaseContractDeployOptions.postConditionMode txOptions))\<rparr>
                in feeAndNonce env (callerFee txOptions) (callerNonce txOptions)
                     (optionsAddress keyOptions) (optionsNetwork txOptions)
                     (optionsClient txOptions) transaction tr)))"

text \<open>The ABI check of the call builder: with \<^verbatim>\<open>validateWithAbi: true\<close> the ABI is fetched
  (the network option is always set by then, so the source's
  \<^verbatim>\<open>'Network option must be provided'\<close> branch is dead), with an ABI object it is used as
  given; \<^verbatim>\<open>validateContractCall\<close> throws on a mismatch.\<close>

definition abiStep ::
  "Env \<Rightarrow> ContractCallOptions \<Rightarrow> PayloadWire \<Rightarrow> Call list \<Rightarrow> error option \<times> Call list" where
  "abiStep env txOptions payload' tr =
     (case validateWithAbi txOptions of
        None \<Rightarrow> (None, tr)
      | Some (AbiFlag False) \<Rightarrow> (None, tr)
      | Some (AbiFlag True) \<Rightarrow>
          (let request = FetchAbi (contractAddress txOptions)
                 (ContractCallOptions.contractName txOptions) (optionsNetwork txOptions)
                 (optionsClient txOptions)
           in case fetchAbi (collaborators env) tr (contractAddress txOptions)
                     (ContractCallOptions.contractName txOptions) (optionsNetwork txOptions)
                     (optionsClient txOptions) of
                Inl e \<Rightarrow> (Some e, tr @ [request])
              | Inr abi \<Rightarrow> (validateContractCall (wires env) payload' abi, tr @ [request]))
      | Some (AbiValue abi) \<Rightarrow> (validateContractCall (wires env) payload' abi, tr))"

definition makeUnsignedContractCall ::
  "Env \<Rightarrow> UnsignedKeys \<Rightarrow> ContractCallOptions \<Rightarrow> Call list
    \<Rightarrow> (error + FunaiTransactionWire) \<times> Call list" where
  "makeUnsignedContractCall env keyOptions txOptions tr =
     (case createContractCallPayload (wires env) (contractAddress txOptions)
             (ContractCallOptions.contractName txOptions) (functionName txOptions)
             (functionArgs txOptions) of
        Inl e \<Rightarrow> (Inl e, tr)
      | Inr payload' \<Rightarrow>
          (case abiStep env txOptions payload' tr of
             (Some e, tr1) \<Rightarrow> (Inl e, tr1)
           | (None, tr1) \<Rightarrow>
               (case originSpendingCondition (keys env) keyOptions (optionsNonce txOptions)
                       (optionsFee txOptions) of
                  Inl e \<Rightarrow> (Inl e, tr1)
                | Inr spendingCondition' \<Rightarrow>
                    (let transaction = \<lparr>
                           tx_transactionVersion = transactionVersion (optionsNetwork txOptions),
                           tx_chainId = chainId (optionsNetwork txOptions),
                           auth = optionsAuth txOptions spendingCondition',
                           payload = payload',
                           postConditions = Some (lpPostConditions (wires env)
                             (ContractCallOptions.postConditions txOptions)),
                           postConditionMode = Some (optionsPostConditionMode (wires env)
                             (ContractCallOptions.postConditionMode txOptions))\<rparr>
                     in feeAndNonce env (callerFee txOptions) (callerNonce txOptions)
                          (optionsAddress keyOptions) (optionsNetwork txOptions)
                          (optionsClient txOptions) transaction tr1))))"

section \<open>The signer\<close>

text \<open>Modelled from the spec: the signer module is not among the sources. Section 4.5: the
  signer holds the transaction and a running hash, which starts as the pre-sign hash of the
  transaction (step 1). To sign, it combines the running hash with the signer's public-key
  encoding and the fee and nonce into the sighash (step 2), signs the sighash with the
  private key and puts the message signature into the condition: the signature field of a
  single-sig condition, the end of the field sequence of a multi-sig one (step 3); the new
  running hash combines the sighash and the new field (step 4). A member that does not sign is
  appended as a raw public-key field at the end of the sequence (step 5). The hash and
  signature primitives are those of \<open>Keys\<close>; every signature computed is recorded.\<close>

record TransactionSigner =
  transaction :: FunaiTransactionWire
  sigHash :: string

definition newTransactionSigner :: "Keys \<Rightarrow> FunaiTransactionWire \<Rightarrow> TransactionSigner" where
  "newTransactionSigner k tx = \<lparr>transaction = tx, sigHash = signBegin k tx\<rparr>"

fun withOrigin :: "Authorization \<Rightarrow> SpendingCondition \<Rightarrow> Authorization" where
  "withOrigin (StandardAuth _) sc = StandardAuth sc"
| "withOrigin (SponsoredAuth _ sp) sc = SponsoredAuth sc sp"

fun putSignature :: "SpendingCondition \<Rightarrow> PubKeyEncoding \<Rightarrow> string \<Rightarrow> SpendingCondition" where
  "putSignature (SingleSigSpendingCondition m s n f e _) enc sig =
     SingleSigSpendingCondition m s n f e sig"
| "putSignature (MultiSigSpendingCondition m s n f fs r) enc sig =
     MultiSigSpendingCondition m s n f
       (fs @ [\<lparr>pubKeyEncoding = enc, contents = MessageSignatureWire sig\<rparr>]) r"

definition signOrigin ::
  "Keys \<Rightarrow> TransactionSigner \<Rightarrow> string \<Rightarrow> Call list \<Rightarrow> TransactionSigner \<times> Call list" where
  "signOrigin k sg privKey tr =
     (let tx = transaction sg;
          origin = spendingCondition (auth tx);
          enc = publicKeyEncoding k (privateKeyToPublic k privKey);
          sigHash' = sigHashPreSign k (sigHash sg) enc (sc_fee origin) (sc_nonce origin);
          sig = signWithKey k privKey sigHash';
          field = \<lparr>pubKeyEncoding = enc, contents = MessageSignatureWire sig\<rparr>
      in (\<lparr>transaction = tx\<lparr>auth := withOrigin (auth tx) (putSignature origin enc sig)\<rparr>,
           sigHash = sigHashPostSign k sigHash' field\<rparr>,
          tr @ [SignWithKey privKey sigHash']))"

definition appendOrigin :: "Keys \<Rightarrow> TransactionSigner \<Rightarrow> string \<Rightarrow> error + TransactionSigner" where
  "appendOrigin k sg publicKey =
     (let tx = transaction sg
      in case spendingCondition (auth tx) of
           SingleSigSpendingCondition _ _ _ _ _ _ \<Rightarrow>
             Inl (Error ''Cannot append a public key to a single-sig condition'')
         | MultiSigSpendingCondition m s n f fs r \<Rightarrow>
             Inr (sg\<lparr>transaction := tx\<lparr>auth := withOrigin (auth tx)
               (MultiSigSpendingCondition m s n f
                  (fs @ [\<lparr>pubKeyEncoding = publicKeyEncoding k publicKey,
                          contents = PublicKeyWire (createFunaiPublicKey k publicKey)\<rparr>]) r)\<rparr>\<rparr>))"

text \<open>Modelled from the spec: sponsor signing repeats the algorithm on the sponsor's
  condition, starting from the hash of the origin-signed transaction.\<close>

definition createSponsorSigner :: "Keys \<Rightarrow> FunaiTransactionWire \<Rightarrow> TransactionSigner" where
  "createSponsorSigner k tx = \<lparr>transaction = tx, sigHash = sponsorSignBegin k tx\<rparr>"

definition signSponsor ::
  "Keys \<Rightarrow> TransactionSigner \<Rightarrow> string \<Rightarrow> Call list
    \<Rightarrow> (error + TransactionSigner) \<times> Call list" where
  "signSponsor k sg privKey tr =
     (let tx = transaction sg
      in case auth tx of
           SponsoredAuth origin (Some sponsor) \<Rightarrow>
             (let enc = publicKeyEncoding k (privateKeyToPublic k privKey);
                  sigHash' = sigHashPreSign k (sigHash sg) enc (sc_fee sponsor) (sc_nonce sponsor);
                  sig = signWithKey k privKey sigHash';
                  field = \<lparr>pubKeyEncoding = enc, contents = MessageSignatureWire sig\<rparr>
              in (Inr \<lparr>transaction =
                        tx\<lparr>auth := SponsoredAuth origin (Some (putSignature sponsor enc sig))\<rparr>,
                       sigHash = sigHashPostSign k sigHash' field\<rparr>,
                  tr @ [SignWithKey privKey sigHash']))
         | _ \<Rightarrow> (Inl (Error ''The transaction has no sponsor spending condition''), tr))"

section \<open>Multi-sig signing\<close>

text \<open>\<^verbatim>\<open>signaturesRequired\<close> of a condition (a single-sig condition has none).\<close>

fun signaturesRequired :: "SpendingCondition \<Rightarrow> nat" where
  "signaturesRequired (MultiSigSpendingCondition _ _ _ _ _ r) = r"
| "signaturesRequired (SingleSigSpendingCondition _ _ _ _ _ _) = 0"

fun fields :: "SpendingCondition \<Rightarrow> TransactionAuthFieldWire list" where
  "fields (MultiSigSpendingCondition _ _ _ _ fs _) = fs"
| "fields (SingleSigSpendingCondition _ _ _ _ _ _) = []"

text \<open>The loop of \<^verbatim>\<open>mutatingSignAppendMultiSig\<close> over the resolved public keys:
  \<^verbatim>\<open>signerKeys.find(key => privateKeyToPublic(key) === publicKey)\<close>, then
  \<^verbatim>\<open>if (signerKey) signer.signOrigin(signerKey) else signer.appendOrigin(publicKey)\<close>.
  \<open>find\<close> gives the first match; the empty string is falsy.\<close>

fun signAppendLoop ::
  "Keys \<Rightarrow> string list \<Rightarrow> string list \<Rightarrow> TransactionSigner \<Rightarrow> Call list
    \<Rightarrow> (error + TransactionSigner) \<times> Call list" where
  "signAppendLoop k signerKeys [] sg tr = (Inr sg, tr)"
| "signAppendLoop k signerKeys (publicKey # pubs) sg tr =
     (case find (\<lambda>key. privateKeyToPublic k key = publicKey) signerKeys of
        None \<Rightarrow>
          (case appendOrigin k sg publicKey of
             Inl e \<Rightarrow> (Inl e, tr)
           | Inr sg' \<Rightarrow> signAppendLoop k signerKeys pubs sg' tr)
      | Some signerKey \<Rightarrow>
          if signerKey \<noteq> []
          then (case signOrigin k sg signerKey tr of
                  (sg', tr') \<Rightarrow> signAppendLoop k signerKeys pubs sg' tr')
          else (case appendOrigin k sg publicKey of
                  Inl e \<Rightarrow> (Inl e, tr)
                | Inr sg' \<Rightarrow> signAppendLoop k signerKeys pubs sg' tr))"

definition mutatingSignAppendMultiSig ::
  "Keys \<Rightarrow> FunaiTransactionWire \<Rightarrow> string list \<Rightarrow> string list \<Rightarrow> string option \<Rightarrow> Call list
    \<Rightarrow> (error + FunaiTransactionWire) \<times> Call list" where
  "mutatingSignAppendMultiSig k tx publicKeys signerKeys address tr =
     (if isSingleSig (spendingCondition (auth tx))
      then (Inl (Error ''Transaction is not a multi-sig transaction''), tr)
      else
        (case resolvePublicKeys k publicKeys
                (signaturesRequired (spendingCondition (auth tx)))
                (hashMode (spendingCondition (auth tx))) address of
           Inl e \<Rightarrow> (Inl e, tr)
         | Inr pubs \<Rightarrow>
             (case signAppendLoop k signerKeys pubs (newTransactionSigner k tx) tr of
                (Inl e, tr') \<Rightarrow> (Inl e, tr')
              | (Inr sg, tr') \<Rightarrow> (Inr (TransactionSigner.transaction sg), tr'))))"

section \<open>The signed builders\<close>

text \<open>The single-sig branch of every signed builder: derive the public key, build the
  unsigned transaction, then \<^verbatim>\<open>new TransactionSigner(transaction).signOrigin(privKey)\<close>.\<close>

definition signWithSenderKey ::
  "Keys \<Rightarrow> string \<Rightarrow> (error + FunaiTransactionWire) \<times> Call list
    \<Rightarrow> (error + FunaiTransactionWire) \<times> Call list" where
  "signWithSenderKey k senderKey built =
     (case built of
        (Inl e, tr1) \<Rightarrow> (Inl e, tr1)
      | (Inr tx, tr1) \<Rightarrow>
          (case signOrigin k (newTransactionSigner k tx) senderKey tr1 of
             (sg, tr2) \<Rightarrow> (Inr (TransactionSigner.transaction sg), tr2)))"

text \<open>The multi-sig branch of the transfer, deploy and call builders: build the unsigned
  transaction, then \<^verbatim>\<open>mutatingSignAppendMultiSig(transaction, publicKeys, signerKeys,
  txOptions.address)\<close>.\<close>

definition signWithSignerKeys ::
  "Keys \<Rightarrow> string list \<Rightarrow> string list \<Rightarrow> string option
    \<Rightarrow> (error + FunaiTransactionWire) \<times> Call list
    \<Rightarrow> (error + FunaiTransactionWire) \<times> Call list" where
  "signWithSignerKeys k publicKeys signerKeys address built =
     (case built of
        (Inl e, tr1) \<Rightarrow> (Inl e, tr1)
      | (Inr tx, tr1) \<Rightarrow> mutatingSignAppendMultiSig k tx publicKeys signerKeys address tr1)"

fun makeInfer ::
  "Env \<Rightarrow> SignedKeys \<Rightarrow> InferOptions \<Rightarrow> Call list
    \<Rightarrow> (error + FunaiTransactionWire) \<times> Call list" where
  "makeInfer env (SenderKey senderKey) txOptions tr =
     signWithSenderKey (keys env) senderKey
       (makeUnsignedInfer env (PublicKey (privateKeyToPublic (keys env) senderKey)) txOptions tr)"
| "makeInfer env (SignedMultiSig _ _ _ _ _) txOptions tr =
     (Inl (UnsupportedMultiSig multiSigInferMessage), tr)"

fun makeRegisterModel ::
  "Env \<Rightarrow> SignedKeys \<Rightarrow> RegisterModelOptions \<Rightarrow> Call list
    \<Rightarrow> (error + FunaiTransactionWire) \<times> Call list" where
  "makeRegisterModel env (SenderKey senderKey) txOptions tr =
     signWithSenderKey (keys env) senderKey
       (makeUnsignedRegisterModel env (PublicKey (privateKeyToPublic (keys env) senderKey))
          txOptions tr)"
| "makeRegisterModel env (SignedMultiSig _ _ _ _ _) txOptions tr =
     (Inl (UnsupportedMultiSig multiSigRegisterModelMessage), tr)"

fun makeFunaiTokenTransfer ::
  "Env \<Rightarrow> SignedKeys \<Rightarrow> TokenTransferOptions \<Rightarrow> Call list
    \<Rightarrow> (error + FunaiTransactionWire) \<times> Call list" where
  "makeFunaiTokenTransfer env (SenderKey senderKey) txOptions tr =
     signWithSenderKey (keys env) senderKey
       (makeUnsignedFunaiTokenTransfer env
          (PublicKey (privateKeyToPublic (keys env) senderKey)) txOptions tr)"
| "makeFunaiTokenTransfer env (SignedMultiSig n publicKeys address u signerKeys) txOptions tr =
     signWithSignerKeys (keys env) publicKeys signerKeys (keyValue address)
       (makeUnsignedFunaiTokenTransfer env (UnsignedMultiSig n publicKeys address u)
          txOptions tr)"

fun makeContractDeploy ::
  "Env \<Rightarrow> SignedKeys \<Rightarrow> BaseContractDeployOptions \<Rightarrow> Call list
    \<Rightarrow> (error + FunaiTransactionWire) \<times> Call list" where
  "makeContractDeploy env (SenderKey senderKey) txOptions tr =
     signWithSenderKey (keys env) senderKey
       (makeUnsignedContractDeploy env
          (PublicKey (privateKeyToPublic (keys env) senderKey)) txOptions tr)"
| "makeContractDeploy env (SignedMultiSig n publicKeys address u signerKeys) txOptions tr =
     signWithSignerKeys (keys env) publicKeys signerKeys (keyValue address)
       (makeUnsignedContractDeploy env (UnsignedMultiSig n publicKeys address u) txOptions tr)"

fun makeContractCall ::
  "Env \<Rightarrow> SignedKeys \<Rightarrow> ContractCallOptions \<Rightarrow> Call list
    \<Rightarrow> (error + FunaiTransactionWire) \<times> Call list" where
  "makeContractCall env (SenderKey senderKey) txOptions tr =
     signWithSenderKey (keys env) senderKey
       (makeUnsignedContractCall env
          (PublicKey (privateKeyToPublic (keys env) senderKey)) txOptions tr)"
| "makeContractCall env (SignedMultiSig n publicKeys address u signerKeys) txOptions tr =
     signWithSignerKeys (keys env) publicKeys signerKeys (keyValue address)
       (makeUnsignedContractCall env (UnsignedMultiSig n publicKeys address u) txOptions tr)"

section \<open>Sponsoring\<close>

text \<open>The \<^verbatim>\<open>switch\<close> of \<^verbatim>\<open>sponsorTransaction\<close> on the payload type: four cases estimate
  the fee, the default throws.\<close>

fun sponsoredFeeSupported :: "PayloadType \<Rightarrow> bool" where
  "sponsoredFeeSupported TokenTransfer = True"
| "sponsoredFeeSupported SmartContract = True"
| "sponsoredFeeSupported VersionedSmartContract = True"
| "sponsoredFeeSupported ContractCall = True"
| "sponsoredFeeSupported _ = False"

text \<open>\<^verbatim>\<open>PayloadType[payloadType]\<close>: the name of the enum member.\<close>

fun payloadTypeName :: "PayloadType \<Rightarrow> string" where
  "payloadTypeName TokenTransfer = ''TokenTransfer''"
| "payloadTypeName ContractCall = ''ContractCall''"
| "payloadTypeName SmartContract = ''SmartContract''"
| "payloadTypeName VersionedSmartContract = ''VersionedSmartContract''"
| "payloadTypeName PoisonMicroblock = ''PoisonMicroblock''"
| "payloadTypeName Coinbase = ''Coinbase''"
| "payloadTypeName CoinbaseToAltRecipient = ''CoinbaseToAltRecipient''"
| "payloadTypeName NakamotoCoinbase = ''NakamotoCoinbase''"
| "payloadTypeName TenureChange = ''TenureChange''"
| "payloadTypeName Infer = ''Infer''"
| "payloadTypeName RegisterModel = ''RegisterModel''"

text \<open>\<^verbatim>\<open>sponsorTransaction\<close> mutates the caller's transaction object. The model returns the
  outcome, the state the object is left in, and the calls made. The fee step
  (\<^verbatim>\<open>if (sponsorOptions.fee == null) { switch ... }\<close>) gives the fee to sponsor with.\<close>

definition sponsorFeeStep ::
  "Env \<Rightarrow> int option \<Rightarrow> FunaiNetwork \<Rightarrow> Client \<Rightarrow> FunaiTransactionWire \<Rightarrow> Call list
    \<Rightarrow> (error + int) \<times> FunaiTransactionWire \<times> Call list" where
  "sponsorFeeStep env fee' net cl tx tr =
     (case fee' of
        Some f \<Rightarrow> (Inr f, tx, tr)
      | None \<Rightarrow>
          if sponsoredFeeSupported (payloadType (payload tx))
          then (case fetchFeeEstimate (collaborators env) tr tx net cl of
                  Inl e \<Rightarrow> (Inl e, tx, tr @ [FetchFeeEstimate tx net cl])
                | Inr txFee \<Rightarrow>
                    (Inr txFee, setFee (wires env) tx txFee, tr @ [FetchFeeEstimate tx net cl]))
          else (Inl (Error (''Sponsored transactions not supported for transaction type ''
                       @ payloadTypeName (payloadType (payload tx)))), tx, tr))"

definition sponsorNonceStep ::
  "Env \<Rightarrow> int option \<Rightarrow> FunaiNetwork \<Rightarrow> Client \<Rightarrow> string \<Rightarrow> Call list
    \<Rightarrow> (error + int) \<times> Call list" where
  "sponsorNonceStep env nonce' net cl sponsorPubKey tr =
     (case nonce' of
        Some n \<Rightarrow> (Inr n, tr)
      | None \<Rightarrow>
          (let address = DerivedAddress
                 (publicKeyToAddress (keys env) (singleSig (addressVersion net)) sponsorPubKey)
           in case fetchNonce (collaborators env) tr address net cl of
                Inl e \<Rightarrow> (Inl e, tr @ [FetchNonce address net cl])
              | Inr n \<Rightarrow> (Inr n, tr @ [FetchNonce address net cl])))"

definition sponsorTransaction ::
  "Env \<Rightarrow> SponsorOptionsOpts \<Rightarrow> Call list
    \<Rightarrow> (error + FunaiTransactionWire) \<times> FunaiTransactionWire \<times> Call list" where
  "sponsorTransaction env sponsorOptions tr =
     (let tx0 = SponsorOptionsOpts.transaction sponsorOptions;
          net = networkFrom
            (case SponsorOptionsOpts.network sponsorOptions of
               None \<Rightarrow> NetworkObject (deriveNetworkFromTx (wires env) tx0)
             | Some n \<Rightarrow> n);
          cl = assignClient net (SponsorOptionsOpts.clientParam sponsorOptions);
          sponsorPubKey = privateKeyToPublic (keys env) (sponsorPrivateKey sponsorOptions)
      in case sponsorFeeStep env (SponsorOptionsOpts.fee sponsorOptions) net cl tx0 tr of
           (Inl e, tx1, tr1) \<Rightarrow> (Inl e, tx1, tr1)
         | (Inr fee', tx1, tr1) \<Rightarrow>
             (case sponsorNonceStep env (sponsorNonce sponsorOptions) net cl sponsorPubKey tr1 of
                (Inl e, tr2) \<Rightarrow> (Inl e, tx1, tr2)
              | (Inr nonce', tr2) \<Rightarrow>
                  (let sponsorSpendingCondition =
                         createSingleSigSpendingCondition (keys env)
                           (case sponsorAddressHashmode sponsorOptions of
                              None \<Rightarrow> P2PKH | Some m \<Rightarrow> m)
                           sponsorPubKey nonce' fee';
                       tx2 = setSponsor (wires env) tx1 sponsorSpendingCondition
                   in case signSponsor (keys env) (createSponsorSigner (keys env) tx2)
                             (sponsorPrivateKey sponsorOptions) tr2 of
                        (Inl e, tr3) \<Rightarrow> (Inl e, tx2, tr3)
                      | (Inr sg, tr3) \<Rightarrow>
                          (Inr (TransactionSigner.transaction sg),
                           TransactionSigner.transaction sg, tr3))))"

section \<open>The API layer and the builders as one operation\<close>


text \<open>A transaction-building call: one of the five builders with its options. The
  dispatchers are not functions of the source; they let a property be stated once for every
  builder.\<close>

datatype BuildRequest =
    TokenTransferRequest TokenTransferOptions
  | ContractDeployRequest BaseContractDeployOptions
  | ContractCallRequest ContractCallOptions
  | InferRequest InferOptions
  | RegisterModelRequest RegisterModelOptions

fun makeUnsigned ::
  "Env \<Rightarrow> UnsignedKeys \<Rightarrow> BuildRequest \<Rightarrow> Call list
    \<Rightarrow> (error + FunaiTransactionWire) \<times> Call list" where
  "makeUnsigned env ko (TokenTransferRequest opts) tr =
     makeUnsignedFunaiTokenTransfer env ko opts tr"
| "makeUnsigned env ko (ContractDeployRequest opts) tr = makeUnsignedContractDeploy env ko opts tr"
| "makeUnsigned env ko (ContractCallRequest opts) tr = makeUnsignedContractCall env ko opts tr"
| "makeUnsigned env ko (InferRequest opts) tr = makeUnsignedInfer env ko opts tr"
| "makeUnsigned env ko (RegisterModelRequest opts) tr = makeUnsignedRegisterModel env ko opts tr"

fun makeSigned ::
  "Env \<Rightarrow> SignedKeys \<Rightarrow> BuildRequest \<Rightarrow> Call list
    \<Rightarrow> (error + FunaiTransactionWire) \<times> Call list" where
  "makeSigned env ko (TokenTransferRequest opts) tr = makeFunaiTokenTransfer env ko opts tr"
| "makeSigned env ko (ContractDeployRequest opts) tr = makeContractDeploy env ko opts tr"
| "makeSigned env ko (ContractCallRequest opts) tr = makeContractCall env ko opts tr"
| "makeSigned env ko (InferRequest opts) tr = makeInfer env ko opts tr"
| "makeSigned env ko (RegisterModelRequest opts) tr = makeRegisterModel env ko opts tr"

text \<open>The fee and nonce the caller supplied (\<open>None\<close>: omitted, that is \<^verbatim>\<open>txOptions.fee ==
  null\<close>), the keys themselves, and the network and client the call resolves.\<close>

fun requestFee :: "BuildRequest \<Rightarrow> int option" where
  "requestFee (TokenTransferRequest opts) = callerFee opts"
| "requestFee (ContractDeployRequest opts) = callerFee opts"
| "requestFee (ContractCallRequest opts) = callerFee opts"
| "requestFee (InferRequest opts) = callerFee opts"
| "requestFee (RegisterModelRequest opts) = callerFee opts"

fun requestNonce :: "BuildRequest \<Rightarrow> int option" where
  "requestNonce (TokenTransferRequest opts) = callerNonce opts"
| "requestNonce (ContractDeployRequest opts) = callerNonce opts"
| "requestNonce (ContractCallRequest opts) = callerNonce opts"
| "requestNonce (InferRequest opts) = callerNonce opts"
| "requestNonce (RegisterModelRequest opts) = callerNonce opts"

fun requestFeeKey :: "BuildRequest \<Rightarrow> int Key" where
  "requestFeeKey (TokenTransferRequest opts) = TxOptions.fee opts"
| "requestFeeKey (ContractDeployRequest opts) = TxOptions.fee opts"
| "requestFeeKey (ContractCallRequest opts) = TxOptions.fee opts"
| "requestFeeKey (InferRequest opts) = TxOptions.fee opts"
| "requestFeeKey (RegisterModelRequest opts) = TxOptions.fee opts"

fun requestNonceKey :: "BuildRequest \<Rightarrow> int Key" where
  "requestNonceKey (TokenTransferRequest opts) = TxOptions.nonce opts"
| "requestNonceKey (ContractDeployRequest opts) = TxOptions.nonce opts"
| "requestNonceKey (ContractCallRequest opts) = TxOptions.nonce opts"
| "requestNonceKey (InferRequest opts) = TxOptions.nonce opts"
| "requestNonceKey (RegisterModelRequest opts) = TxOptions.nonce opts"

text \<open>The key options that a signed builder hands to its unsigned builder: the public key
  of the sender key, or the multi-sig options without the signer keys.\<close>

fun unsignedKeys :: "Keys \<Rightarrow> SignedKeys \<Rightarrow> UnsignedKeys" where
  "unsignedKeys k (SenderKey senderKey) = PublicKey (privateKeyToPublic k senderKey)"
| "unsignedKeys k (SignedMultiSig n publicKeys address u signerKeys) =
     UnsignedMultiSig n publicKeys address u"

fun requestNetwork :: "BuildRequest \<Rightarrow> FunaiNetwork" where
  "requestNetwork (TokenTransferRequest opts) = optionsNetwork opts"
| "requestNetwork (ContractDeployRequest opts) = optionsNetwork opts"
| "requestNetwork (ContractCallRequest opts) = optionsNetwork opts"
| "requestNetwork (InferRequest opts) = optionsNetwork opts"
| "requestNetwork (RegisterModelRequest opts) = optionsNetwork opts"

fun requestClient :: "BuildRequest \<Rightarrow> Client" where
  "requestClient (TokenTransferRequest opts) = optionsClient opts"
| "requestClient (ContractDeployRequest opts) = optionsClient opts"
| "requestClient (ContractCallRequest opts) = optionsClient opts"
| "requestClient (InferRequest opts) = optionsClient opts"
| "requestClient (RegisterModelRequest opts) = optionsClient opts"

text \<open>Whether the call asks the ABI collaborator: a contract call with
  \<^verbatim>\<open>validateWithAbi: true\<close>.\<close>

fun fetchesAbi :: "BuildRequest \<Rightarrow> bool" where
  "fetchesAbi (ContractCallRequest opts) = (validateWithAbi opts = Some (AbiFlag True))"
| "fetchesAbi _ = False"

fun isAbiCall :: "Call \<Rightarrow> bool" where
  "isAbiCall (FetchAbi _ _ _ _) = True"
| "isAbiCall _ = False"

text \<open>The builders with a multi-sig signing path.\<close>

fun supportsMultiSig :: "BuildRequest \<Rightarrow> bool" where
  "supportsMultiSig (TokenTransferRequest _) = True"
| "supportsMultiSig (ContractDeployRequest _) = True"
| "supportsMultiSig (ContractCallRequest _) = True"
| "supportsMultiSig _ = False"



text \<open>The calls an operation made: what it added to the calls made before it.\<close>

definition newCalls :: "Call list \<Rightarrow> Call list \<Rightarrow> Call list" where
  "newCalls tr tr' = drop (length tr) tr'"

section \<open>Signed messages\<close>

text \<open>
  \<^verbatim>\<open>encodeMessage\<close> and \<^verbatim>\<open>decodeMessage\<close> frame a message as prefix, variable-length
  integer holding the message's length, message bytes.  The variable-length integer codec
  (\<^verbatim>\<open>./varuint\<close>) and \<^verbatim>\<open>utf8ToBytes\<close> are not among the sources: they are parameters.
\<close>

datatype Message = MessageString string | MessageBytes bytes

record Varuint =
  encode :: "nat \<Rightarrow> error + bytes"
  decode :: "bytes \<Rightarrow> error + nat"
  encodingLength :: "nat \<Rightarrow> error + nat"

definition chainPrefix :: string where
  "chainPrefix = CHR 0x16 # ''Funai Signed Message:'' @ [CHR 0x0A]"

text \<open>The default value of the parameter \<^verbatim>\<open>prefix\<close>.\<close>

definition prefixOrDefault :: "string option \<Rightarrow> string" where
  "prefixOrDefault p = (case p of None \<Rightarrow> chainPrefix | Some s \<Rightarrow> s)"

text \<open>\<^verbatim>\<open>typeof message == 'string' ? utf8ToBytes(message) : message\<close>\<close>

fun messageBytes :: "(string \<Rightarrow> bytes) \<Rightarrow> Message \<Rightarrow> bytes" where
  "messageBytes utf8ToBytes (MessageString s) = utf8ToBytes s"
| "messageBytes utf8ToBytes (MessageBytes b) = b"

definition encodeMessage ::
  "Varuint \<Rightarrow> (string \<Rightarrow> bytes) \<Rightarrow> Message \<Rightarrow> string option \<Rightarrow> error + bytes" where
  "encodeMessage v utf8ToBytes message prefix' =
     (case encode v (length (messageBytes utf8ToBytes message)) of
        Inl e \<Rightarrow> Inl e
      | Inr encodedLength \<Rightarrow>
          Inr (utf8ToBytes (prefixOrDefault prefix') @ encodedLength
               @ messageBytes utf8ToBytes message))"

text \<open>\<^verbatim>\<open>subarray\<close> and \<^verbatim>\<open>slice\<close> past the end give the empty array, as \<^const>\<open>drop\<close> does.\<close>

definition decodeMessage ::
  "Varuint \<Rightarrow> (string \<Rightarrow> bytes) \<Rightarrow> bytes \<Rightarrow> string option \<Rightarrow> error + bytes" where
  "decodeMessage v utf8ToBytes encodedMessage prefix' =
     (let prefixByteLength = length (utf8ToBytes (prefixOrDefault prefix'));
          messageWithoutChainPrefix = drop prefixByteLength encodedMessage
      in case decode v messageWithoutChainPrefix of
           Inl e \<Rightarrow> Inl e
         | Inr decoded \<Rightarrow>
             (case encodingLength v decoded of
                Inl e \<Rightarrow> Inl e
              | Inr varIntLength \<Rightarrow> Inr (drop varIntLength messageWithoutChainPrefix)))"


section \<open>The codecs of wire primitives and Clarity values\<close>

text \<open>
  Modelled from the spec: the modules that serialize and deserialize wire primitives and
  Clarity values are not among the sources.  Sections 3, 4.1 and 4.2 of the spec give the
  layouts; what they leave to the use-site (the values of the type tags and of the encoding
  byte of a public key, the prefix width and maximum length of names) is a parameter,
  \<open>WireFormat\<close>.  A string is the list of its UTF-8 bytes, one character per byte.
\<close>

fun bigEndian :: "nat \<Rightarrow> nat \<Rightarrow> bytes" where
  "bigEndian 0 n = []"
| "bigEndian (Suc k) n = bigEndian k (n div 256) @ [of_nat (n mod 256)]"

definition fromBigEndian :: "bytes \<Rightarrow> nat" where
  "fromBigEndian bs = foldl (\<lambda>acc b. 256 * acc + unat b) 0 bs"

definition contentBytes :: "string \<Rightarrow> bytes" where
  "contentBytes s = map (\<lambda>c. of_nat (of_char c)) s"

definition contentString :: "bytes \<Rightarrow> string" where
  "contentString bs = map (\<lambda>b. char_of (unat b)) bs"

definition andThen :: "error + 'a \<Rightarrow> ('a \<Rightarrow> error + 'b) \<Rightarrow> error + 'b" where
  "andThen r f = (case r of Inl e \<Rightarrow> Inl e | Inr x \<Rightarrow> f x)"

text \<open>Modelled from the spec: reading past the end of the buffer is a \<open>MalformedLength\<close>.\<close>

definition readBytes :: "nat \<Rightarrow> bytes \<Rightarrow> error + (bytes \<times> bytes)" where
  "readBytes n bs =
     (if length bs < n then Inl MalformedLength else Inr (take n bs, drop n bs))"

definition readUInt :: "nat \<Rightarrow> bytes \<Rightarrow> error + (nat \<times> bytes)" where
  "readUInt w bs = andThen (readBytes w bs) (\<lambda>(b, r). Inr (fromBigEndian b, r))"

primrec readMany ::
  "(bytes \<Rightarrow> error + ('a \<times> bytes)) \<Rightarrow> nat \<Rightarrow> bytes \<Rightarrow> error + ('a list \<times> bytes)" where
  "readMany dec 0 bs = Inr ([], bs)"
| "readMany dec (Suc n) bs =
     andThen (dec bs) (\<lambda>(x, r).
     andThen (readMany dec n r) (\<lambda>(xs, r'). Inr (x # xs, r')))"

datatype ClarityWireType =
    WireInt | WireUInt | WireBuffer | WireTrue | WireFalse | WireAddress | WireContract
  | WireOk | WireErr | WireNone | WireSome | WireList | WireTuple

definition allClarityWireTypes :: "ClarityWireType list" where
  "allClarityWireTypes =
     [WireInt, WireUInt, WireBuffer, WireTrue, WireFalse, WireAddress, WireContract,
      WireOk, WireErr, WireNone, WireSome, WireList, WireTuple]"

record WireFormat =
  clarityTag :: "ClarityWireType \<Rightarrow> 8 word"
  pubKeyEncodingTag :: "PubKeyEncoding \<Rightarrow> 8 word"
  nameLengthPrefixBytes :: nat
  nameMaxLengthBytes :: nat

text \<open>Modelled from the spec: every variant has a tag of its own (a fixed one-byte type
  tag), and so has each encoding of a public key; the declared maximum of a name fits the
  declared width of its length prefix.\<close>

definition wellFormedFormat :: "WireFormat \<Rightarrow> bool" where
  "wellFormedFormat fmt \<longleftrightarrow>
     distinct (map (clarityTag fmt) allClarityWireTypes)
   \<and> pubKeyEncodingTag fmt Compressed \<noteq> pubKeyEncodingTag fmt Uncompressed
   \<and> (nameLengthPrefixBytes fmt = 1 \<or> nameLengthPrefixBytes fmt = 4)
   \<and> nameMaxLengthBytes fmt < 256 ^ nameLengthPrefixBytes fmt"

subsection \<open>Wire primitives\<close>

text \<open>Modelled from the spec (section 3, Wire Primitive): the kinds of primitive, with what
  a use-site declares (prefix width, maximum length, the kind of the elements of a list), and
  the primitives at the level of bytes: address (version byte, hash), length-prefixed string
  (content, prefix width, maximum length), memo, length-prefixed list (prefix width, kind of
  the elements, elements), public key (encoding, bytes), message signature.\<close>

datatype WireKind =
    AddressKind
  | LengthPrefixedStringKind nat nat
  | MemoStringKind
  | LengthPrefixedListKind nat WireKind
  | PublicKeyKind
  | MessageSignatureKind

datatype WirePrimitive =
    AddressPrimitive "8 word" bytes
  | LengthPrefixedStringPrimitive string nat nat
  | MemoStringPrimitive string
  | LengthPrefixedListPrimitive nat WireKind "WirePrimitive list"
  | PublicKeyPrimitive PubKeyEncoding bytes
  | MessageSignaturePrimitive bytes

fun wireKind :: "WirePrimitive \<Rightarrow> WireKind" where
  "wireKind (AddressPrimitive _ _) = AddressKind"
| "wireKind (LengthPrefixedStringPrimitive _ w m) = LengthPrefixedStringKind w m"
| "wireKind (MemoStringPrimitive _) = MemoStringKind"
| "wireKind (LengthPrefixedListPrimitive w k _) = LengthPrefixedListKind w k"
| "wireKind (PublicKeyPrimitive _ _) = PublicKeyKind"
| "wireKind (MessageSignaturePrimitive _) = MessageSignatureKind"

definition MEMO_MAX_LENGTH_BYTES :: nat where
  "MEMO_MAX_LENGTH_BYTES = 34"

definition HASH_LENGTH_BYTES :: nat where
  "HASH_LENGTH_BYTES = 20"

definition SIGNATURE_LENGTH_BYTES :: nat where
  "SIGNATURE_LENGTH_BYTES = 65"

fun publicKeyLength :: "PubKeyEncoding \<Rightarrow> nat" where
  "publicKeyLength Compressed = 33"
| "publicKeyLength Uncompressed = 65"

text \<open>Modelled from the spec: a string longer than its declared maximum, and a memo longer
  than 34 bytes, are refused with \<open>ValueTooLong\<close> when the primitive is constructed.\<close>

definition createLPString :: "string \<Rightarrow> nat \<Rightarrow> nat \<Rightarrow> error + WirePrimitive" where
  "createLPString content lengthPrefixBytes maxLengthBytes =
     (if length (contentBytes content) > maxLengthBytes then Inl ValueTooLong
      else Inr (LengthPrefixedStringPrimitive content lengthPrefixBytes maxLengthBytes))"

definition createMemoString :: "string \<Rightarrow> error + WirePrimitive" where
  "createMemoString content =
     (if length (contentBytes content) > MEMO_MAX_LENGTH_BYTES then Inl ValueTooLong
      else Inr (MemoStringPrimitive content))"

text \<open>Modelled from the spec: the constraints a constructed primitive satisfies (well-formed
  input).\<close>

fun wellFormedWire :: "WirePrimitive \<Rightarrow> bool" where
  "wellFormedWire (AddressPrimitive v h) \<longleftrightarrow> length h = HASH_LENGTH_BYTES"
| "wellFormedWire (LengthPrefixedStringPrimitive s w m) \<longleftrightarrow>
     (w = 1 \<or> w = 4) \<and> m < 256 ^ w \<and> length (contentBytes s) \<le> m"
| "wellFormedWire (MemoStringPrimitive s) \<longleftrightarrow>
     length (contentBytes s) \<le> MEMO_MAX_LENGTH_BYTES"
| "wellFormedWire (LengthPrefixedListPrimitive w k xs) \<longleftrightarrow>
     (w = 1 \<or> w = 4) \<and> length xs < 256 ^ w
   \<and> list_all (\<lambda>x. wireKind x = k \<and> wellFormedWire x) xs"
| "wellFormedWire (PublicKeyPrimitive enc bs) \<longleftrightarrow> length bs = publicKeyLength enc"
| "wellFormedWire (MessageSignaturePrimitive bs) \<longleftrightarrow> length bs = SIGNATURE_LENGTH_BYTES"

text \<open>Modelled from the spec (section 4.1): \<open>encode\<close> of a primitive.  A length-prefixed
  string or list writes its length in the declared width, then the content bytes or the
  elements; a memo is a fixed field of 34 bytes, padded with zeros.\<close>

fun serializeWire :: "WireFormat \<Rightarrow> WirePrimitive \<Rightarrow> bytes" where
  "serializeWire fmt (AddressPrimitive v h) = v # h"
| "serializeWire fmt (LengthPrefixedStringPrimitive s w m) =
     bigEndian w (length (contentBytes s)) @ contentBytes s"
| "serializeWire fmt (MemoStringPrimitive s) =
     contentBytes s @ replicate (MEMO_MAX_LENGTH_BYTES - length (contentBytes s)) 0"
| "serializeWire fmt (LengthPrefixedListPrimitive w k xs) =
     bigEndian w (length xs) @ concat (map (serializeWire fmt) xs)"
| "serializeWire fmt (PublicKeyPrimitive enc bs) = pubKeyEncodingTag fmt enc # bs"
| "serializeWire fmt (MessageSignaturePrimitive bs) = bs"

definition stripPadding :: "bytes \<Rightarrow> bytes" where
  "stripPadding bs = rev (dropWhile (\<lambda>b. b = 0) (rev bs))"

text \<open>Modelled from the spec (section 4.1): \<open>decode\<close> of a primitive of a declared kind at
  the head of a buffer, returning the primitive and the rest of the buffer.  A declared
  length beyond the rest of the buffer is a \<open>MalformedLength\<close>, one beyond the declared
  maximum a \<open>ValueTooLong\<close>.  The content of a memo is the field without its padding.\<close>

fun deserializeWire ::
  "WireFormat \<Rightarrow> WireKind \<Rightarrow> bytes \<Rightarrow> error + (WirePrimitive \<times> bytes)" where
  "deserializeWire fmt AddressKind bs =
     andThen (readBytes 1 bs) (\<lambda>(v, r).
     andThen (readBytes HASH_LENGTH_BYTES r) (\<lambda>(h, r').
     Inr (AddressPrimitive (hd v) h, r')))"
| "deserializeWire fmt (LengthPrefixedStringKind w m) bs =
     andThen (readUInt w bs) (\<lambda>(n, r).
     if n > m then Inl ValueTooLong
     else andThen (readBytes n r) (\<lambda>(c, r').
     Inr (LengthPrefixedStringPrimitive (contentString c) w m, r')))"
| "deserializeWire fmt MemoStringKind bs =
     andThen (readBytes MEMO_MAX_LENGTH_BYTES bs) (\<lambda>(c, r).
     Inr (MemoStringPrimitive (contentString (stripPadding c)), r))"
| "deserializeWire fmt (LengthPrefixedListKind w k) bs =
     andThen (readUInt w bs) (\<lambda>(n, r).
     andThen (readMany (\<lambda>b. deserializeWire fmt k b) n r) (\<lambda>(xs, r').
     Inr (LengthPrefixedListPrimitive w k xs, r')))"
| "deserializeWire fmt PublicKeyKind bs =
     andThen (readBytes 1 bs) (\<lambda>(t, r).
     case find (\<lambda>enc. pubKeyEncodingTag fmt enc = hd t) [Compressed, Uncompressed] of
       None \<Rightarrow> Inl (Error ''unknown public key encoding'')
     | Some enc \<Rightarrow>
         andThen (readBytes (publicKeyLength enc) r) (\<lambda>(k, r').
         Inr (PublicKeyPrimitive enc k, r')))"
| "deserializeWire fmt MessageSignatureKind bs =
     andThen (readBytes SIGNATURE_LENGTH_BYTES bs) (\<lambda>(s, r).
     Inr (MessageSignaturePrimitive s, r))"

text \<open>No memo, at any depth of a list, ends in a zero byte.\<close>

fun paddingFree :: "WirePrimitive \<Rightarrow> bool" where
  "paddingFree (MemoStringPrimitive s) \<longleftrightarrow> s = [] \<or> last s \<noteq> CHR 0x00"
| "paddingFree (LengthPrefixedListPrimitive w k xs) \<longleftrightarrow> list_all paddingFree xs"
| "paddingFree _ \<longleftrightarrow> True"

text \<open>A primitive as decoding returns it: every memo without the zero characters it
  ends in.\<close>

definition withoutTrailingZeros :: "string \<Rightarrow> string" where
  "withoutTrailingZeros s = rev (dropWhile (\<lambda>c. c = CHR 0x00) (rev s))"

fun withoutPadding :: "WirePrimitive \<Rightarrow> WirePrimitive" where
  "withoutPadding (MemoStringPrimitive s) = MemoStringPrimitive (withoutTrailingZeros s)"
| "withoutPadding (LengthPrefixedListPrimitive w k xs) =
     LengthPrefixedListPrimitive w k (map withoutPadding xs)"
| "withoutPadding (AddressPrimitive v h) = AddressPrimitive v h"
| "withoutPadding (LengthPrefixedStringPrimitive s w m) = LengthPrefixedStringPrimitive s w m"
| "withoutPadding (PublicKeyPrimitive enc bs) = PublicKeyPrimitive enc bs"
| "withoutPadding (MessageSignaturePrimitive bs) = MessageSignaturePrimitive bs"

subsection \<open>Clarity values\<close>

text \<open>Modelled from the spec (section 3, Clarity Value): integers are 128-bit, a principal
  holds an address (and a contract name), lengths and counts fit their 4-byte prefix.\<close>

fun wellFormedCV :: "WireFormat \<Rightarrow> ClarityValue \<Rightarrow> bool" where
  "wellFormedCV fmt (IntCV i) \<longleftrightarrow> - (2 ^ 127) \<le> i \<and> i < 2 ^ 127"
| "wellFormedCV fmt (UIntCV u) \<longleftrightarrow> 0 \<le> u \<and> u < 2 ^ 128"
| "wellFormedCV fmt (BufferCV b) \<longleftrightarrow> length b < 2 ^ 32"
| "wellFormedCV fmt BoolTrue \<longleftrightarrow> True"
| "wellFormedCV fmt BoolFalse \<longleftrightarrow> True"
| "wellFormedCV fmt (StandardPrincipalCV v h) \<longleftrightarrow> length h = HASH_LENGTH_BYTES"
| "wellFormedCV fmt (ContractPrincipalCV v h name) \<longleftrightarrow>
     length h = HASH_LENGTH_BYTES
   \<and> length (contentBytes name) \<le> nameMaxLengthBytes fmt"
| "wellFormedCV fmt OptionalNone \<longleftrightarrow> True"
| "wellFormedCV fmt (OptionalSome v) \<longleftrightarrow> wellFormedCV fmt v"
| "wellFormedCV fmt (ResponseOk v) \<longleftrightarrow> wellFormedCV fmt v"
| "wellFormedCV fmt (ResponseErr v) \<longleftrightarrow> wellFormedCV fmt v"
| "wellFormedCV fmt (ListCV vs) \<longleftrightarrow> length vs < 2 ^ 32 \<and> list_all (wellFormedCV fmt) vs"
| "wellFormedCV fmt (TupleCV kvs) \<longleftrightarrow>
     length kvs < 2 ^ 32
   \<and> list_all (\<lambda>(k, v). length (contentBytes k) \<le> nameMaxLengthBytes fmt
                       \<and> wellFormedCV fmt v) kvs"

definition serializeName :: "WireFormat \<Rightarrow> string \<Rightarrow> bytes" where
  "serializeName fmt name =
     serializeWire fmt
       (LengthPrefixedStringPrimitive name (nameLengthPrefixBytes fmt) (nameMaxLengthBytes fmt))"

definition deserializeName :: "WireFormat \<Rightarrow> bytes \<Rightarrow> error + (string \<times> bytes)" where
  "deserializeName fmt bs =
     andThen (deserializeWire fmt
        (LengthPrefixedStringKind (nameLengthPrefixBytes fmt) (nameMaxLengthBytes fmt)) bs)
       (\<lambda>(p, r). case p of
           LengthPrefixedStringPrimitive name _ _ \<Rightarrow> Inr (name, r)
         | _ \<Rightarrow> Inl MalformedLength)"

text \<open>Modelled from the spec (section 4.2): \<open>encode\<close> of a Clarity value: the type tag, then
  the fields of the variant.  Integers are 16 bytes, big-endian, two's complement when signed;
  a buffer is a 4-byte length and its bytes; a list is a 4-byte count and its elements; a
  tuple is a 4-byte count and its (key, value) pairs in the order of insertion.\<close>

fun serializeCV :: "WireFormat \<Rightarrow> ClarityValue \<Rightarrow> bytes" where
  "serializeCV fmt (IntCV i) = clarityTag fmt WireInt # bigEndian 16 (nat (i mod 2 ^ 128))"
| "serializeCV fmt (UIntCV u) = clarityTag fmt WireUInt # bigEndian 16 (nat (u mod 2 ^ 128))"
| "serializeCV fmt (BufferCV b) = clarityTag fmt WireBuffer # bigEndian 4 (length b) @ b"
| "serializeCV fmt BoolTrue = [clarityTag fmt WireTrue]"
| "serializeCV fmt BoolFalse = [clarityTag fmt WireFalse]"
| "serializeCV fmt (StandardPrincipalCV v h) =
     clarityTag fmt WireAddress # serializeWire fmt (AddressPrimitive v h)"
| "serializeCV fmt (ContractPrincipalCV v h name) =
     clarityTag fmt WireContract # serializeWire fmt (AddressPrimitive v h)
       @ serializeName fmt name"
| "serializeCV fmt OptionalNone = [clarityTag fmt WireNone]"
| "serializeCV fmt (OptionalSome v) = clarityTag fmt WireSome # serializeCV fmt v"
| "serializeCV fmt (ResponseOk v) = clarityTag fmt WireOk # serializeCV fmt v"
| "serializeCV fmt (ResponseErr v) = clarityTag fmt WireErr # serializeCV fmt v"
| "serializeCV fmt (ListCV vs) =
     clarityTag fmt WireList # bigEndian 4 (length vs) @ concat (map (serializeCV fmt) vs)"
| "serializeCV fmt (TupleCV kvs) =
     clarityTag fmt WireTuple # bigEndian 4 (length kvs)
       @ concat (map (\<lambda>(k, v). serializeName fmt k @ serializeCV fmt v) kvs)"

definition twosComplement128 :: "nat \<Rightarrow> int" where
  "twosComplement128 n = (if n < 2 ^ 127 then int n else int n - 2 ^ 128)"

definition deserializeAddress :: "WireFormat \<Rightarrow> bytes \<Rightarrow> error + ((8 word \<times> bytes) \<times> bytes)" where
  "deserializeAddress fmt bs =
     andThen (deserializeWire fmt AddressKind bs) (\<lambda>(p, r). case p of
         AddressPrimitive v h \<Rightarrow> Inr ((v, h), r)
       | _ \<Rightarrow> Inl MalformedLength)"

text \<open>Modelled from the spec (section 4.2): \<open>decode\<close> of a Clarity value at the head of a
  buffer.  An unknown type tag is an \<open>UnknownClarityType\<close>.  The decoder descends into a
  nested value after reading its tag, so the depth of the descent is bounded by the size of
  the buffer, which is the first argument here.\<close>

fun deserializeCVDepth ::
  "WireFormat \<Rightarrow> nat \<Rightarrow> bytes \<Rightarrow> error + (ClarityValue \<times> bytes)" where
  "deserializeCVDepth fmt 0 bs = Inl MalformedLength"
| "deserializeCVDepth fmt (Suc d) [] = Inl MalformedLength"
| "deserializeCVDepth fmt (Suc d) (t # bs) =
     (case find (\<lambda>ty. clarityTag fmt ty = t) allClarityWireTypes of
        None \<Rightarrow> Inl UnknownClarityType
      | Some WireInt \<Rightarrow>
          andThen (readUInt 16 bs) (\<lambda>(n, r). Inr (IntCV (twosComplement128 n), r))
      | Some WireUInt \<Rightarrow>
          andThen (readUInt 16 bs) (\<lambda>(n, r). Inr (UIntCV (int n), r))
      | Some WireBuffer \<Rightarrow>
          andThen (readUInt 4 bs) (\<lambda>(n, r).
          andThen (readBytes n r) (\<lambda>(b, r'). Inr (BufferCV b, r')))
      | Some WireTrue \<Rightarrow> Inr (BoolTrue, bs)
      | Some WireFalse \<Rightarrow> Inr (BoolFalse, bs)
      | Some WireAddress \<Rightarrow>
          andThen (deserializeAddress fmt bs) (\<lambda>((v, h), r). Inr (StandardPrincipalCV v h, r))
      | Some WireContract \<Rightarrow>
          andThen (deserializeAddress fmt bs) (\<lambda>((v, h), r).
          andThen (deserializeName fmt r) (\<lambda>(name, r').
          Inr (ContractPrincipalCV v h name, r')))
      | Some WireNone \<Rightarrow> Inr (OptionalNone, bs)
      | Some WireSome \<Rightarrow>
          andThen (deserializeCVDepth fmt d bs) (\<lambda>(v, r). Inr (OptionalSome v, r))
      | Some WireOk \<Rightarrow>
          andThen (deserializeCVDepth fmt d bs) (\<lambda>(v, r). Inr (ResponseOk v, r))
      | Some WireErr \<Rightarrow>
          andThen (deserializeCVDepth fmt d bs) (\<lambda>(v, r). Inr (ResponseErr v, r))
      | Some WireList \<Rightarrow>
          andThen (readUInt 4 bs) (\<lambda>(n, r).
          andThen (readMany (\<lambda>b. deserializeCVDepth fmt d b) n r) (\<lambda>(vs, r').
          Inr (ListCV vs, r')))
      | Some WireTuple \<Rightarrow>
          andThen (readUInt 4 bs) (\<lambda>(n, r).
          andThen (readMany (\<lambda>b.
              andThen (deserializeName fmt b) (\<lambda>(k, r1).
              andThen (deserializeCVDepth fmt d r1) (\<lambda>(v, r2). Inr ((k, v), r2)))) n r)
            (\<lambda>(kvs, r'). Inr (TupleCV kvs, r'))))"

definition deserializeCV :: "WireFormat \<Rightarrow> bytes \<Rightarrow> error + (ClarityValue \<times> bytes)" where
  "deserializeCV fmt bs = deserializeCVDepth fmt (length bs) bs"


section \<open>Example environment\<close>

text \<open>A concrete environment and concrete options, on which the theorems below are
  instantiated: stand-ins for the key functions, the payload constructors and the
  collaborators. The example hash of a key list records the lengths of the keys in order, so it
  tells one order of keys of different lengths from another.\<close>

definition exampleKeys :: Keys where
  "exampleKeys = \<lparr>
     nullishInteger = (\<lambda>_. Inl (Error ''Invalid value type'')),
     privateKeyToPublic = (\<lambda>key. ''pub-'' @ key),
     createFunaiPublicKey = map (\<lambda>c. of_nat (of_char c)),
     publicKeyEncoding = (\<lambda>_. Compressed),
     addressFromPublicKeys =
       (\<lambda>mode n ks. concat (map (\<lambda>bs. replicate (length bs) (CHR ''x'') @ ''.'') ks)),
     createAddress = (\<lambda>a. a),
     publicKeyToAddress = (\<lambda>v pk. c32address v pk),
     getAddressFromPrivateKey = (\<lambda>key net. ''ST-'' @ key),
     signBegin = (\<lambda>_. ''h0''),
     sponsorSignBegin = (\<lambda>_. ''s0''),
     sigHashPreSign = (\<lambda>h e f n. h @ ''+''),
     signWithKey = (\<lambda>key h. ''sig-'' @ key @ ''-'' @ h),
     sigHashPostSign = (\<lambda>h fld. h @ ''!'')\<rparr>"

definition examplePrincipal :: "string \<Rightarrow> ClarityValue" where
  "examplePrincipal s = StandardPrincipalCV 26 (map (\<lambda>c. of_nat (of_char c)) s)"

definition exampleLPString :: "string \<Rightarrow> LengthPrefixedStringWire" where
  "exampleLPString s = LengthPrefixedStringWire s 1 128"

fun exampleSetFeeAuth :: "Authorization \<Rightarrow> int \<Rightarrow> Authorization" where
  "exampleSetFeeAuth (StandardAuth (SingleSigSpendingCondition m s n _ e g)) f =
     StandardAuth (SingleSigSpendingCondition m s n f e g)"
| "exampleSetFeeAuth (StandardAuth (MultiSigSpendingCondition m s n _ fs r)) f =
     StandardAuth (MultiSigSpendingCondition m s n f fs r)"
| "exampleSetFeeAuth a f = a"

fun exampleSetNonceAuth :: "Authorization \<Rightarrow> int \<Rightarrow> Authorization" where
  "exampleSetNonceAuth (StandardAuth (SingleSigSpendingCondition m s _ f e g)) n =
     StandardAuth (SingleSigSpendingCondition m s n f e g)"
| "exampleSetNonceAuth (StandardAuth (MultiSigSpendingCondition m s _ f fs r)) n =
     StandardAuth (MultiSigSpendingCondition m s n f fs r)"
| "exampleSetNonceAuth a n = a"

fun exampleSetSponsorAuth :: "Authorization \<Rightarrow> SpendingCondition \<Rightarrow> Authorization" where
  "exampleSetSponsorAuth (SponsoredAuth origin _) sc = SponsoredAuth origin (Some sc)"
| "exampleSetSponsorAuth a sc = a"

definition exampleWires :: Wires where
  "exampleWires = \<lparr>
     createTokenTransferPayload =
       (\<lambda>r a m. if 34 < length m then Inl ValueTooLong
          else Inr (TokenTransferPayloadWire
                 (case r of RecipientAddress s \<Rightarrow> examplePrincipal s | RecipientCV cv \<Rightarrow> cv)
                 a (MemoStringWire m))),
     createInferPayload =
       (\<lambda>u a i c n m. if 128 < length m then Inl ValueTooLong
          else Inr (InferPayloadWire (examplePrincipal u) a (exampleLPString i)
                 (exampleLPString c) (examplePrincipal n) (exampleLPString m))),
     createRegisterModelPayload =
       (\<lambda>m p. if 128 < length m then Inl ValueTooLong
          else Inr (RegisterModelPayloadWire (exampleLPString m) (exampleLPString p))),
     createSmartContractPayload =
       (\<lambda>n c v. if 128 < length n then Inl ValueTooLong
          else Inr (VersionedSmartContractPayloadWire v (exampleLPString n)
                 (exampleLPString c))),
     createContractCallPayload =
       (\<lambda>a n f args. if 128 < length f then Inl ValueTooLong
          else Inr (ContractCallPayload (AddressWire MainnetSingleSig a) (exampleLPString n)
                 (exampleLPString f) args)),
     createLPList = LengthPrefixedList 4,
     postConditionToWire = (\<lambda>_. STXPostConditionWire OriginPrincipalWire Equal 0),
     postConditionModeFrom =
       (\<lambda>p. case p of ModeName s \<Rightarrow> (if s = ''allow'' then Allow else Deny)
             | ModeValue m \<Rightarrow> m),
     validateContractCall = (\<lambda>_ _. None),
     setFee = (\<lambda>tx f. tx\<lparr>auth := exampleSetFeeAuth (auth tx) f\<rparr>),
     setNonce = (\<lambda>tx n. tx\<lparr>auth := exampleSetNonceAuth (auth tx) n\<rparr>),
     setSponsor = (\<lambda>tx sc. tx\<lparr>auth := exampleSetSponsorAuth (auth tx) sc\<rparr>),
     deriveNetworkFromTx =
       (\<lambda>tx. if tx_transactionVersion tx = TransactionVersion_Mainnet then FUNAI_MAINNET
             else FUNAI_TESTNET),
     serialize =
       (\<lambda>tx. map (\<lambda>c. of_nat (of_char c)) (payloadTypeName (payloadType (payload tx))))\<rparr>"

definition exampleCollaborators :: Collaborators where
  "exampleCollaborators = \<lparr>
     fetchFeeEstimate = (\<lambda>tr tx net cl. Inr 180),
     fetchNonce = (\<lambda>tr a net cl. Inr (int (length tr) + 7)),
     fetchAbi = (\<lambda>tr a n net cl. Inl (CollaboratorFailure ''no ABI''))\<rparr>"

definition exampleEnv :: Env where
  "exampleEnv = \<lparr>keys = exampleKeys, wires = exampleWires,
     collaborators = exampleCollaborators\<rparr>"

definition exampleInferOptions :: InferOptions where
  "exampleInferOptions = \<lparr>
     fee = Absent, nonce = Absent, sponsored = None, network = Some (NetworkName testnet),
     clientParam = None,
     inferUserAddress = ''ST1USER'', amount = 100, userInput = ''hello'',
     context' = ''ctx'', modelName = ''llama'', nodePrincipal = Some ''ST1NODE''\<rparr>"

definition exampleRegisterModelOptions :: RegisterModelOptions where
  "exampleRegisterModelOptions = \<lparr>
     fee = Given 0, nonce = Given 0, sponsored = None, network = None, clientParam = None,
     modelName = ''llama'', modelParams = ''7b''\<rparr>"




definition exampleInferTransaction :: FunaiTransactionWire where
  "exampleInferTransaction = \<lparr>
     tx_transactionVersion = TransactionVersion_Testnet,
     tx_chainId = ChainId_Testnet,
     auth = SponsoredAuth
       (SingleSigSpendingCondition P2PKH ''xxxxxx.'' 3 0 Compressed ''sig-k1-h0+'') None,
     payload = InferPayloadWire (examplePrincipal ''ST1USER'') 100 (exampleLPString ''hello'')
       (exampleLPString ''ctx'') (examplePrincipal ''ST000000000000000000002AMW42H'')
       (exampleLPString ''llama''),
     postConditions = None,
     postConditionMode = None\<rparr>"

definition exampleSponsorOptions :: SponsorOptionsOpts where
  "exampleSponsorOptions = \<lparr>
     SponsorOptionsOpts.transaction = exampleInferTransaction,
     sponsorPrivateKey = ''k9'',
     fee = None,
     sponsorNonce = Some 4,
     sponsorAddressHashmode = None,
     network = None,
     clientParam = None\<rparr>"

definition otherCollaborators :: Collaborators where
  "otherCollaborators = \<lparr>
     fetchFeeEstimate = (\<lambda>tr tx net cl. Inr 999),
     fetchNonce = (\<lambda>tr a net cl. Inl (CollaboratorFailure ''timeout'')),
     fetchAbi = (\<lambda>tr a n net cl. Inl (CollaboratorFailure ''timeout''))\<rparr>"

definition failingFeeCollaborators :: Collaborators where
  "failingFeeCollaborators = \<lparr>
     fetchFeeEstimate = (\<lambda>tr tx net cl. Inl (CollaboratorFailure ''no estimate'')),
     fetchNonce = (\<lambda>tr a net cl. Inr 7),
     fetchAbi = (\<lambda>tr a n net cl. Inl (CollaboratorFailure ''no ABI''))\<rparr>"

definition abiCollaborators :: Collaborators where
  "abiCollaborators = \<lparr>
     fetchFeeEstimate = (\<lambda>tr tx net cl. Inr 180),
     fetchNonce = (\<lambda>tr a net cl. Inr 7),
     fetchAbi = (\<lambda>tr a n net cl. Inr (ClarityAbi ''{}''))\<rparr>"

definition exampleContractCallOptions :: ContractCallOptions where
  "exampleContractCallOptions = \<lparr>
     fee = Given 0, nonce = Given 0, sponsored = None, network = None, clientParam = None,
     contractAddress = ''SP1CONTRACT'', contractName = ''pool'', functionName = ''swap'',
     functionArgs = [], postConditionMode = None, postConditions = None,
     validateWithAbi = Some (AbiFlag True)\<rparr>"

definition exampleContractCallBuilt :: FunaiTransactionWire where
  "exampleContractCallBuilt = \<lparr>
     tx_transactionVersion = TransactionVersion_Mainnet,
     tx_chainId = ChainId_Mainnet,
     auth = StandardAuth
       (SingleSigSpendingCondition P2PKH ''xxxxxx.'' 0 0 Compressed emptyMessageSignature),
     payload = ContractCallPayload (AddressWire MainnetSingleSig ''SP1CONTRACT'')
       (exampleLPString ''pool'') (exampleLPString ''swap'') [],
     postConditions = Some (LengthPrefixedList 4 []),
     postConditionMode = Some Deny\<rparr>"

definition exampleSubmitOptions :: SubmitInferenceTaskOptions where
  "exampleSubmitOptions = \<lparr>
     privateKey = ''k1'',
     SubmitInferenceTaskOptions.userInput = ''hello'',
     SubmitInferenceTaskOptions.context' = ''ctx'',
     SubmitInferenceTaskOptions.modelName = ''llama'',
     SubmitInferenceTaskOptions.amount = 100,
     maxInferTime = 60,
     SubmitInferenceTaskOptions.nodePrincipal = Some ''ST1NODE'',
     SubmitInferenceTaskOptions.fee = Given 0,
     SubmitInferenceTaskOptions.nonce = Given 0,
     taskId = None\<rparr>"

definition exampleTokenTransferOptions :: TokenTransferOptions where
  "exampleTokenTransferOptions = \<lparr>
     fee = Given 0, nonce = Absent, sponsored = None, network = None, clientParam = None,
     recipient = RecipientAddress ''SP1RECIPIENT'', amount = 100, memo = None\<rparr>"

definition exampleInferPayload :: PayloadWire where
  "exampleInferPayload =
     InferPayloadWire (examplePrincipal ''ST1USER'') 100 (exampleLPString ''hello'')
       (exampleLPString ''ctx'') (examplePrincipal ''ST000000000000000000002AMW42H'')
       (exampleLPString ''llama'')"

definition exampleInferBuilt :: "int \<Rightarrow> int \<Rightarrow> string \<Rightarrow> FunaiTransactionWire" where
  "exampleInferBuilt n f sig = \<lparr>
     tx_transactionVersion = TransactionVersion_Testnet,
     tx_chainId = ChainId_Testnet,
     auth = StandardAuth (SingleSigSpendingCondition P2PKH ''xxxxxx.'' n f Compressed sig),
     payload = exampleInferPayload,
     postConditions = None,
     postConditionMode = None\<rparr>"

definition exampleRegisterModelBuilt :: FunaiTransactionWire where
  "exampleRegisterModelBuilt = \<lparr>
     tx_transactionVersion = TransactionVersion_Mainnet,
     tx_chainId = ChainId_Mainnet,
     auth = StandardAuth
       (SingleSigSpendingCondition P2PKH ''xxxxxx.'' 0 0 Compressed emptyMessageSignature),
     payload = RegisterModelPayloadWire (exampleLPString ''llama'') (exampleLPString ''7b''),
     postConditions = None,
     postConditionMode = None\<rparr>"

definition exampleTransferBuilt ::
  "string \<Rightarrow> TransactionAuthFieldWire list \<Rightarrow> FunaiTransactionWire" where
  "exampleTransferBuilt h fs = \<lparr>
     tx_transactionVersion = TransactionVersion_Mainnet,
     tx_chainId = ChainId_Mainnet,
     auth = StandardAuth (MultiSigSpendingCondition P2SH h 7 0 fs 2),
     payload = TokenTransferPayloadWire (examplePrincipal ''SP1RECIPIENT'') 100
       (MemoStringWire []),
     postConditions = None,
     postConditionMode = None\<rparr>"

definition exampleMemberKeys :: "string list" where
  "exampleMemberKeys = [''pub-k2'', ''pub-k1x'']"

text \<open>
  A variable-length integer codec in the Bitcoin format (one byte below 253, otherwise a marker
  byte and 2, 4 or 8 little-endian bytes, up to the largest safe integer), and a byte-per-character
  \<^verbatim>\<open>utf8ToBytes\<close>.
\<close>

fun leBytes :: "nat \<Rightarrow> nat \<Rightarrow> bytes" where
  "leBytes 0 n = []"
| "leBytes (Suc k) n = of_nat (n mod 256) # leBytes k (n div 256)"

fun leNat :: "bytes \<Rightarrow> nat" where
  "leNat [] = 0"
| "leNat (b # bs) = unat b + 256 * leNat bs"

definition maxSafeInteger :: nat where
  "maxSafeInteger = 9007199254740991"

definition exampleVaruint :: Varuint where
  "exampleVaruint = \<lparr>
     encode = (\<lambda>n.
       if n < 253 then Inr [of_nat n]
       else if n \<le> 65535 then Inr (253 # leBytes 2 n)
       else if n \<le> 4294967295 then Inr (254 # leBytes 4 n)
       else if n \<le> maxSafeInteger then Inr (255 # leBytes 8 n)
       else Inl (Error ''value out of range'')),
     decode = (\<lambda>bs.
       case bs of
         [] \<Rightarrow> Inl (Error ''offset out of range'')
       | b # rest \<Rightarrow>
           if unat b < 253 then Inr (unat b)
           else if b = 253 then
             (if length rest < 2 then Inl (Error ''offset out of range'')
              else Inr (leNat (take 2 rest)))
           else if b = 254 then
             (if length rest < 4 then Inl (Error ''offset out of range'')
              else Inr (leNat (take 4 rest)))
           else
             (if length rest < 8 then Inl (Error ''offset out of range'')
              else if leNat (take 8 rest) \<le> maxSafeInteger then Inr (leNat (take 8 rest))
              else Inl (Error ''value out of range''))),
     encodingLength = (\<lambda>n.
       if n \<le> maxSafeInteger
       then Inr (if n < 253 then 1 else if n \<le> 65535 then 3
                 else if n \<le> 4294967295 then 5 else 9)
       else Inl (Error ''value out of range''))\<rparr>"

definition exampleUtf8ToBytes :: "string \<Rightarrow> bytes" where
  "exampleUtf8ToBytes s = map (\<lambda>c. of_nat (of_char c)) s"


text \<open>A wire format: the type tags in the order of the variants, one-byte prefixes and at
  most 128 bytes for names.\<close>

fun exampleClarityTag :: "ClarityWireType \<Rightarrow> 8 word" where
  "exampleClarityTag WireInt = 0x00"
| "exampleClarityTag WireUInt = 0x01"
| "exampleClarityTag WireBuffer = 0x02"
| "exampleClarityTag WireTrue = 0x03"
| "exampleClarityTag WireFalse = 0x04"
| "exampleClarityTag WireAddress = 0x05"
| "exampleClarityTag WireContract = 0x06"
| "exampleClarityTag WireOk = 0x07"
| "exampleClarityTag WireErr = 0x08"
| "exampleClarityTag WireNone = 0x09"
| "exampleClarityTag WireSome = 0x0a"
| "exampleClarityTag WireList = 0x0b"
| "exampleClarityTag WireTuple = 0x0c"

fun examplePubKeyEncodingTag :: "PubKeyEncoding \<Rightarrow> 8 word" where
  "examplePubKeyEncodingTag Compressed = 0x00"
| "examplePubKeyEncodingTag Uncompressed = 0x01"

definition exampleFormat :: WireFormat where
  "exampleFormat = \<lparr>
     clarityTag = exampleClarityTag,
     pubKeyEncodingTag = examplePubKeyEncodingTag,
     nameLengthPrefixBytes = 1,
     nameMaxLengthBytes = 128\<rparr>"

definition exampleClarityValue :: ClarityValue where
  "exampleClarityValue = TupleCV
     [(''amount'', OptionalSome (IntCV (- 1))),
      (''ids'', ListCV [UIntCV 1, ResponseErr (BufferCV [1, 2]), ListCV [], BoolTrue]),
      (''to'', ResponseOk (ContractPrincipalCV 26 (replicate 20 7) ''pool''))]"

definition exampleMemoList :: WirePrimitive where
  "exampleMemoList =
     LengthPrefixedListPrimitive 4 (LengthPrefixedListKind 1 MemoStringKind)
       [LengthPrefixedListPrimitive 1 MemoStringKind
          [MemoStringPrimitive ''hi'', MemoStringPrimitive []],
        LengthPrefixedListPrimitive 1 MemoStringKind []]"

definition examplePublicKey :: WirePrimitive where
  "examplePublicKey = PublicKeyPrimitive Compressed (2 # replicate 32 9)"

definition exampleMemoWithZero :: WirePrimitive where
  "exampleMemoWithZero = MemoStringPrimitive [CHR ''a'', CHR 0x00]"


section \<open>Properties\<close>

subsection \<open>Multi-sig infer and register-model are rejected\<close>




subsection \<open>Resolving the order of the member keys\<close>

text \<open>Claim C2. \<open>sortPublicKeysForAddress\<close>, given the member public keys, the
  required-signature count, the hash mode and the target hash160: when the keys as given hash to
  the target, the keys are returned as given; otherwise, when the keys sorted ascending (a
  sorted permutation of the keys; the keys are hex strings, compared by the codes of their
  characters) hash to the target, the sorted keys are returned; otherwise the operation fails
  with \<open>AddressKeyMismatch\<close> and returns no order.\<close>

theorem sortPublicKeysForAddress_resolution:
  "(addressFromPublicKeys k mode numSigs (map (createFunaiPublicKey k) publicKeys) = hash
      \<longrightarrow> sortPublicKeysForAddress k publicKeys numSigs mode hash = Inr publicKeys)
   \<and> (addressFromPublicKeys k mode numSigs (map (createFunaiPublicKey k) publicKeys) \<noteq> hash
      \<and> addressFromPublicKeys k mode numSigs (map (createFunaiPublicKey k) (sort publicKeys))
          = hash
      \<longrightarrow> sortPublicKeysForAddress k publicKeys numSigs mode hash = Inr (sort publicKeys)
          \<and> sorted (sort publicKeys) \<and> mset (sort publicKeys) = mset publicKeys)
   \<and> (addressFromPublicKeys k mode numSigs (map (createFunaiPublicKey k) publicKeys) \<noteq> hash
      \<and> addressFromPublicKeys k mode numSigs (map (createFunaiPublicKey k) (sort publicKeys))
          \<noteq> hash
      \<longrightarrow> sortPublicKeysForAddress k publicKeys numSigs mode hash =
            Inl (AddressKeyMismatch
              ''Failed to find matching multi-sig address given public-keys.''))"
  by (simp add: sortPublicKeysForAddress_def Let_def)

theorem sortPublicKeysForAddress_resolution_witness:
  "sortPublicKeysForAddress exampleKeys [''b'', ''aa''] 2 P2SH ''x.xx.'' = Inr [''b'', ''aa'']
   \<and> sortPublicKeysForAddress exampleKeys [''b'', ''aa''] 2 P2SH ''xx.x.'' = Inr [''aa'', ''b'']
   \<and> sortPublicKeysForAddress exampleKeys [''b'', ''aa''] 2 P2SH ''xxx.'' =
       Inl (AddressKeyMismatch ''Failed to find matching multi-sig address given public-keys.'')"
proof -
  have asGiven: "addressFromPublicKeys exampleKeys P2SH 2
      (map (createFunaiPublicKey exampleKeys) [''b'', ''aa'']) = ''x.xx.''"
    by (simp add: exampleKeys_def)
  have sorted: "addressFromPublicKeys exampleKeys P2SH 2
      (map (createFunaiPublicKey exampleKeys) (sort [''b'', ''aa''])) = ''xx.x.''"
    by (simp add: exampleKeys_def)
  have order: "sort [''b'', ''aa''] = [''aa'', ''b'']"
    by simp
  show ?thesis
    using sortPublicKeysForAddress_resolution [of exampleKeys P2SH 2 "[''b'', ''aa'']" "''x.xx.''"]
      sortPublicKeysForAddress_resolution [of exampleKeys P2SH 2 "[''b'', ''aa'']" "''xx.x.''"]
      sortPublicKeysForAddress_resolution [of exampleKeys P2SH 2 "[''b'', ''aa'']" "''xxx.''"]
      asGiven sorted order
    by simp
qed

subsection \<open>Sponsoring an unsupported payload type\<close>

lemma sponsoredFeeSupported_iff:
  "sponsoredFeeSupported t \<longleftrightarrow>
     t \<in> {TokenTransfer, SmartContract, VersionedSmartContract, ContractCall}"
  by (cases t) simp_all

text \<open>Claim C9. When \<open>sponsorTransaction\<close> is called without a fee and the payload of the
  transaction is not a token transfer, a smart contract, a versioned smart contract or a
  contract call, it throws. The transaction object is left as it was given (no sponsor
  spending condition is attached, so it carries no sponsor signature) and no call is made: no
  signature is computed and no collaborator is asked.\<close>

theorem sponsor_fee_unsupported_payload_rejected:
  assumes "SponsorOptionsOpts.fee so = None"
    and "payloadType (payload (SponsorOptionsOpts.transaction so))
           \<notin> {TokenTransfer, SmartContract, VersionedSmartContract, ContractCall}"
  shows "sponsorTransaction env so tr =
     (Inl (Error (''Sponsored transactions not supported for transaction type ''
        @ payloadTypeName (payloadType (payload (SponsorOptionsOpts.transaction so))))),
      SponsorOptionsOpts.transaction so, tr)"
  using assms
  by (simp add: sponsorTransaction_def sponsorFeeStep_def sponsoredFeeSupported_iff Let_def)

theorem sponsor_fee_unsupported_payload_rejected_witness:
  "SponsorOptionsOpts.fee exampleSponsorOptions = None
   \<and> payloadType (payload (SponsorOptionsOpts.transaction exampleSponsorOptions)) = Infer
   \<and> sponsorTransaction exampleEnv exampleSponsorOptions [] =
     (Inl (Error ''Sponsored transactions not supported for transaction type Infer''),
      exampleInferTransaction, [])"
proof -
  have h1: "SponsorOptionsOpts.fee exampleSponsorOptions = None"
    by (simp add: exampleSponsorOptions_def)
  have h2: "payloadType (payload (SponsorOptionsOpts.transaction exampleSponsorOptions))
      \<notin> {TokenTransfer, SmartContract, VersionedSmartContract, ContractCall}"
    by (simp add: exampleSponsorOptions_def exampleInferTransaction_def)
  show ?thesis
    using sponsor_fee_unsupported_payload_rejected [OF h1 h2, of exampleEnv "[]"]
    by (simp add: exampleSponsorOptions_def exampleInferTransaction_def)
qed

subsection \<open>Fee and nonce: when the collaborators are asked\<close>

lemma feeStep_Inr:
  assumes "feeStep env txFee net cl tx0 tr0 = (Inr tx1, tr1)"
  shows "case txFee of
           Some f \<Rightarrow> tx1 = tx0 \<and> tr1 = tr0
         | None \<Rightarrow> \<exists>f. fetchFeeEstimate (collaborators env) tr0 tx0 net cl = Inr f
                     \<and> tx1 = setFee (wires env) tx0 f
                     \<and> tr1 = tr0 @ [FetchFeeEstimate tx0 net cl]"
  using assms by (auto simp: feeStep_def split: option.splits sum.splits)

lemma nonceStep_Inr:
  assumes "nonceStep env txNonce a net cl tx1 tr1 = (Inr tx, tr')"
  shows "case txNonce of
           Some n \<Rightarrow> tx = tx1 \<and> tr' = tr1
         | None \<Rightarrow> \<exists>n. fetchNonce (collaborators env) tr1
                          (requestAddress (nonceAddress net tx1) a) net cl = Inr n
                     \<and> tx = setNonce (wires env) tx1 n
                     \<and> tr' = tr1 @ [FetchNonce (requestAddress (nonceAddress net tx1) a) net cl]"
  using assms by (auto simp: nonceStep_def Let_def split: option.splits sum.splits)

lemma feeAndNonce_Inr:
  assumes "feeAndNonce env txFee txNonce a net cl tx0 tr0 = (Inr tx, tr')"
  shows "\<exists>tx1 tr1. feeStep env txFee net cl tx0 tr0 = (Inr tx1, tr1)
           \<and> nonceStep env txNonce a net cl tx1 tr1 = (Inr tx, tr')"
  using assms by (auto simp: feeAndNonce_def split: prod.splits sum.splits)

lemma withIntegers_Inr:
  assumes "withIntegers k n f build = Inr x"
  shows "\<exists>n' f'. integerArgument k n = Inr n' \<and> integerArgument k f = Inr f'
     \<and> x = build n' f'"
  using assms by (auto simp: withIntegers_def split: sum.splits)

lemma originSpendingCondition_fee_nonce:
  assumes "originSpendingCondition k ko n f = Inr sc"
  shows "integerArgument k f = Inr (sc_fee sc) \<and> integerArgument k n = Inr (sc_nonce sc)"
proof (cases ko)
  case (PublicKey pk)
  with assms withIntegers_Inr [of k n f "createSingleSigSpendingCondition k P2PKH pk" sc]
  show ?thesis
    by (auto simp: createSingleSigSpendingCondition_def)
next
  case (UnsignedMultiSig m pks a u)
  with assms obtain mode pubs where
    "withIntegers k n f (createMultiSigSpendingCondition k mode m pubs) = Inr sc"
    by (auto simp: Let_def split: sum.splits)
  from withIntegers_Inr [OF this] show ?thesis
    by (auto simp: createMultiSigSpendingCondition_def)
qed

lemma integerArgument_integer [simp]: "integerArgument k (Inr v) = Inr v"
  by (simp add: integerArgument_def)

lemma keyValue_Some: "keyValue key = Some v \<longleftrightarrow> key = Given v"
  by (cases key) simp_all

lemma spendingCondition_optionsAuth [simp]:
  "spendingCondition (optionsAuth opts sc) = sc"
  by (simp add: optionsAuth_def createSponsoredAuth_def createStandardAuth_def)

lemma abiStep_trace:
  assumes "abiStep env opts p tr = (r, tr1)"
  shows "\<exists>pre. tr1 = tr @ pre \<and> list_all isAbiCall pre
     \<and> (validateWithAbi opts \<noteq> Some (AbiFlag True) \<longrightarrow> pre = [])"
  using assms
  by (auto simp: abiStep_def Let_def split: option.splits ValidateWithAbi.splits bool.splits
        sum.splits if_splits)

text \<open>A call of an unsigned builder that returns a transaction: the transaction \<open>tx0\<close> that
  was constructed, the ABI requests \<open>pre\<close> made before, and the fee and nonce steps that
  close the builder. The fee and nonce of \<open>tx0\<close> are the integers the constructor made of
  \<^verbatim>\<open>options.fee\<close> and \<^verbatim>\<open>options.nonce\<close>.\<close>

lemma makeUnsigned_Inr:
  assumes "makeUnsigned env ko r tr = (Inr tx, tr')"
  shows "\<exists>tx0 pre. list_all isAbiCall pre \<and> (\<not> fetchesAbi r \<longrightarrow> pre = [])
      \<and> integerArgument (keys env) (assigned 0 (requestFeeKey r)) =
          Inr (sc_fee (spendingCondition (auth tx0)))
      \<and> integerArgument (keys env) (assigned 0 (requestNonceKey r)) =
          Inr (sc_nonce (spendingCondition (auth tx0)))
      \<and> feeAndNonce env (requestFee r) (requestNonce r) (optionsAddress ko) (requestNetwork r)
            (requestClient r) tx0 (tr @ pre) = (Inr tx, tr')"
proof (cases r)
  case (TokenTransferRequest opts)
  with assms obtain p sc where
    sc: "originSpendingCondition (keys env) ko (optionsNonce opts) (optionsFee opts) = Inr sc"
    and run: "feeAndNonce env (callerFee opts) (callerNonce opts) (optionsAddress ko)
      (optionsNetwork opts) (optionsClient opts)
      \<lparr>tx_transactionVersion = transactionVersion (optionsNetwork opts),
       tx_chainId = chainId (optionsNetwork opts), auth = optionsAuth opts sc, payload = p,
       postConditions = None, postConditionMode = None\<rparr> tr = (Inr tx, tr')"
    by (auto simp: makeUnsignedFunaiTokenTransfer_def Let_def split: sum.splits)
  from originSpendingCondition_fee_nonce [OF sc] run TokenTransferRequest show ?thesis
    by (intro exI [of _ "[]"] exI [of _ "\<lparr>tx_transactionVersion = transactionVersion (optionsNetwork opts),
       tx_chainId = chainId (optionsNetwork opts), auth = optionsAuth opts sc, payload = p,
       postConditions = None, postConditionMode = None\<rparr>"])
       (simp add: optionsFee_def optionsNonce_def)
next
  case (ContractDeployRequest opts)
  with assms obtain p sc where
    sc: "originSpendingCondition (keys env) ko (optionsNonce opts) (optionsFee opts) = Inr sc"
    and run: "feeAndNonce env (callerFee opts) (callerNonce opts) (optionsAddress ko)
      (optionsNetwork opts) (optionsClient opts)
      \<lparr>tx_transactionVersion = transactionVersion (optionsNetwork opts),
       tx_chainId = chainId (optionsNetwork opts), auth = optionsAuth opts sc, payload = p,
       postConditions = Some (lpPostConditions (wires env)
         (BaseContractDeployOptions.postConditions opts)),
       postConditionMode = Some (optionsPostConditionMode (wires env)
         (BaseContractDeployOptions.postConditionMode opts))\<rparr> tr = (Inr tx, tr')"
    by (auto simp: makeUnsignedContractDeploy_def Let_def split: sum.splits)
  from originSpendingCondition_fee_nonce [OF sc] run ContractDeployRequest show ?thesis
    by (intro exI [of _ "[]"] exI [of _ "\<lparr>tx_transactionVersion = transactionVersion (optionsNetwork opts),
       tx_chainId = chainId (optionsNetwork opts), auth = optionsAuth opts sc, payload = p,
       postConditions = Some (lpPostConditions (wires env)
         (BaseContractDeployOptions.postConditions opts)),
       postConditionMode = Some (optionsPostConditionMode (wires env)
         (BaseContractDeployOptions.postConditionMode opts))\<rparr>"])
       (simp add: optionsFee_def optionsNonce_def)
next
  case (ContractCallRequest opts)
  with assms obtain p sc tr1 where
    abi: "abiStep env opts p tr = (None, tr1)"
    and sc: "originSpendingCondition (keys env) ko (optionsNonce opts) (optionsFee opts) = Inr sc"
    and run: "feeAndNonce env (callerFee opts) (callerNonce opts) (optionsAddress ko)
      (optionsNetwork opts) (optionsClient opts)
      \<lparr>tx_transactionVersion = transactionVersion (optionsNetwork opts),
       tx_chainId = chainId (optionsNetwork opts), auth = optionsAuth opts sc, payload = p,
       postConditions = Some (lpPostConditions (wires env)
         (ContractCallOptions.postConditions opts)),
       postConditionMode = Some (optionsPostConditionMode (wires env)
         (ContractCallOptions.postConditionMode opts))\<rparr> tr1 = (Inr tx, tr')"
    by (auto simp: makeUnsignedContractCall_def Let_def split: sum.splits prod.splits option.splits)
  from abiStep_trace [OF abi] obtain pre where
    pre: "tr1 = tr @ pre" "list_all isAbiCall pre"
      "validateWithAbi opts \<noteq> Some (AbiFlag True) \<longrightarrow> pre = []"
    by blast
  from originSpendingCondition_fee_nonce [OF sc] run ContractCallRequest pre show ?thesis
    by (intro exI [of _ pre] exI [of _ "\<lparr>tx_transactionVersion = transactionVersion (optionsNetwork opts),
       tx_chainId = chainId (optionsNetwork opts), auth = optionsAuth opts sc, payload = p,
       postConditions = Some (lpPostConditions (wires env)
         (ContractCallOptions.postConditions opts)),
       postConditionMode = Some (optionsPostConditionMode (wires env)
         (ContractCallOptions.postConditionMode opts))\<rparr>"])
       (simp add: optionsFee_def optionsNonce_def)
next
  case (InferRequest opts)
  with assms obtain p pk sc where
    ko: "ko = PublicKey pk"
    and sc: "originSpendingCondition (keys env) (PublicKey pk) (optionsNonce opts)
      (optionsFee opts) = Inr sc"
    and run: "feeAndNonce env (callerFee opts) (callerNonce opts) Absent
      (optionsNetwork opts) (optionsClient opts)
      \<lparr>tx_transactionVersion = transactionVersion (optionsNetwork opts),
       tx_chainId = chainId (optionsNetwork opts), auth = optionsAuth opts sc, payload = p,
       postConditions = None, postConditionMode = None\<rparr> tr = (Inr tx, tr')"
    by (auto simp: makeUnsignedInfer_def Let_def split: sum.splits UnsignedKeys.splits)
  from originSpendingCondition_fee_nonce [OF sc] run InferRequest ko show ?thesis
    by (intro exI [of _ "[]"] exI [of _ "\<lparr>tx_transactionVersion = transactionVersion (optionsNetwork opts),
       tx_chainId = chainId (optionsNetwork opts), auth = optionsAuth opts sc, payload = p,
       postConditions = None, postConditionMode = None\<rparr>"])
       (simp add: optionsFee_def optionsNonce_def)
next
  case (RegisterModelRequest opts)
  with assms obtain p pk sc where
    ko: "ko = PublicKey pk"
    and sc: "originSpendingCondition (keys env) (PublicKey pk) (optionsNonce opts)
      (optionsFee opts) = Inr sc"
    and run: "feeAndNonce env (callerFee opts) (callerNonce opts) Absent
      (optionsNetwork opts) (optionsClient opts)
      \<lparr>tx_transactionVersion = transactionVersion (optionsNetwork opts),
       tx_chainId = chainId (optionsNetwork opts), auth = optionsAuth opts sc, payload = p,
       postConditions = None, postConditionMode = None\<rparr> tr = (Inr tx, tr')"
    by (auto simp: makeUnsignedRegisterModel_def Let_def split: sum.splits UnsignedKeys.splits)
  from originSpendingCondition_fee_nonce [OF sc] run RegisterModelRequest ko show ?thesis
    by (intro exI [of _ "[]"] exI [of _ "\<lparr>tx_transactionVersion = transactionVersion (optionsNetwork opts),
       tx_chainId = chainId (optionsNetwork opts), auth = optionsAuth opts sc, payload = p,
       postConditions = None, postConditionMode = None\<rparr>"])
       (simp add: optionsFee_def optionsNonce_def)
qed

lemma newCalls_append [simp]: "newCalls tr (tr @ cs) = cs"
  by (simp add: newCalls_def)

lemma abi_call_kind:
  "isAbiCall c \<Longrightarrow> \<not> isFeeCall c \<and> \<not> isNonceCall c \<and> \<not> isSignCall c"
  by (cases c) simp_all

lemma abi_calls_kind:
  assumes "list_all isAbiCall pre"
  shows "\<forall>c \<in> set pre. \<not> isFeeCall c \<and> \<not> isNonceCall c \<and> \<not> isSignCall c"
  using assms abi_call_kind by (auto simp: list_all_iff)

lemma requestFee_Some: "requestFee r = Some f \<longleftrightarrow> requestFeeKey r = Given f"
  by (cases r) (simp_all add: callerFee_def keyValue_Some)

lemma requestNonce_Some: "requestNonce r = Some n \<longleftrightarrow> requestNonceKey r = Given n"
  by (cases r) (simp_all add: callerNonce_def keyValue_Some)

lemma makeUnsigned_outcome:
  assumes "makeUnsigned env ko r tr = (Inr tx, tr')"
  shows "\<exists>tx0 pre.
      list_all isAbiCall pre
    \<and> integerArgument (keys env) (assigned 0 (requestFeeKey r)) =
        Inr (sc_fee (spendingCondition (auth tx0)))
    \<and> integerArgument (keys env) (assigned 0 (requestNonceKey r)) =
        Inr (sc_nonce (spendingCondition (auth tx0)))
    \<and> (case (requestFee r, requestNonce r) of
         (Some f, Some n) \<Rightarrow>
           sc_fee (spendingCondition (auth tx0)) = f
         \<and> sc_nonce (spendingCondition (auth tx0)) = n
         \<and> tx = tx0 \<and> tr' = tr @ pre
       | (None, Some n) \<Rightarrow>
           sc_nonce (spendingCondition (auth tx0)) = n
         \<and> (\<exists>f. fetchFeeEstimate (collaborators env) (tr @ pre) tx0 (requestNetwork r)
                  (requestClient r) = Inr f
              \<and> tx = setFee (wires env) tx0 f
              \<and> tr' = tr @ pre @ [FetchFeeEstimate tx0 (requestNetwork r) (requestClient r)])
       | (Some f, None) \<Rightarrow>
           sc_fee (spendingCondition (auth tx0)) = f
         \<and> (\<exists>n. fetchNonce (collaborators env) (tr @ pre)
                  (requestAddress (nonceAddress (requestNetwork r) tx0) (optionsAddress ko))
                  (requestNetwork r) (requestClient r) = Inr n
              \<and> tx = setNonce (wires env) tx0 n
              \<and> tr' = tr @ pre @
                    [FetchNonce
                       (requestAddress (nonceAddress (requestNetwork r) tx0) (optionsAddress ko))
                       (requestNetwork r) (requestClient r)])
       | (None, None) \<Rightarrow>
           (\<exists>f n. fetchFeeEstimate (collaborators env) (tr @ pre) tx0 (requestNetwork r)
                    (requestClient r) = Inr f
              \<and> fetchNonce (collaborators env)
                   (tr @ pre @ [FetchFeeEstimate tx0 (requestNetwork r) (requestClient r)])
                   (requestAddress (nonceAddress (requestNetwork r) (setFee (wires env) tx0 f))
                      (optionsAddress ko))
                   (requestNetwork r) (requestClient r) = Inr n
              \<and> tx = setNonce (wires env) (setFee (wires env) tx0 f) n
              \<and> tr' = tr @ pre @
                    [FetchFeeEstimate tx0 (requestNetwork r) (requestClient r),
                     FetchNonce
                       (requestAddress
                          (nonceAddress (requestNetwork r) (setFee (wires env) tx0 f))
                          (optionsAddress ko))
                       (requestNetwork r) (requestClient r)]))"
proof -
  from makeUnsigned_Inr [OF assms] obtain tx0 pre where
    pre: "list_all isAbiCall pre"
    and f0: "integerArgument (keys env) (assigned 0 (requestFeeKey r)) =
      Inr (sc_fee (spendingCondition (auth tx0)))"
    and n0: "integerArgument (keys env) (assigned 0 (requestNonceKey r)) =
      Inr (sc_nonce (spendingCondition (auth tx0)))"
    and run: "feeAndNonce env (requestFee r) (requestNonce r) (optionsAddress ko)
      (requestNetwork r) (requestClient r) tx0 (tr @ pre) = (Inr tx, tr')"
    by blast
  from feeAndNonce_Inr [OF run] obtain tx1 tr1 where
    s1: "feeStep env (requestFee r) (requestNetwork r) (requestClient r) tx0 (tr @ pre)
      = (Inr tx1, tr1)"
    and s2: "nonceStep env (requestNonce r) (optionsAddress ko) (requestNetwork r)
      (requestClient r) tx1 tr1 = (Inr tx, tr')"
    by blast
  have kept_fee: "sc_fee (spendingCondition (auth tx0)) = f" if "requestFee r = Some f" for f
    using that f0 by (simp add: requestFee_Some)
  have kept_nonce: "sc_nonce (spendingCondition (auth tx0)) = n"
    if "requestNonce r = Some n" for n
    using that n0 by (simp add: requestNonce_Some)
  have "case (requestFee r, requestNonce r) of
         (Some f, Some n) \<Rightarrow>
           sc_fee (spendingCondition (auth tx0)) = f
         \<and> sc_nonce (spendingCondition (auth tx0)) = n
         \<and> tx = tx0 \<and> tr' = tr @ pre
       | (None, Some n) \<Rightarrow>
           sc_nonce (spendingCondition (auth tx0)) = n
         \<and> (\<exists>f. fetchFeeEstimate (collaborators env) (tr @ pre) tx0 (requestNetwork r)
                  (requestClient r) = Inr f
              \<and> tx = setFee (wires env) tx0 f
              \<and> tr' = tr @ pre @ [FetchFeeEstimate tx0 (requestNetwork r) (requestClient r)])
       | (Some f, None) \<Rightarrow>
           sc_fee (spendingCondition (auth tx0)) = f
         \<and> (\<exists>n. fetchNonce (collaborators env) (tr @ pre)
                  (requestAddress (nonceAddress (requestNetwork r) tx0) (optionsAddress ko))
                  (requestNetwork r) (requestClient r) = Inr n
              \<and> tx = setNonce (wires env) tx0 n
              \<and> tr' = tr @ pre @
                    [FetchNonce
                       (requestAddress (nonceAddress (requestNetwork r) tx0) (optionsAddress ko))
                       (requestNetwork r) (requestClient r)])
       | (None, None) \<Rightarrow>
           (\<exists>f n. fetchFeeEstimate (collaborators env) (tr @ pre) tx0 (requestNetwork r)
                    (requestClient r) = Inr f
              \<and> fetchNonce (collaborators env)
                   (tr @ pre @ [FetchFeeEstimate tx0 (requestNetwork r) (requestClient r)])
                   (requestAddress (nonceAddress (requestNetwork r) (setFee (wires env) tx0 f))
                      (optionsAddress ko))
                   (requestNetwork r) (requestClient r) = Inr n
              \<and> tx = setNonce (wires env) (setFee (wires env) tx0 f) n
              \<and> tr' = tr @ pre @
                    [FetchFeeEstimate tx0 (requestNetwork r) (requestClient r),
                     FetchNonce
                       (requestAddress
                          (nonceAddress (requestNetwork r) (setFee (wires env) tx0 f))
                          (optionsAddress ko))
                       (requestNetwork r) (requestClient r)])"
    using feeStep_Inr [OF s1] nonceStep_Inr [OF s2] kept_fee kept_nonce
    by (cases "requestFee r"; cases "requestNonce r") auto
  with pre f0 n0 show ?thesis by blast
qed

lemma fee_calls_iff:
  assumes "makeUnsigned env ko r tr = (Inr tx, tr')"
  shows "((\<exists>c \<in> set (newCalls tr tr'). isFeeCall c) \<longleftrightarrow> requestFee r = None)
     \<and> ((\<exists>c \<in> set (newCalls tr tr'). isNonceCall c) \<longleftrightarrow> requestNonce r = None)
     \<and> filter isSignCall (newCalls tr tr') = []"
proof -
  from makeUnsigned_Inr [OF assms] obtain tx0 pre where
    pre: "list_all isAbiCall pre"
    and run: "feeAndNonce env (requestFee r) (requestNonce r) (optionsAddress ko)
      (requestNetwork r) (requestClient r) tx0 (tr @ pre) = (Inr tx, tr')"
    by blast
  from feeAndNonce_Inr [OF run] obtain tx1 tr1 where
    s1: "feeStep env (requestFee r) (requestNetwork r) (requestClient r) tx0 (tr @ pre)
      = (Inr tx1, tr1)"
    and s2: "nonceStep env (requestNonce r) (optionsAddress ko) (requestNetwork r)
      (requestClient r) tx1 tr1 = (Inr tx, tr')"
    by blast
  have kinds: "\<forall>c \<in> set pre. \<not> isFeeCall c \<and> \<not> isNonceCall c \<and> \<not> isSignCall c"
    by (rule abi_calls_kind [OF pre])
  then have nosign: "filter isSignCall pre = []"
    by (simp add: filter_empty_conv)
  from feeStep_Inr [OF s1] nonceStep_Inr [OF s2] kinds nosign show ?thesis
    by (cases "requestFee r"; cases "requestNonce r") auto
qed

text \<open>Every call, returning or failing: the requests it makes are ABI requests, then at
  most one fee request, then at most one nonce request; a fee (nonce) request is made only when
  the fee (nonce) was omitted.\<close>

lemma feeAndNonce_calls:
  "\<exists>fees nonces. snd (feeAndNonce env txFee txNonce a net cl tx tr) = tr @ fees @ nonces
     \<and> list_all isFeeCall fees \<and> list_all isNonceCall nonces
     \<and> length fees \<le> 1 \<and> length nonces \<le> 1
     \<and> (txFee \<noteq> None \<longrightarrow> fees = []) \<and> (txNonce \<noteq> None \<longrightarrow> nonces = [])"
proof (cases "feeStep env txFee net cl tx tr")
  case (Pair res tr1)
  have fee: "tr1 = tr @ (case txFee of None \<Rightarrow> [FetchFeeEstimate tx net cl] | Some _ \<Rightarrow> [])"
    using Pair by (auto simp: feeStep_def split: option.splits sum.splits)
  show ?thesis
  proof (cases res)
    case (Inl e)
    with Pair fee show ?thesis
      by (intro exI [of _ "case txFee of None \<Rightarrow> [FetchFeeEstimate tx net cl] | Some _ \<Rightarrow> []"]
          exI [of _ "[]"])
         (simp add: feeAndNonce_def split: option.splits)
  next
    case (Inr tx1)
    have "snd (nonceStep env txNonce a net cl tx1 tr1) =
        tr1 @ (case txNonce of
                 None \<Rightarrow> [FetchNonce (requestAddress (nonceAddress net tx1) a) net cl]
               | Some _ \<Rightarrow> [])"
      by (auto simp: nonceStep_def Let_def split: option.splits sum.splits)
    with Pair Inr fee show ?thesis
      by (intro exI [of _ "case txFee of None \<Rightarrow> [FetchFeeEstimate tx net cl] | Some _ \<Rightarrow> []"]
          exI [of _ "case txNonce of
                 None \<Rightarrow> [FetchNonce (requestAddress (nonceAddress net tx1) a) net cl]
               | Some _ \<Rightarrow> []"])
         (simp add: feeAndNonce_def split: option.splits)
  qed
qed

lemma makeUnsigned_form:
  "\<exists>pre. list_all isAbiCall pre \<and> (\<not> fetchesAbi r \<longrightarrow> pre = [])
     \<and> ((\<exists>e. makeUnsigned env ko r tr = (Inl e, tr @ pre))
        \<or> (\<exists>tx0. makeUnsigned env ko r tr =
              feeAndNonce env (requestFee r) (requestNonce r) (optionsAddress ko)
                (requestNetwork r) (requestClient r) tx0 (tr @ pre)))"
proof (cases r)
  case (TokenTransferRequest opts)
  then show ?thesis
    by (intro exI [of _ "[]"])
       (auto simp: makeUnsignedFunaiTokenTransfer_def Let_def split: sum.splits)
next
  case (ContractDeployRequest opts)
  then show ?thesis
    by (intro exI [of _ "[]"])
       (auto simp: makeUnsignedContractDeploy_def Let_def split: sum.splits)
next
  case (ContractCallRequest opts)
  show ?thesis
  proof (cases "createContractCallPayload (wires env) (contractAddress opts)
      (ContractCallOptions.contractName opts) (functionName opts) (functionArgs opts)")
    case (Inl e)
    with ContractCallRequest show ?thesis
      by (intro exI [of _ "[]"]) (simp add: makeUnsignedContractCall_def)
  next
    case (Inr p)
    obtain res tr1 where abi: "abiStep env opts p tr = (res, tr1)"
      by (cases "abiStep env opts p tr")
    from abiStep_trace [OF abi] obtain pre where
      pre: "tr1 = tr @ pre" "list_all isAbiCall pre"
        "validateWithAbi opts \<noteq> Some (AbiFlag True) \<longrightarrow> pre = []"
      by blast
    with ContractCallRequest Inr abi show ?thesis
      by (intro exI [of _ pre])
         (auto simp: makeUnsignedContractCall_def Let_def split: sum.splits option.splits)
  qed
next
  case (InferRequest opts)
  then show ?thesis
    by (intro exI [of _ "[]"])
       (auto simp: makeUnsignedInfer_def Let_def split: sum.splits UnsignedKeys.splits)
next
  case (RegisterModelRequest opts)
  then show ?thesis
    by (intro exI [of _ "[]"])
       (auto simp: makeUnsignedRegisterModel_def Let_def split: sum.splits UnsignedKeys.splits)
qed

lemma makeUnsigned_calls:
  "\<exists>abi fees nonces.
       snd (makeUnsigned env ko r tr) = tr @ abi @ fees @ nonces
     \<and> list_all isAbiCall abi \<and> (\<not> fetchesAbi r \<longrightarrow> abi = [])
     \<and> list_all isFeeCall fees \<and> list_all isNonceCall nonces
     \<and> length fees \<le> 1 \<and> length nonces \<le> 1
     \<and> (requestFee r \<noteq> None \<longrightarrow> fees = []) \<and> (requestNonce r \<noteq> None \<longrightarrow> nonces = [])"
proof -
  from makeUnsigned_form [of r env ko tr] obtain pre where
    pre: "list_all isAbiCall pre" "\<not> fetchesAbi r \<longrightarrow> pre = []"
    and form: "(\<exists>e. makeUnsigned env ko r tr = (Inl e, tr @ pre))
        \<or> (\<exists>tx0. makeUnsigned env ko r tr =
              feeAndNonce env (requestFee r) (requestNonce r) (optionsAddress ko)
                (requestNetwork r) (requestClient r) tx0 (tr @ pre))"
    by blast
  from form show ?thesis
  proof
    assume "\<exists>e. makeUnsigned env ko r tr = (Inl e, tr @ pre)"
    with pre show ?thesis
      by (intro exI [of _ pre] exI [of _ "[]"]) auto
  next
    assume "\<exists>tx0. makeUnsigned env ko r tr =
              feeAndNonce env (requestFee r) (requestNonce r) (optionsAddress ko)
                (requestNetwork r) (requestClient r) tx0 (tr @ pre)"
    then obtain tx0 where run: "makeUnsigned env ko r tr =
              feeAndNonce env (requestFee r) (requestNonce r) (optionsAddress ko)
                (requestNetwork r) (requestClient r) tx0 (tr @ pre)"
      by blast
    from feeAndNonce_calls [of env "requestFee r" "requestNonce r" "optionsAddress ko"
        "requestNetwork r" "requestClient r" tx0 "tr @ pre"]
    obtain fees nonces where
      "snd (feeAndNonce env (requestFee r) (requestNonce r) (optionsAddress ko)
         (requestNetwork r) (requestClient r) tx0 (tr @ pre)) = (tr @ pre) @ fees @ nonces"
      "list_all isFeeCall fees" "list_all isNonceCall nonces"
      "length fees \<le> 1" "length nonces \<le> 1"
      "requestFee r \<noteq> None \<longrightarrow> fees = []" "requestNonce r \<noteq> None \<longrightarrow> nonces = []"
      by blast
    with pre run show ?thesis
      by (intro exI [of _ pre] exI [of _ fees] exI [of _ nonces]) simp
  qed
qed

lemma signOrigin_trace:
  "snd (signOrigin k sg key tr) =
     tr @ [SignWithKey key (sigHashPreSign k (sigHash sg)
        (publicKeyEncoding k (privateKeyToPublic k key))
        (sc_fee (spendingCondition (auth (TransactionSigner.transaction sg))))
        (sc_nonce (spendingCondition (auth (TransactionSigner.transaction sg)))))]"
  by (simp add: signOrigin_def Let_def)

lemma signAppendLoop_trace:
  "signAppendLoop k sks pubs sg tr = (res, tr') \<Longrightarrow>
     \<exists>signs. tr' = tr @ signs \<and> list_all isSignCall signs"
proof (induction pubs arbitrary: sg tr)
  case Nil
  then show ?case by simp
next
  case (Cons pk pubs)
  show ?case
  proof (cases "find (\<lambda>key. privateKeyToPublic k key = pk) sks")
    case None
    with Cons.prems Cons.IH show ?thesis
      by (auto split: sum.splits)
  next
    case (Some sk)
    show ?thesis
    proof (cases "sk = []")
      case True
      with Some Cons.prems Cons.IH show ?thesis
        by (auto split: sum.splits)
    next
      case False
      obtain sg1 tr1 where s: "signOrigin k sg sk tr = (sg1, tr1)"
        by (cases "signOrigin k sg sk tr")
      from signOrigin_trace [of k sg sk tr] s obtain h where tr1: "tr1 = tr @ [SignWithKey sk h]"
        by simp
      from Some False s Cons.prems have "signAppendLoop k sks pubs sg1 tr1 = (res, tr')"
        by simp
      from Cons.IH [OF this] obtain signs where "tr' = tr1 @ signs" "list_all isSignCall signs"
        by blast
      with tr1 show ?thesis
        by (intro exI [of _ "SignWithKey sk h # signs"]) simp
    qed
  qed
qed

lemma mutatingSignAppendMultiSig_trace:
  "mutatingSignAppendMultiSig k tx pks sks a tr = (res, tr') \<Longrightarrow>
     \<exists>signs. tr' = tr @ signs \<and> list_all isSignCall signs"
  by (auto simp: mutatingSignAppendMultiSig_def split: if_splits sum.splits prod.splits
      dest: signAppendLoop_trace)

lemma makeSigned_SenderKey:
  "makeSigned env (SenderKey sk) r tr =
     signWithSenderKey (keys env) sk
       (makeUnsigned env (PublicKey (privateKeyToPublic (keys env) sk)) r tr)"
  by (cases r) simp_all

lemma signWithSenderKey_Inr:
  assumes "signWithSenderKey k sk built = (Inr stx, tr'')"
  shows "\<exists>tx tr'. built = (Inr tx, tr')
     \<and> tr'' = tr' @ [SignWithKey sk (sigHashPreSign k (signBegin k tx)
          (publicKeyEncoding k (privateKeyToPublic k sk))
          (sc_fee (spendingCondition (auth tx))) (sc_nonce (spendingCondition (auth tx))))]"
proof -
  from assms obtain tx tr' where b: "built = (Inr tx, tr')"
    by (cases built; cases "fst built") (auto simp: signWithSenderKey_def)
  with assms signOrigin_trace [of k "newTransactionSigner k tx" sk tr'] show ?thesis
    by (auto simp: signWithSenderKey_def newTransactionSigner_def split: prod.splits)
qed

lemma makeSigned_multi_sig_Inr:
  assumes "makeSigned env (SignedMultiSig n pks a u sks) r tr = (Inr stx, tr'')"
  shows "\<exists>tx tr' signs. makeUnsigned env (UnsignedMultiSig n pks a u) r tr = (Inr tx, tr')
     \<and> tr'' = tr' @ signs \<and> list_all isSignCall signs"
proof (cases r)
  case (TokenTransferRequest opts)
  with assms show ?thesis
    by (auto simp: signWithSignerKeys_def split: prod.splits sum.splits
        dest: mutatingSignAppendMultiSig_trace)
next
  case (ContractDeployRequest opts)
  with assms show ?thesis
    by (auto simp: signWithSignerKeys_def split: prod.splits sum.splits
        dest: mutatingSignAppendMultiSig_trace)
next
  case (ContractCallRequest opts)
  with assms show ?thesis
    by (auto simp: signWithSignerKeys_def split: prod.splits sum.splits
        dest: mutatingSignAppendMultiSig_trace)
next
  case (InferRequest opts)
  with assms show ?thesis by simp
next
  case (RegisterModelRequest opts)
  with assms show ?thesis by simp
qed

lemma makeSigned_calls:
  "\<exists>signs. snd (makeSigned env sko r tr) =
       snd (makeUnsigned env (unsignedKeys (keys env) sko) r tr) @ signs
     \<and> list_all isSignCall signs"
proof (cases sko)
  case (SenderKey sk)
  show ?thesis
  proof (cases "makeUnsigned env (PublicKey (privateKeyToPublic (keys env) sk)) r tr")
    case (Pair res tr1)
    show ?thesis
    proof (cases res)
      case (Inl e)
      with Pair SenderKey show ?thesis
        by (simp add: makeSigned_SenderKey signWithSenderKey_def)
    next
      case (Inr tx)
      with Pair SenderKey
        signOrigin_trace [of "keys env" "newTransactionSigner (keys env) tx" sk tr1]
      show ?thesis
        by (auto simp: makeSigned_SenderKey signWithSenderKey_def split: prod.splits)
    qed
  qed
next
  case (SignedMultiSig n pks a u sks)
  show ?thesis
  proof (cases "supportsMultiSig r")
    case True
    then have m: "makeSigned env (SignedMultiSig n pks a u sks) r tr =
        signWithSignerKeys (keys env) pks sks (keyValue a)
          (makeUnsigned env (UnsignedMultiSig n pks a u) r tr)"
      by (cases r) simp_all
    show ?thesis
    proof (cases "makeUnsigned env (UnsignedMultiSig n pks a u) r tr")
      case (Pair res tr1)
      show ?thesis
      proof (cases res)
        case (Inl e)
        with Pair SignedMultiSig m show ?thesis
          by (simp add: signWithSignerKeys_def)
      next
        case (Inr tx)
        obtain res2 tr2 where
          s: "mutatingSignAppendMultiSig (keys env) tx pks sks (keyValue a) tr1 = (res2, tr2)"
          by (cases "mutatingSignAppendMultiSig (keys env) tx pks sks (keyValue a) tr1")
        from mutatingSignAppendMultiSig_trace [OF s] Pair Inr SignedMultiSig m s
        show ?thesis
          by (auto simp: signWithSignerKeys_def)
      qed
    qed
  next
    case False
    with SignedMultiSig show ?thesis
      by (cases r)
         (auto simp: makeUnsignedInfer_def makeUnsignedRegisterModel_def split: sum.splits)
  qed
qed

text \<open>The example runs that the witnesses below refer to.\<close>

lemmas example_defs =
  exampleEnv_def exampleKeys_def exampleWires_def exampleCollaborators_def
  exampleInferOptions_def exampleRegisterModelOptions_def exampleTokenTransferOptions_def
  exampleInferPayload_def exampleInferBuilt_def exampleRegisterModelBuilt_def
  exampleTransferBuilt_def examplePrincipal_def exampleLPString_def

lemmas builder_defs =
  makeUnsignedInfer_def makeUnsignedRegisterModel_def makeUnsignedFunaiTokenTransfer_def
  makeUnsignedContractDeploy_def makeUnsignedContractCall_def
  feeAndNonce_def feeStep_def nonceStep_def nonceAddress_def
  optionsFee_def optionsNonce_def callerFee_def callerNonce_def withIntegers_def
  integerArgument_def optionsNetwork_def optionsClient_def optionsAuth_def
  assignClient_def clientFromNetwork_def createStandardAuth_def createSponsoredAuth_def
  createSingleSigSpendingCondition_def createMultiSigSpendingCondition_def
  resolvePublicKeys_def nullPrincipal_def
  FUNAI_MAINNET_def FUNAI_TESTNET_def HIRO_MAINNET_URL_def HIRO_TESTNET_URL_def

lemma run1:
  "makeUnsigned exampleEnv (PublicKey ''pub-k1'') (InferRequest exampleInferOptions) [] =
     (Inr (exampleInferBuilt 8 180 emptyMessageSignature),
      [FetchFeeEstimate (exampleInferBuilt 0 0 emptyMessageSignature) FUNAI_TESTNET
         (client FUNAI_TESTNET),
       FetchNonce (DerivedAddress (c32address TestnetSingleSig ''xxxxxx.'')) FUNAI_TESTNET
         (client FUNAI_TESTNET)])"
  by (simp add: example_defs builder_defs Let_def)

lemma run2:
  "makeUnsigned exampleEnv (PublicKey ''pub-k1'')
     (RegisterModelRequest exampleRegisterModelOptions) [] = (Inr exampleRegisterModelBuilt, [])"
  by (simp add: example_defs builder_defs Let_def)

lemma run3:
  "makeSigned exampleEnv (SenderKey ''k1'') (InferRequest exampleInferOptions) [] =
     (Inr (exampleInferBuilt 8 180 ''sig-k1-h0+''),
      [FetchFeeEstimate (exampleInferBuilt 0 0 emptyMessageSignature) FUNAI_TESTNET
         (client FUNAI_TESTNET),
       FetchNonce (DerivedAddress (c32address TestnetSingleSig ''xxxxxx.'')) FUNAI_TESTNET
         (client FUNAI_TESTNET),
       SignWithKey ''k1'' ''h0+''])"
  by (simp add: example_defs builder_defs Let_def signWithSenderKey_def signOrigin_def
      newTransactionSigner_def)

lemma run4:
  "makeSigned exampleEnv
     (SignedMultiSig 2 [''pub-k2'', ''pub-k1'', ''pub-k3''] Absent None [''k1'', ''k2''])
     (TokenTransferRequest exampleTokenTransferOptions) [] =
     (Inr (exampleTransferBuilt ''xxxxxx.xxxxxx.xxxxxx.''
        [\<lparr>pubKeyEncoding = Compressed, contents = MessageSignatureWire ''sig-k2-h0+''\<rparr>,
         \<lparr>pubKeyEncoding = Compressed, contents = MessageSignatureWire ''sig-k1-h0+!+''\<rparr>,
         \<lparr>pubKeyEncoding = Compressed,
          contents = PublicKeyWire (createFunaiPublicKey exampleKeys ''pub-k3'')\<rparr>]),
      [FetchNonce (DerivedAddress (c32address MainnetSingleSig ''xxxxxx.xxxxxx.xxxxxx.''))
         FUNAI_MAINNET (client FUNAI_MAINNET),
       SignWithKey ''k2'' ''h0+'', SignWithKey ''k1'' ''h0+!+''])"
  by (simp add: example_defs builder_defs Let_def signWithSignerKeys_def
      mutatingSignAppendMultiSig_def isSingleSig_def signOrigin_def appendOrigin_def
      newTransactionSigner_def)

lemma run5:
  "makeUnsigned exampleEnv
     (UnsignedMultiSig 2 exampleMemberKeys (Given ''xxxxxxx.xxxxxx.'') None)
     (TokenTransferRequest exampleTokenTransferOptions) [] =
     (Inr (exampleTransferBuilt ''xxxxxxx.xxxxxx.'' []),
      [FetchNonce (OptionsAddress ''xxxxxxx.xxxxxx.'') FUNAI_MAINNET (client FUNAI_MAINNET)])"
  by (simp add: example_defs builder_defs Let_def exampleMemberKeys_def
      sortPublicKeysForAddress_def)

lemma run6:
  "makeUnsigned (exampleEnv\<lparr>collaborators := failingFeeCollaborators\<rparr>) (PublicKey ''pub-k1'')
     (InferRequest exampleInferOptions) [] =
     (Inl (CollaboratorFailure ''no estimate''),
      [FetchFeeEstimate (exampleInferBuilt 0 0 emptyMessageSignature) FUNAI_TESTNET
         (client FUNAI_TESTNET)])"
  by (simp add: example_defs builder_defs Let_def failingFeeCollaborators_def)

text \<open>Claim C3, as amended. For each of the five builders (token transfer, contract deploy,
  contract call, infer, register-model) and every call, returning or failing: the requests
  made are ABI requests of a contract call, then at most one fee request, then at most one
  nonce request; no fee request is made when the caller gave a fee and no nonce request when
  the caller gave a nonce, 0 included; a signed builder adds only signatures, after the
  requests of its unsigned builder. On every call that returns a transaction, moreover: the
  fee-estimation collaborator is asked if and only if the caller omitted the fee, and the
  nonce-lookup collaborator if and only if the caller omitted the nonce; the transaction \<open>tx0\<close>
  is constructed with the caller's fee and nonce in the origin's condition, so an explicit fee
  or nonce is kept as given and its setter is not called; where one is omitted, the
  collaborator's answer is set on the transaction (\<open>setFee\<close>, \<open>setNonce\<close>), the fee before
  the nonce is requested; the nonce is requested for the
  \<^verbatim>\<open>address\<close> of the options when they have that key, for the single-sig-versioned address
  of the origin's hash otherwise; a single-sig signature is computed over the fee and nonce of
  the transaction the unsigned builder returned. A call that fails may fail before a request
  is made, so on a failing call an omitted fee or nonce need not be requested.\<close>

theorem fee_nonce_collaborators_iff_omitted:
  "(\<exists>abi fees nonces.
       snd (makeUnsigned env ko r tr) = tr @ abi @ fees @ nonces
     \<and> list_all isAbiCall abi \<and> (\<not> fetchesAbi r \<longrightarrow> abi = [])
     \<and> list_all isFeeCall fees \<and> list_all isNonceCall nonces
     \<and> length fees \<le> 1 \<and> length nonces \<le> 1
     \<and> (requestFee r \<noteq> None \<longrightarrow> fees = []) \<and> (requestNonce r \<noteq> None \<longrightarrow> nonces = []))
   \<and> (\<exists>signs. snd (makeSigned env sko r tr) =
          snd (makeUnsigned env (unsignedKeys (keys env) sko) r tr) @ signs
        \<and> list_all isSignCall signs)
   \<and> (makeUnsigned env ko r tr = (Inr tx, tr') \<longrightarrow>
      ((\<exists>c \<in> set (newCalls tr tr'). isFeeCall c) \<longleftrightarrow> requestFee r = None)
    \<and> ((\<exists>c \<in> set (newCalls tr tr'). isNonceCall c) \<longleftrightarrow> requestNonce r = None)
    \<and> filter isSignCall (newCalls tr tr') = []
    \<and> (\<exists>tx0 pre.
      list_all isAbiCall pre
    \<and> integerArgument (keys env) (assigned 0 (requestFeeKey r)) =
        Inr (sc_fee (spendingCondition (auth tx0)))
    \<and> integerArgument (keys env) (assigned 0 (requestNonceKey r)) =
        Inr (sc_nonce (spendingCondition (auth tx0)))
    \<and> (case (requestFee r, requestNonce r) of
         (Some f, Some n) \<Rightarrow>
           sc_fee (spendingCondition (auth tx0)) = f
         \<and> sc_nonce (spendingCondition (auth tx0)) = n
         \<and> tx = tx0 \<and> tr' = tr @ pre
       | (None, Some n) \<Rightarrow>
           sc_nonce (spendingCondition (auth tx0)) = n
         \<and> (\<exists>f. fetchFeeEstimate (collaborators env) (tr @ pre) tx0 (requestNetwork r)
                  (requestClient r) = Inr f
              \<and> tx = setFee (wires env) tx0 f
              \<and> tr' = tr @ pre @ [FetchFeeEstimate tx0 (requestNetwork r) (requestClient r)])
       | (Some f, None) \<Rightarrow>
           sc_fee (spendingCondition (auth tx0)) = f
         \<and> (\<exists>n. fetchNonce (collaborators env) (tr @ pre)
                  (requestAddress (nonceAddress (requestNetwork r) tx0) (optionsAddress ko))
                  (requestNetwork r) (requestClient r) = Inr n
              \<and> tx = setNonce (wires env) tx0 n
              \<and> tr' = tr @ pre @
                    [FetchNonce
                       (requestAddress (nonceAddress (requestNetwork r) tx0) (optionsAddress ko))
                       (requestNetwork r) (requestClient r)])
       | (None, None) \<Rightarrow>
           (\<exists>f n. fetchFeeEstimate (collaborators env) (tr @ pre) tx0 (requestNetwork r)
                    (requestClient r) = Inr f
              \<and> fetchNonce (collaborators env)
                   (tr @ pre @ [FetchFeeEstimate tx0 (requestNetwork r) (requestClient r)])
                   (requestAddress (nonceAddress (requestNetwork r) (setFee (wires env) tx0 f))
                      (optionsAddress ko))
                   (requestNetwork r) (requestClient r) = Inr n
              \<and> tx = setNonce (wires env) (setFee (wires env) tx0 f) n
              \<and> tr' = tr @ pre @
                    [FetchFeeEstimate tx0 (requestNetwork r) (requestClient r),
                     FetchNonce
                       (requestAddress
                          (nonceAddress (requestNetwork r) (setFee (wires env) tx0 f))
                          (optionsAddress ko))
                       (requestNetwork r) (requestClient r)]))))
   \<and> (makeSigned env (SenderKey sk) r tr = (Inr stx, str) \<longrightarrow>
        (\<exists>utx utr.
           makeUnsigned env (PublicKey (privateKeyToPublic (keys env) sk)) r tr = (Inr utx, utr)
         \<and> str = utr @ [SignWithKey sk (sigHashPreSign (keys env) (signBegin (keys env) utx)
              (publicKeyEncoding (keys env) (privateKeyToPublic (keys env) sk))
              (sc_fee (spendingCondition (auth utx)))
              (sc_nonce (spendingCondition (auth utx))))]))
   \<and> (makeSigned env (SignedMultiSig n pks a u sks) r tr = (Inr mtx, mtr) \<longrightarrow>
        (\<exists>utx utr signs.
           makeUnsigned env (UnsignedMultiSig n pks a u) r tr = (Inr utx, utr)
         \<and> mtr = utr @ signs \<and> list_all isSignCall signs))"
proof (intro conjI impI)
  show "\<exists>abi fees nonces.
       snd (makeUnsigned env ko r tr) = tr @ abi @ fees @ nonces
     \<and> list_all isAbiCall abi \<and> (\<not> fetchesAbi r \<longrightarrow> abi = [])
     \<and> list_all isFeeCall fees \<and> list_all isNonceCall nonces
     \<and> length fees \<le> 1 \<and> length nonces \<le> 1
     \<and> (requestFee r \<noteq> None \<longrightarrow> fees = []) \<and> (requestNonce r \<noteq> None \<longrightarrow> nonces = [])"
    by (rule makeUnsigned_calls)
  show "\<exists>signs. snd (makeSigned env sko r tr) =
          snd (makeUnsigned env (unsignedKeys (keys env) sko) r tr) @ signs
        \<and> list_all isSignCall signs"
    by (rule makeSigned_calls)
next
  assume run: "makeUnsigned env ko r tr = (Inr tx, tr')"
  from fee_calls_iff [OF run]
  show "(\<exists>c \<in> set (newCalls tr tr'). isFeeCall c) \<longleftrightarrow> requestFee r = None"
    and "(\<exists>c \<in> set (newCalls tr tr'). isNonceCall c) \<longleftrightarrow> requestNonce r = None"
    and "filter isSignCall (newCalls tr tr') = []"
    by blast+
  from makeUnsigned_outcome [OF run]
  show "\<exists>tx0 pre.
      list_all isAbiCall pre
    \<and> integerArgument (keys env) (assigned 0 (requestFeeKey r)) =
        Inr (sc_fee (spendingCondition (auth tx0)))
    \<and> integerArgument (keys env) (assigned 0 (requestNonceKey r)) =
        Inr (sc_nonce (spendingCondition (auth tx0)))
    \<and> (case (requestFee r, requestNonce r) of
         (Some f, Some n) \<Rightarrow>
           sc_fee (spendingCondition (auth tx0)) = f
         \<and> sc_nonce (spendingCondition (auth tx0)) = n
         \<and> tx = tx0 \<and> tr' = tr @ pre
       | (None, Some n) \<Rightarrow>
           sc_nonce (spendingCondition (auth tx0)) = n
         \<and> (\<exists>f. fetchFeeEstimate (collaborators env) (tr @ pre) tx0 (requestNetwork r)
                  (requestClient r) = Inr f
              \<and> tx = setFee (wires env) tx0 f
              \<and> tr' = tr @ pre @ [FetchFeeEstimate tx0 (requestNetwork r) (requestClient r)])
       | (Some f, None) \<Rightarrow>
           sc_fee (spendingCondition (auth tx0)) = f
         \<and> (\<exists>n. fetchNonce (collaborators env) (tr @ pre)
                  (requestAddress (nonceAddress (requestNetwork r) tx0) (optionsAddress ko))
                  (requestNetwork r) (requestClient r) = Inr n
              \<and> tx = setNonce (wires env) tx0 n
              \<and> tr' = tr @ pre @
                    [FetchNonce
                       (requestAddress (nonceAddress (requestNetwork r) tx0) (optionsAddress ko))
                       (requestNetwork r) (requestClient r)])
       | (None, None) \<Rightarrow>
           (\<exists>f n. fetchFeeEstimate (collaborators env) (tr @ pre) tx0 (requestNetwork r)
                    (requestClient r) = Inr f
              \<and> fetchNonce (collaborators env)
                   (tr @ pre @ [FetchFeeEstimate tx0 (requestNetwork r) (requestClient r)])
                   (requestAddress (nonceAddress (requestNetwork r) (setFee (wires env) tx0 f))
                      (optionsAddress ko))
                   (requestNetwork r) (requestClient r) = Inr n
              \<and> tx = setNonce (wires env) (setFee (wires env) tx0 f) n
              \<and> tr' = tr @ pre @
                    [FetchFeeEstimate tx0 (requestNetwork r) (requestClient r),
                     FetchNonce
                       (requestAddress
                          (nonceAddress (requestNetwork r) (setFee (wires env) tx0 f))
                          (optionsAddress ko))
                       (requestNetwork r) (requestClient r)]))"
    .
next
  assume "makeSigned env (SenderKey sk) r tr = (Inr stx, str)"
  then have "signWithSenderKey (keys env) sk
     (makeUnsigned env (PublicKey (privateKeyToPublic (keys env) sk)) r tr) = (Inr stx, str)"
    by (simp add: makeSigned_SenderKey)
  from signWithSenderKey_Inr [OF this]
  show "\<exists>utx utr.
           makeUnsigned env (PublicKey (privateKeyToPublic (keys env) sk)) r tr = (Inr utx, utr)
         \<and> str = utr @ [SignWithKey sk (sigHashPreSign (keys env) (signBegin (keys env) utx)
              (publicKeyEncoding (keys env) (privateKeyToPublic (keys env) sk))
              (sc_fee (spendingCondition (auth utx)))
              (sc_nonce (spendingCondition (auth utx))))]"
    .
next
  assume "makeSigned env (SignedMultiSig n pks a u sks) r tr = (Inr mtx, mtr)"
  from makeSigned_multi_sig_Inr [OF this]
  show "\<exists>utx utr signs.
           makeUnsigned env (UnsignedMultiSig n pks a u) r tr = (Inr utx, utr)
         \<and> mtr = utr @ signs \<and> list_all isSignCall signs"
    .
qed

theorem fee_nonce_collaborators_iff_omitted_witness:
  "makeUnsigned exampleEnv (PublicKey ''pub-k1'') (InferRequest exampleInferOptions) [] =
     (Inr (exampleInferBuilt 8 180 emptyMessageSignature),
      [FetchFeeEstimate (exampleInferBuilt 0 0 emptyMessageSignature) FUNAI_TESTNET
         (client FUNAI_TESTNET),
       FetchNonce (DerivedAddress (c32address TestnetSingleSig ''xxxxxx.'')) FUNAI_TESTNET
         (client FUNAI_TESTNET)])
   \<and> requestFee (InferRequest exampleInferOptions) = None
   \<and> requestNonce (InferRequest exampleInferOptions) = None
   \<and> makeUnsigned exampleEnv (PublicKey ''pub-k1'')
       (RegisterModelRequest exampleRegisterModelOptions) [] = (Inr exampleRegisterModelBuilt, [])
   \<and> requestFee (RegisterModelRequest exampleRegisterModelOptions) = Some 0
   \<and> requestNonce (RegisterModelRequest exampleRegisterModelOptions) = Some 0
   \<and> sc_fee (spendingCondition (auth exampleRegisterModelBuilt)) = 0
   \<and> sc_nonce (spendingCondition (auth exampleRegisterModelBuilt)) = 0
   \<and> (\<exists>tx0. sc_fee (spendingCondition (auth tx0)) = 0
         \<and> sc_nonce (spendingCondition (auth tx0)) = 0
         \<and> exampleRegisterModelBuilt = tx0)
   \<and> (\<exists>abi. snd (makeUnsigned exampleEnv (PublicKey ''pub-k1'')
                  (RegisterModelRequest exampleRegisterModelOptions) []) = abi
         \<and> list_all isAbiCall abi \<and> abi = [])
   \<and> makeUnsigned (exampleEnv\<lparr>collaborators := failingFeeCollaborators\<rparr>)
       (PublicKey ''pub-k1'') (InferRequest exampleInferOptions) [] =
     (Inl (CollaboratorFailure ''no estimate''),
      [FetchFeeEstimate (exampleInferBuilt 0 0 emptyMessageSignature) FUNAI_TESTNET
         (client FUNAI_TESTNET)])
   \<and> (\<exists>fees nonces.
         [FetchFeeEstimate (exampleInferBuilt 0 0 emptyMessageSignature) FUNAI_TESTNET
            (client FUNAI_TESTNET)] = fees @ nonces
       \<and> list_all isFeeCall fees \<and> list_all isNonceCall nonces
       \<and> length fees \<le> 1 \<and> length nonces \<le> 1)
   \<and> makeSigned exampleEnv (SenderKey ''k1'') (InferRequest exampleInferOptions) [] =
     (Inr (exampleInferBuilt 8 180 ''sig-k1-h0+''),
      [FetchFeeEstimate (exampleInferBuilt 0 0 emptyMessageSignature) FUNAI_TESTNET
         (client FUNAI_TESTNET),
       FetchNonce (DerivedAddress (c32address TestnetSingleSig ''xxxxxx.'')) FUNAI_TESTNET
         (client FUNAI_TESTNET),
       SignWithKey ''k1'' ''h0+''])
   \<and> makeSigned exampleEnv
       (SignedMultiSig 2 [''pub-k2'', ''pub-k1'', ''pub-k3''] Absent None [''k1'', ''k2''])
       (TokenTransferRequest exampleTokenTransferOptions) [] =
     (Inr (exampleTransferBuilt ''xxxxxx.xxxxxx.xxxxxx.''
        [\<lparr>pubKeyEncoding = Compressed, contents = MessageSignatureWire ''sig-k2-h0+''\<rparr>,
         \<lparr>pubKeyEncoding = Compressed, contents = MessageSignatureWire ''sig-k1-h0+!+''\<rparr>,
         \<lparr>pubKeyEncoding = Compressed,
          contents = PublicKeyWire (createFunaiPublicKey exampleKeys ''pub-k3'')\<rparr>]),
      [FetchNonce (DerivedAddress (c32address MainnetSingleSig ''xxxxxx.xxxxxx.xxxxxx.''))
         FUNAI_MAINNET (client FUNAI_MAINNET),
       SignWithKey ''k2'' ''h0+'', SignWithKey ''k1'' ''h0+!+''])
   \<and> makeUnsigned exampleEnv
       (UnsignedMultiSig 2 exampleMemberKeys (Given ''xxxxxxx.xxxxxx.'') None)
       (TokenTransferRequest exampleTokenTransferOptions) [] =
     (Inr (exampleTransferBuilt ''xxxxxxx.xxxxxx.'' []),
      [FetchNonce (OptionsAddress ''xxxxxxx.xxxxxx.'') FUNAI_MAINNET (client FUNAI_MAINNET)])
   \<and> (\<exists>tx0. sc_fee (spendingCondition (auth tx0)) = 0
         \<and> exampleTransferBuilt ''xxxxxxx.xxxxxx.'' [] = setNonce (wires exampleEnv) tx0 7
         \<and> [FetchNonce (OptionsAddress ''xxxxxxx.xxxxxx.'') FUNAI_MAINNET
               (client FUNAI_MAINNET)] =
             [FetchNonce
                (requestAddress (nonceAddress FUNAI_MAINNET tx0) (Given ''xxxxxxx.xxxxxx.''))
                FUNAI_MAINNET (client FUNAI_MAINNET)])
   \<and> (\<exists>tx0. sc_fee (spendingCondition (auth tx0)) = 0
         \<and> sc_nonce (spendingCondition (auth tx0)) = 0
         \<and> exampleInferBuilt 8 180 emptyMessageSignature =
             setNonce (wires exampleEnv) (setFee (wires exampleEnv) tx0 180) 8)
   \<and> (\<exists>utx utr.
         makeUnsigned exampleEnv (PublicKey (privateKeyToPublic (keys exampleEnv) ''k1''))
           (InferRequest exampleInferOptions) [] = (Inr utx, utr)
       \<and> [FetchFeeEstimate (exampleInferBuilt 0 0 emptyMessageSignature) FUNAI_TESTNET
            (client FUNAI_TESTNET),
          FetchNonce (DerivedAddress (c32address TestnetSingleSig ''xxxxxx.'')) FUNAI_TESTNET
            (client FUNAI_TESTNET),
          SignWithKey ''k1'' ''h0+''] =
         utr @ [SignWithKey ''k1'' (sigHashPreSign (keys exampleEnv)
            (signBegin (keys exampleEnv) utx)
            (publicKeyEncoding (keys exampleEnv) (privateKeyToPublic (keys exampleEnv) ''k1''))
            (sc_fee (spendingCondition (auth utx))) (sc_nonce (spendingCondition (auth utx))))])
   \<and> (\<exists>utx utr signs.
         makeUnsigned exampleEnv
           (UnsignedMultiSig 2 [''pub-k2'', ''pub-k1'', ''pub-k3''] Absent None)
           (TokenTransferRequest exampleTokenTransferOptions) [] = (Inr utx, utr)
       \<and> [FetchNonce (DerivedAddress (c32address MainnetSingleSig ''xxxxxx.xxxxxx.xxxxxx.''))
            FUNAI_MAINNET (client FUNAI_MAINNET),
          SignWithKey ''k2'' ''h0+'', SignWithKey ''k1'' ''h0+!+''] = utr @ signs
       \<and> list_all isSignCall signs)"
proof -
  note t = fee_nonce_collaborators_iff_omitted
  let ?env6 = "exampleEnv\<lparr>collaborators := failingFeeCollaborators\<rparr>"
  have r: "requestFee (InferRequest exampleInferOptions) = None"
    "requestNonce (InferRequest exampleInferOptions) = None"
    "requestFee (RegisterModelRequest exampleRegisterModelOptions) = Some 0"
    "requestNonce (RegisterModelRequest exampleRegisterModelOptions) = Some 0"
    "sc_fee (spendingCondition (auth exampleRegisterModelBuilt)) = 0"
    "sc_nonce (spendingCondition (auth exampleRegisterModelBuilt)) = 0"
    by (simp_all add: example_defs callerFee_def callerNonce_def)
  have r5: "requestFee (TokenTransferRequest exampleTokenTransferOptions) = Some 0"
    "requestNonce (TokenTransferRequest exampleTokenTransferOptions) = None"
    "requestNetwork (TokenTransferRequest exampleTokenTransferOptions) = FUNAI_MAINNET"
    "requestClient (TokenTransferRequest exampleTokenTransferOptions) = client FUNAI_MAINNET"
    by (simp_all add: example_defs callerFee_def callerNonce_def optionsNetwork_def
        optionsClient_def assignClient_def clientFromNetwork_def FUNAI_MAINNET_def)
  from t [THEN conjunct2, THEN conjunct2, THEN conjunct1, THEN mp, OF run2] r(3,4)
  have explicit: "\<exists>tx0. sc_fee (spendingCondition (auth tx0)) = 0
         \<and> sc_nonce (spendingCondition (auth tx0)) = 0
         \<and> exampleRegisterModelBuilt = tx0"
    by auto
  from t [where env = exampleEnv and ko = "PublicKey ''pub-k1''"
      and r = "RegisterModelRequest exampleRegisterModelOptions" and tr = "[]",
      THEN conjunct1] r(3,4)
  have quiet: "\<exists>abi. snd (makeUnsigned exampleEnv (PublicKey ''pub-k1'')
                  (RegisterModelRequest exampleRegisterModelOptions) []) = abi
         \<and> list_all isAbiCall abi \<and> abi = []"
    by auto
  from t [where env = ?env6 and ko = "PublicKey ''pub-k1''"
      and r = "InferRequest exampleInferOptions" and tr = "[]", THEN conjunct1]
  have failing: "\<exists>fees nonces.
         [FetchFeeEstimate (exampleInferBuilt 0 0 emptyMessageSignature) FUNAI_TESTNET
            (client FUNAI_TESTNET)] = fees @ nonces
       \<and> list_all isFeeCall fees \<and> list_all isNonceCall nonces
       \<and> length fees \<le> 1 \<and> length nonces \<le> 1"
    unfolding run6 by auto
  from t [THEN conjunct2, THEN conjunct2, THEN conjunct1, THEN mp, OF run5] r5
  have supplied: "\<exists>tx0. sc_fee (spendingCondition (auth tx0)) = 0
         \<and> exampleTransferBuilt ''xxxxxxx.xxxxxx.'' [] = setNonce (wires exampleEnv) tx0 7
         \<and> [FetchNonce (OptionsAddress ''xxxxxxx.xxxxxx.'') FUNAI_MAINNET
               (client FUNAI_MAINNET)] =
             [FetchNonce
                (requestAddress (nonceAddress FUNAI_MAINNET tx0) (Given ''xxxxxxx.xxxxxx.''))
                FUNAI_MAINNET (client FUNAI_MAINNET)]"
    by (auto simp: exampleEnv_def exampleCollaborators_def)
  from t [THEN conjunct2, THEN conjunct2, THEN conjunct1, THEN mp, OF run1] r(1,2)
  have omitted: "\<exists>tx0. sc_fee (spendingCondition (auth tx0)) = 0
         \<and> sc_nonce (spendingCondition (auth tx0)) = 0
         \<and> exampleInferBuilt 8 180 emptyMessageSignature =
             setNonce (wires exampleEnv) (setFee (wires exampleEnv) tx0 180) 8"
    by (auto simp: exampleEnv_def exampleCollaborators_def exampleInferOptions_def
        integerArgument_def)
  from t [THEN conjunct2, THEN conjunct2, THEN conjunct2, THEN conjunct1, THEN mp, OF run3]
  have single: "\<exists>utx utr.
         makeUnsigned exampleEnv (PublicKey (privateKeyToPublic (keys exampleEnv) ''k1''))
           (InferRequest exampleInferOptions) [] = (Inr utx, utr)
       \<and> [FetchFeeEstimate (exampleInferBuilt 0 0 emptyMessageSignature) FUNAI_TESTNET
            (client FUNAI_TESTNET),
          FetchNonce (DerivedAddress (c32address TestnetSingleSig ''xxxxxx.'')) FUNAI_TESTNET
            (client FUNAI_TESTNET),
          SignWithKey ''k1'' ''h0+''] =
         utr @ [SignWithKey ''k1'' (sigHashPreSign (keys exampleEnv)
            (signBegin (keys exampleEnv) utx)
            (publicKeyEncoding (keys exampleEnv) (privateKeyToPublic (keys exampleEnv) ''k1''))
            (sc_fee (spendingCondition (auth utx))) (sc_nonce (spendingCondition (auth utx))))]" .
  from t [THEN conjunct2, THEN conjunct2, THEN conjunct2, THEN conjunct2, THEN mp, OF run4]
  have multi: "\<exists>utx utr signs.
         makeUnsigned exampleEnv
           (UnsignedMultiSig 2 [''pub-k2'', ''pub-k1'', ''pub-k3''] Absent None)
           (TokenTransferRequest exampleTokenTransferOptions) [] = (Inr utx, utr)
       \<and> [FetchNonce (DerivedAddress (c32address MainnetSingleSig ''xxxxxx.xxxxxx.xxxxxx.''))
            FUNAI_MAINNET (client FUNAI_MAINNET),
          SignWithKey ''k2'' ''h0+'', SignWithKey ''k1'' ''h0+!+''] = utr @ signs
       \<and> list_all isSignCall signs" .
  from run1 run2 run3 run4 run5 run6 r explicit quiet failing supplied omitted single multi
  show ?thesis
    by (intro conjI)
qed

text \<open>The claim as stated fails on calls that fail: when the fee collaborator fails, the
  builder stops there, and a nonce that the caller omitted is never looked up.\<close>

theorem nonce_omitted_not_requested_counterexample:
  "makeUnsigned (exampleEnv\<lparr>collaborators := failingFeeCollaborators\<rparr>) (PublicKey ''pub-k1'')
     (InferRequest exampleInferOptions) [] =
     (Inl (CollaboratorFailure ''no estimate''),
      [FetchFeeEstimate (exampleInferBuilt 0 0 emptyMessageSignature) FUNAI_TESTNET
         (client FUNAI_TESTNET)])
   \<and> requestNonce (InferRequest exampleInferOptions) = None
   \<and> filter isNonceCall
       [FetchFeeEstimate (exampleInferBuilt 0 0 emptyMessageSignature) FUNAI_TESTNET
          (client FUNAI_TESTNET)] = []"
proof -
  have "requestNonce (InferRequest exampleInferOptions) = None"
    by (simp add: exampleInferOptions_def callerNonce_def)
  with run6 show ?thesis
    by simp
qed

subsection \<open>The address of the nonce lookup\<close>

text \<open>Claim C4. The claim asks that the nonce is looked up for the origin's address: the
  signer hash160 of the origin's condition under the network's address version for that kind
  of condition. The builders compute the address with \<^verbatim>\<open>addressVersion.singleSig\<close>, whatever
  the condition is, and request the nonce for it unless the options have an \<^verbatim>\<open>address\<close>
  key, which then replaces it. For a single-sig origin the computed address is the origin's
  address. For a multi-sig origin it is not: the run below builds a 2-of-2 multi-sig token
  transfer on mainnet with the nonce omitted and no \<^verbatim>\<open>address\<close> in the options; the origin's
  condition is multi-sig, yet the nonce is requested for the single-sig-versioned address of its
  hash, which is another address than the multi-sig-versioned one.\<close>

theorem nonce_lookup_address_multi_sig_origin:
  "makeUnsigned exampleEnv (UnsignedMultiSig 2 [''b'', ''aa''] Absent None)
     (TokenTransferRequest exampleTokenTransferOptions) [] =
     (Inr (exampleTransferBuilt ''x.xx.'' []),
      [FetchNonce (DerivedAddress (c32address MainnetSingleSig ''x.xx.'')) FUNAI_MAINNET
         (client FUNAI_MAINNET)])
   \<and> requestNonce (TokenTransferRequest exampleTokenTransferOptions) = None
   \<and> spendingCondition (auth (exampleTransferBuilt ''x.xx.'' [])) =
       MultiSigSpendingCondition P2SH ''x.xx.'' 7 0 [] 2
   \<and> \<not> isSingleSig (spendingCondition (auth (exampleTransferBuilt ''x.xx.'' [])))
   \<and> addressVersion FUNAI_MAINNET =
       \<lparr>singleSig = MainnetSingleSig, multiSig = MainnetMultiSig\<rparr>
   \<and> c32address MainnetSingleSig ''x.xx.'' \<noteq> c32address MainnetMultiSig ''x.xx.''"
  by (simp add: example_defs builder_defs Let_def isSingleSig_def)

subsection \<open>Unsigned construction is deterministic\<close>

lemma feeAndNonce_explicit [simp]:
  "feeAndNonce env (Some f) (Some n) a net cl tx tr = (Inr tx, tr)"
  by (simp add: feeAndNonce_def feeStep_def nonceStep_def)

lemma abiStep_no_fetch:
  assumes "validateWithAbi opts \<noteq> Some (AbiFlag True)"
  shows "abiStep (env\<lparr>collaborators := c\<rparr>) opts p tr2 = (fst (abiStep env opts p tr1), tr2)"
proof (cases "validateWithAbi opts")
  case None
  then show ?thesis by (simp add: abiStep_def)
next
  case (Some v)
  with assms show ?thesis
    by (cases v) (auto simp: abiStep_def)
qed

lemma makeUnsigned_explicit_trace:
  assumes "requestFee r = Some f" and "requestNonce r = Some n"
  shows "\<exists>pre. snd (makeUnsigned env ko r tr) = tr @ pre \<and> list_all isAbiCall pre"
proof (cases r)
  case (ContractCallRequest opts)
  show ?thesis
  proof (cases "abiStep env opts
      (projr (createContractCallPayload (wires env) (contractAddress opts)
         (ContractCallOptions.contractName opts) (functionName opts) (functionArgs opts))) tr")
    case (Pair res tr1)
    from abiStep_trace [OF Pair] obtain pre where "tr1 = tr @ pre" "list_all isAbiCall pre"
      by blast
    with assms ContractCallRequest Pair show ?thesis
      by (auto simp: makeUnsignedContractCall_def Let_def
          split: sum.splits option.splits intro: exI [of _ "[]"])
  qed
qed (use assms in \<open>auto simp: makeUnsignedFunaiTokenTransfer_def makeUnsignedContractDeploy_def
      makeUnsignedInfer_def makeUnsignedRegisterModel_def Let_def
      split: sum.splits UnsignedKeys.splits\<close>)

lemma makeUnsigned_explicit_built:
  assumes "requestFee r = Some f" and "requestNonce r = Some n"
    and "makeUnsigned env ko r tr1 = (Inr tx1, tr1')"
    and "makeUnsigned (env\<lparr>collaborators := c\<rparr>) ko r tr2 = (Inr tx2, tr2')"
  shows "tx1 = tx2"
  using assms
  by (cases r)
     (auto simp: makeUnsignedFunaiTokenTransfer_def makeUnsignedContractDeploy_def
        makeUnsignedContractCall_def makeUnsignedInfer_def makeUnsignedRegisterModel_def Let_def
        split: sum.splits UnsignedKeys.splits prod.splits option.splits)

lemma makeUnsignedContractCall_explicit_no_abi:
  assumes "callerFee opts = Some f" and "callerNonce opts = Some n"
    and "validateWithAbi opts \<noteq> Some (AbiFlag True)"
  shows "makeUnsignedContractCall (env\<lparr>collaborators := c\<rparr>) ko opts tr2 =
     (fst (makeUnsignedContractCall env ko opts tr1), tr2)"
proof (cases "createContractCallPayload (wires env) (contractAddress opts)
    (ContractCallOptions.contractName opts) (functionName opts) (functionArgs opts)")
  case (Inl e)
  then show ?thesis by (simp add: makeUnsignedContractCall_def)
next
  case (Inr p)
  obtain res t where a1: "abiStep env opts p tr1 = (res, t)"
    by (cases "abiStep env opts p tr1")
  with abiStep_no_fetch [OF assms(3), where env = env and c = c and p = p and ?tr2.0 = tr2
      and ?tr1.0 = tr1]
  have a2: "abiStep (env\<lparr>collaborators := c\<rparr>) opts p tr2 = (res, tr2)"
    by simp
  from Inr a1 a2 assms(1,2) show ?thesis
    by (cases res; cases "originSpendingCondition (keys env) ko (optionsNonce opts)
          (optionsFee opts)")
       (simp_all add: makeUnsignedContractCall_def Let_def)
qed

lemma makeUnsigned_explicit_no_abi:
  assumes "requestFee r = Some f" and "requestNonce r = Some n" and "\<not> fetchesAbi r"
  shows "makeUnsigned (env\<lparr>collaborators := c\<rparr>) ko r tr2 =
     (fst (makeUnsigned env ko r tr1), tr2)"
proof (cases r)
  case (ContractCallRequest opts)
  with assms makeUnsignedContractCall_explicit_no_abi
    [where opts = opts and f = f and n = n and env = env and c = c and ko = ko
      and ?tr2.0 = tr2 and ?tr1.0 = tr1]
  show ?thesis by simp
qed (use assms in \<open>auto simp: makeUnsignedFunaiTokenTransfer_def
      makeUnsignedContractDeploy_def makeUnsignedInfer_def makeUnsignedRegisterModel_def Let_def
      split: sum.splits UnsignedKeys.splits\<close>)

lemma same_code_env:
  fixes env1 env2 :: Env
  assumes "keys env2 = keys env1" and "wires env2 = wires env1"
  shows "env2 = env1\<lparr>collaborators := collaborators env2\<rparr>"
  using assms by (cases env1; cases env2) simp

text \<open>Claim C7, as amended. Two runs of an unsigned builder on the same key options, the
  same options and an explicit fee and nonce, in any two environments that share the code (the
  key functions and the wire helpers) but may differ in what the collaborators answer and in
  what was requested before: when both return a transaction it is the same transaction, so its
  serialization is the same bytes; neither run asks the fee or the nonce collaborator, and the
  only requests a run makes are requests for a contract's ABI; and unless the call is a contract
  call that asks for the contract's ABI (\<^verbatim>\<open>validateWithAbi: true\<close>), the two runs have the
  same outcome, a transaction or an error, and make no call at all.\<close>

theorem unsigned_construction_deterministic:
  assumes "requestFee r = Some f" and "requestNonce r = Some n"
    and "keys env2 = keys env1" and "wires env2 = wires env1"
  shows "(makeUnsigned env1 ko r tr1 = (Inr tx1, tr1')
            \<and> makeUnsigned env2 ko r tr2 = (Inr tx2, tr2')
          \<longrightarrow> tx1 = tx2 \<and> serialize (wires env1) tx1 = serialize (wires env2) tx2)
     \<and> filter (\<lambda>c. isFeeCall c \<or> isNonceCall c)
         (newCalls tr1 (snd (makeUnsigned env1 ko r tr1))) = []
     \<and> list_all isAbiCall (newCalls tr1 (snd (makeUnsigned env1 ko r tr1)))
     \<and> (\<not> fetchesAbi r \<longrightarrow>
          fst (makeUnsigned env1 ko r tr1) = fst (makeUnsigned env2 ko r tr2)
        \<and> snd (makeUnsigned env1 ko r tr1) = tr1 \<and> snd (makeUnsigned env2 ko r tr2) = tr2)"
proof -
  let ?c = "collaborators env2"
  have env2: "env2 = env1\<lparr>collaborators := ?c\<rparr>"
    by (rule same_code_env [OF assms(3,4)])
  have same: "env1 = env1\<lparr>collaborators := collaborators env1\<rparr>"
    by simp
  have built: "tx1 = tx2"
    if "makeUnsigned env1 ko r tr1 = (Inr tx1, tr1')
      \<and> makeUnsigned env2 ko r tr2 = (Inr tx2, tr2')"
    using that makeUnsigned_explicit_built
        [OF assms(1,2), where env = env1 and c = "?c" and ko = ko and ?tr1.0 = tr1
          and ?tx1.0 = tx1 and tr1' = tr1' and ?tr2.0 = tr2 and ?tx2.0 = tx2 and tr2' = tr2']
      env2 by simp
  from makeUnsigned_explicit_trace [OF assms(1,2), of env1 ko tr1] obtain pre where
    pre: "snd (makeUnsigned env1 ko r tr1) = tr1 @ pre" "list_all isAbiCall pre"
    by blast
  with abi_calls_kind [of pre]
  have quiet: "filter (\<lambda>c. isFeeCall c \<or> isNonceCall c)
      (newCalls tr1 (snd (makeUnsigned env1 ko r tr1))) = []"
    by (simp add: filter_empty_conv)
  from pre have abis: "list_all isAbiCall (newCalls tr1 (snd (makeUnsigned env1 ko r tr1)))"
    by simp
  have plain: "fst (makeUnsigned env1 ko r tr1) = fst (makeUnsigned env2 ko r tr2)
      \<and> snd (makeUnsigned env1 ko r tr1) = tr1 \<and> snd (makeUnsigned env2 ko r tr2) = tr2"
    if "\<not> fetchesAbi r"
  proof -
    have e2: "makeUnsigned env2 ko r tr2 = (fst (makeUnsigned env1 ko r tr1), tr2)"
      using makeUnsigned_explicit_no_abi
        [OF assms(1,2) that, where env = env1 and c = "?c" and ko = ko and ?tr2.0 = tr2
          and ?tr1.0 = tr1] env2
      by simp
    have e1: "makeUnsigned env1 ko r tr1 = (fst (makeUnsigned env1 ko r tr1), tr1)"
      using makeUnsigned_explicit_no_abi
        [OF assms(1,2) that, where env = env1 and c = "collaborators env1" and ko = ko
          and ?tr2.0 = tr1 and ?tr1.0 = tr1]
      by simp
    from arg_cong [OF e2, where f = fst] arg_cong [OF e2, where f = snd]
      arg_cong [OF e1, where f = snd]
    show ?thesis by simp
  qed
  from built quiet abis plain assms(4) show ?thesis
    by auto
qed

theorem unsigned_construction_deterministic_witness:
  "requestFee (RegisterModelRequest exampleRegisterModelOptions) = Some 0
   \<and> requestNonce (RegisterModelRequest exampleRegisterModelOptions) = Some 0
   \<and> keys (exampleEnv\<lparr>collaborators := otherCollaborators\<rparr>) = keys exampleEnv
   \<and> wires (exampleEnv\<lparr>collaborators := otherCollaborators\<rparr>) = wires exampleEnv
   \<and> makeUnsigned exampleEnv (PublicKey ''pub-k1'')
       (RegisterModelRequest exampleRegisterModelOptions) [] = (Inr exampleRegisterModelBuilt, [])
   \<and> makeUnsigned (exampleEnv\<lparr>collaborators := otherCollaborators\<rparr>) (PublicKey ''pub-k1'')
       (RegisterModelRequest exampleRegisterModelOptions) [SignWithKey ''k0'' ''h''] =
       (Inr exampleRegisterModelBuilt, [SignWithKey ''k0'' ''h''])
   \<and> serialize (wires exampleEnv) exampleRegisterModelBuilt =
       serialize (wires (exampleEnv\<lparr>collaborators := otherCollaborators\<rparr>))
         exampleRegisterModelBuilt
   \<and> filter (\<lambda>c. isFeeCall c \<or> isNonceCall c)
       (newCalls [] (snd (makeUnsigned exampleEnv (PublicKey ''pub-k1'')
          (RegisterModelRequest exampleRegisterModelOptions) []))) = []"
proof -
  let ?r = "RegisterModelRequest exampleRegisterModelOptions"
  let ?env2 = "exampleEnv\<lparr>collaborators := otherCollaborators\<rparr>"
  have h1: "requestFee ?r = Some 0" and h2: "requestNonce ?r = Some 0"
    by (simp_all add: example_defs callerFee_def callerNonce_def)
  have h3: "keys ?env2 = keys exampleEnv" and h4: "wires ?env2 = wires exampleEnv"
    by simp_all
  have r2: "makeUnsigned ?env2 (PublicKey ''pub-k1'') ?r [SignWithKey ''k0'' ''h''] =
      (Inr exampleRegisterModelBuilt, [SignWithKey ''k0'' ''h''])"
    by (simp add: example_defs builder_defs Let_def)
  note t = unsigned_construction_deterministic
    [OF h1 h2 h3 h4, where ko = "PublicKey ''pub-k1''" and ?tr1.0 = "[]"
      and ?tr2.0 = "[SignWithKey ''k0'' ''h'']" and ?tx1.0 = exampleRegisterModelBuilt
      and ?tx2.0 = exampleRegisterModelBuilt and tr1' = "[]"
      and tr2' = "[SignWithKey ''k0'' ''h'']"]
  from t run2 r2 have "serialize (wires exampleEnv) exampleRegisterModelBuilt =
       serialize (wires ?env2) exampleRegisterModelBuilt"
    by blast
  moreover from t have "filter (\<lambda>c. isFeeCall c \<or> isNonceCall c)
       (newCalls [] (snd (makeUnsigned exampleEnv (PublicKey ''pub-k1'') ?r []))) = []"
    by blast
  ultimately show ?thesis
    using h1 h2 h3 h4 run2 r2 by (intro conjI)
qed

text \<open>The claim as stated fails on a contract call with \<^verbatim>\<open>validateWithAbi: true\<close>: with an
  explicit fee and nonce the builder still asks the ABI collaborator, and two runs end
  differently when the collaborator answers differently, here with an error in one run and
  a transaction in the other.\<close>

theorem explicit_fee_nonce_abi_request_counterexample:
  "requestFee (ContractCallRequest exampleContractCallOptions) = Some 0
   \<and> requestNonce (ContractCallRequest exampleContractCallOptions) = Some 0
   \<and> makeUnsigned exampleEnv (PublicKey ''pub-k1'')
       (ContractCallRequest exampleContractCallOptions) [] =
       (Inl (CollaboratorFailure ''no ABI''),
        [FetchAbi ''SP1CONTRACT'' ''pool'' FUNAI_MAINNET (client FUNAI_MAINNET)])
   \<and> makeUnsigned (exampleEnv\<lparr>collaborators := abiCollaborators\<rparr>) (PublicKey ''pub-k1'')
       (ContractCallRequest exampleContractCallOptions) [] =
       (Inr exampleContractCallBuilt,
        [FetchAbi ''SP1CONTRACT'' ''pool'' FUNAI_MAINNET (client FUNAI_MAINNET)])"
  by (simp add: example_defs builder_defs Let_def abiStep_def abiCollaborators_def
      exampleContractCallOptions_def exampleContractCallBuilt_def lpPostConditions_def
      optionsPostConditionMode_def)

subsection \<open>The node principal of an infer payload\<close>







subsection \<open>Multi-sig signing appends the fields in the resolved key order\<close>


lemma spendingCondition_withOrigin [simp]: "spendingCondition (withOrigin a sc) = sc"
  by (cases a) simp_all








subsection \<open>Decoding an encoded message\<close>

text \<open>
  The example codec for variable-length integers decodes what it encoded, whatever follows,
  and reports the length of the encoding: the contract that the round trip of a message
  rests on is satisfiable for every length a byte array can have.
\<close>

lemma length_leBytes [simp]: "length (leBytes k n) = k"
  by (induction k arbitrary: n) simp_all

lemma take_leBytes [simp]: "take k (leBytes k n @ rest) = leBytes k n"
  by simp

lemma leNat_leBytes: "n < 256 ^ k \<Longrightarrow> leNat (leBytes k n) = n"
proof (induction k arbitrary: n)
  case 0
  then show ?case by simp
next
  case (Suc k)
  then have "n div 256 < 256 ^ k"
    by (simp add: less_mult_imp_div_less mult.commute)
  with Suc.IH have "leNat (leBytes k (n div 256)) = n div 256"
    by simp
  moreover have "unat (of_nat (n mod 256) :: 8 word) = n mod 256"
    by (simp add: unat_of_nat)
  ultimately show ?case
    by simp
qed

lemma exampleVaruint_1:
  assumes "n < 253"
  shows "encode exampleVaruint n = Inr [of_nat n]"
    and "decode exampleVaruint ([of_nat n] @ rest) = Inr n"
    and "encodingLength exampleVaruint n = Inr 1"
proof -
  from assms have "unat (of_nat n :: 8 word) = n"
    by (simp add: unat_of_nat)
  with assms show "encode exampleVaruint n = Inr [of_nat n]"
    and "decode exampleVaruint ([of_nat n] @ rest) = Inr n"
    and "encodingLength exampleVaruint n = Inr 1"
    by (simp_all add: exampleVaruint_def maxSafeInteger_def)
qed

lemma exampleVaruint_3:
  assumes "253 \<le> n" "n \<le> 65535"
  shows "encode exampleVaruint n = Inr (253 # leBytes 2 n)"
    and "decode exampleVaruint ((253 # leBytes 2 n) @ rest) = Inr n"
    and "encodingLength exampleVaruint n = Inr 3"
proof -
  from assms have "leNat (leBytes 2 n) = n"
    by (intro leNat_leBytes) simp
  with assms show "encode exampleVaruint n = Inr (253 # leBytes 2 n)"
    and "decode exampleVaruint ((253 # leBytes 2 n) @ rest) = Inr n"
    and "encodingLength exampleVaruint n = Inr 3"
    by (simp_all add: exampleVaruint_def maxSafeInteger_def)
qed

lemma exampleVaruint_5:
  assumes "65535 < n" "n \<le> 4294967295"
  shows "encode exampleVaruint n = Inr (254 # leBytes 4 n)"
    and "decode exampleVaruint ((254 # leBytes 4 n) @ rest) = Inr n"
    and "encodingLength exampleVaruint n = Inr 5"
proof -
  from assms have "leNat (leBytes 4 n) = n"
    by (intro leNat_leBytes) simp
  with assms show "encode exampleVaruint n = Inr (254 # leBytes 4 n)"
    and "decode exampleVaruint ((254 # leBytes 4 n) @ rest) = Inr n"
    and "encodingLength exampleVaruint n = Inr 5"
    by (simp_all add: exampleVaruint_def maxSafeInteger_def)
qed

lemma exampleVaruint_9:
  assumes "4294967295 < n" "n \<le> maxSafeInteger"
  shows "encode exampleVaruint n = Inr (255 # leBytes 8 n)"
    and "decode exampleVaruint ((255 # leBytes 8 n) @ rest) = Inr n"
    and "encodingLength exampleVaruint n = Inr 9"
proof -
  from assms have "leNat (leBytes 8 n) = n"
    by (intro leNat_leBytes) (simp add: maxSafeInteger_def)
  with assms show "encode exampleVaruint n = Inr (255 # leBytes 8 n)"
    and "decode exampleVaruint ((255 # leBytes 8 n) @ rest) = Inr n"
    and "encodingLength exampleVaruint n = Inr 9"
    by (simp_all add: exampleVaruint_def)
qed

lemma exampleVaruint_contract:
  assumes "n \<le> maxSafeInteger"
  shows "\<exists>e. encode exampleVaruint n = Inr e
     \<and> (\<forall>rest. decode exampleVaruint (e @ rest) = Inr n)
     \<and> encodingLength exampleVaruint n = Inr (length e)"
proof -
  consider "n < 253" | "253 \<le> n" "n \<le> 65535" | "65535 < n" "n \<le> 4294967295"
    | "4294967295 < n"
    by linarith
  then show ?thesis
  proof cases
    case 1
    from exampleVaruint_1 [OF 1] show ?thesis by simp
  next
    case 2
    from exampleVaruint_3 [OF 2] show ?thesis by simp
  next
    case 3
    from exampleVaruint_5 [OF 3] show ?thesis by simp
  next
    case 4
    from exampleVaruint_9 [OF 4 assms] show ?thesis by simp
  qed
qed

lemma exampleVaruint_message_round_trip:
  assumes "length (messageBytes u message) \<le> maxSafeInteger"
  shows "\<exists>encoded. encodeMessage exampleVaruint u message p = Inr encoded
     \<and> decodeMessage exampleVaruint u encoded p = Inr (messageBytes u message)"
proof -
  from exampleVaruint_contract [OF assms] obtain e where
    "encode exampleVaruint (length (messageBytes u message)) = Inr e"
    "\<forall>rest. decode exampleVaruint (e @ rest) = Inr (length (messageBytes u message))"
    "encodingLength exampleVaruint (length (messageBytes u message)) = Inr (length e)"
    by blast
  then show ?thesis
    by (simp add: encodeMessage_def decodeMessage_def)
qed

text \<open>
  Claim C10.  For every message (a string or a byte array) and every prefix, given or
  defaulted, \<^verbatim>\<open>encodeMessage\<close> returns an encoding and \<^verbatim>\<open>decodeMessage\<close> of that encoding
  under the same prefix returns exactly the message's bytes, provided that the codec for
  variable-length integers, which is outside the sources, encodes the message's length, decodes
  that encoding at the head of any byte array, and reports its length in bytes.
\<close>

theorem decodeMessage_encodeMessage:
  assumes "encode v (length (messageBytes utf8ToBytes message)) = Inr encodedLength"
    and "\<forall>rest. decode v (encodedLength @ rest) =
           Inr (length (messageBytes utf8ToBytes message))"
    and "encodingLength v (length (messageBytes utf8ToBytes message)) =
           Inr (length encodedLength)"
  shows "\<exists>encoded. encodeMessage v utf8ToBytes message prefix' = Inr encoded
     \<and> decodeMessage v utf8ToBytes encoded prefix' = Inr (messageBytes utf8ToBytes message)"
  using assms by (simp add: encodeMessage_def decodeMessage_def)

theorem decodeMessage_encodeMessage_witness:
  "encode exampleVaruint (length (messageBytes exampleUtf8ToBytes (MessageString ''hi''))) =
     Inr [2]
   \<and> encodingLength exampleVaruint 2 = Inr 1
   \<and> encodeMessage exampleVaruint exampleUtf8ToBytes (MessageString ''hi'') None =
       Inr [22, 70, 117, 110, 97, 105, 32, 83, 105, 103, 110, 101, 100, 32, 77, 101, 115,
            115, 97, 103, 101, 58, 10, 2, 104, 105]
   \<and> (\<exists>encoded.
         encodeMessage exampleVaruint exampleUtf8ToBytes (MessageString ''hi'') None =
           Inr encoded
       \<and> decodeMessage exampleVaruint exampleUtf8ToBytes encoded None = Inr [104, 105])"
  using decodeMessage_encodeMessage [where v = exampleVaruint
      and utf8ToBytes = exampleUtf8ToBytes and message = "MessageString ''hi''"
      and encodedLength = "[2]" and prefix' = None]
  by (simp add: exampleVaruint_def exampleUtf8ToBytes_def maxSafeInteger_def
      encodeMessage_def prefixOrDefault_def chainPrefix_def)

subsection \<open>Decoding an encoded value\<close>

lemma length_bigEndian [simp]: "length (bigEndian k n) = k"
  by (induction k arbitrary: n) simp_all

lemma fromBigEndian_snoc: "fromBigEndian (bs @ [b]) = 256 * fromBigEndian bs + unat b"
  by (simp add: fromBigEndian_def)

lemma fromBigEndian_bigEndian: "n < 256 ^ k \<Longrightarrow> fromBigEndian (bigEndian k n) = n"
proof (induction k arbitrary: n)
  case 0
  then show ?case by (simp add: fromBigEndian_def)
next
  case (Suc k)
  then have "n div 256 < 256 ^ k"
    by (simp add: less_mult_imp_div_less mult.commute)
  with Suc.IH have "fromBigEndian (bigEndian k (n div 256)) = n div 256"
    by simp
  moreover have "unat (of_nat (n mod 256) :: 8 word) = n mod 256"
    by (simp add: unat_of_nat)
  ultimately show ?case
    by (simp add: fromBigEndian_snoc)
qed

lemma readBytes_append: "length bs = n \<Longrightarrow> readBytes n (bs @ rest) = Inr (bs, rest)"
  by (simp add: readBytes_def)

lemma readUInt_bigEndian:
  "n < 256 ^ w \<Longrightarrow> readUInt w (bigEndian w n @ rest) = Inr (n, rest)"
  by (simp add: readUInt_def andThen_def readBytes_append fromBigEndian_bigEndian)

lemma length_contentBytes [simp]: "length (contentBytes s) = length s"
  by (simp add: contentBytes_def)

lemma unat_content_byte: "unat (of_nat (of_char c) :: 8 word) = of_char c"
proof -
  have "(of_char c :: nat) < 256"
    by simp
  then show ?thesis
    by (simp add: unat_of_nat)
qed

lemma contentString_contentBytes [simp]: "contentString (contentBytes s) = s"
  by (induction s) (simp_all add: contentString_def contentBytes_def unat_content_byte)

lemma content_byte_zero: "(of_nat (of_char c) :: 8 word) = 0 \<longleftrightarrow> c = CHR 0x00"
proof
  assume "(of_nat (of_char c) :: 8 word) = 0"
  then have "unat (of_nat (of_char c) :: 8 word) = 0"
    by simp
  then have "(of_char c :: nat) = 0"
    by (simp add: unat_content_byte)
  then have "(of_char c :: nat) = of_char (CHR 0x00)"
    by simp
  then show "c = CHR 0x00"
    by (simp only: of_char_eq_iff)
next
  assume "c = CHR 0x00"
  then show "(of_nat (of_char c) :: 8 word) = 0"
    by simp
qed

lemma stripPadding_padded:
  assumes "bs = [] \<or> last bs \<noteq> 0"
  shows "stripPadding (bs @ replicate k 0) = bs"
proof -
  have "dropWhile (\<lambda>b. b = 0) (replicate k (0 :: 8 word) @ rev bs)
      = dropWhile (\<lambda>b. b = 0) (rev bs)"
    by (rule dropWhile_append2) simp
  moreover have "dropWhile (\<lambda>b. b = 0) (rev bs) = rev bs"
    using assms by (cases bs rule: rev_cases) simp_all
  ultimately show ?thesis
    by (simp add: stripPadding_def)
qed

lemma stripPadding_contentBytes:
  assumes "s = [] \<or> last s \<noteq> CHR 0x00"
  shows "stripPadding (contentBytes s @ replicate k 0) = contentBytes s"
proof (rule stripPadding_padded)
  show "contentBytes s = [] \<or> last (contentBytes s) \<noteq> 0"
    using assms by (cases s rule: rev_cases) (simp_all add: contentBytes_def content_byte_zero)
qed

lemma readMany_concat:
  assumes "\<And>x rest. x \<in> set xs \<Longrightarrow> dec (enc x @ rest) = Inr (x, rest)"
  shows "readMany dec (length xs) (concat (map enc xs) @ rest) = Inr (xs, rest)"
  using assms by (induction xs arbitrary: rest) (simp_all add: andThen_def)

lemma deserializeWire_serializeWire:
  assumes "wellFormedFormat fmt"
  shows "wellFormedWire x \<Longrightarrow> paddingFree x \<Longrightarrow>
    deserializeWire fmt (wireKind x) (serializeWire fmt x @ rest) = Inr (x, rest)"
proof (induction x arbitrary: rest)
  case (AddressPrimitive v h)
  then show ?case
    by (simp add: andThen_def readBytes_def)
next
  case (LengthPrefixedStringPrimitive s w m)
  then have "length s < 256 ^ w" "length s \<le> m"
    by simp_all
  then show ?case
    by (simp add: andThen_def readUInt_bigEndian readBytes_append)
next
  case (MemoStringPrimitive s)
  then have "length (contentBytes s @ replicate (MEMO_MAX_LENGTH_BYTES - length s) 0)
      = MEMO_MAX_LENGTH_BYTES"
    by simp
  from readBytes_append [OF this]
  have "readBytes MEMO_MAX_LENGTH_BYTES
      (contentBytes s @ replicate (MEMO_MAX_LENGTH_BYTES - length s) 0 @ rest)
    = Inr (contentBytes s @ replicate (MEMO_MAX_LENGTH_BYTES - length s) 0, rest)"
    by simp
  moreover from MemoStringPrimitive
  have "stripPadding (contentBytes s @ replicate (MEMO_MAX_LENGTH_BYTES - length s) 0)
      = contentBytes s"
    by (intro stripPadding_contentBytes) simp
  ultimately show ?case
    by (simp add: andThen_def)
next
  case (LengthPrefixedListPrimitive w k xs)
  then have len: "length xs < 256 ^ w"
    by simp
  have "readMany (deserializeWire fmt k) (length xs)
      (concat (map (serializeWire fmt) xs) @ rest) = Inr (xs, rest)"
  proof (rule readMany_concat)
    fix x r
    assume x: "x \<in> set xs"
    with LengthPrefixedListPrimitive.prems
    have "wireKind x = k" "wellFormedWire x" "paddingFree x"
      by (simp_all add: list_all_iff)
    with LengthPrefixedListPrimitive.IH [OF x, of r]
    show "deserializeWire fmt k (serializeWire fmt x @ r) = Inr (x, r)"
      by simp
  qed
  with len show ?case
    by (simp add: andThen_def readUInt_bigEndian)
next
  case (PublicKeyPrimitive enc bs)
  with assms show ?case
    by (cases enc) (simp_all add: andThen_def readBytes_def wellFormedFormat_def)
next
  case (MessageSignaturePrimitive bs)
  then show ?case
    by (simp add: andThen_def readBytes_append)
qed

lemma stripPadding_zeros: "stripPadding (bs @ replicate k 0) = stripPadding bs"
proof -
  have "dropWhile (\<lambda>b. b = 0) (replicate k (0 :: 8 word) @ rev bs)
      = dropWhile (\<lambda>b. b = 0) (rev bs)"
    by (rule dropWhile_append2) simp
  then show ?thesis
    by (simp add: stripPadding_def)
qed

lemma dropWhile_contentBytes:
  "dropWhile (\<lambda>b. b = 0) (contentBytes s) = contentBytes (dropWhile (\<lambda>c. c = CHR 0x00) s)"
  by (induction s) (simp_all add: contentBytes_def content_byte_zero)

lemma contentBytes_rev: "rev (contentBytes s) = contentBytes (rev s)"
  by (simp add: contentBytes_def rev_map)

lemma stripPadding_withoutTrailingZeros:
  "contentString (stripPadding (contentBytes s)) = withoutTrailingZeros s"
  by (simp add: stripPadding_def withoutTrailingZeros_def contentBytes_rev
      dropWhile_contentBytes)

lemma withoutTrailingZeros_id:
  "withoutTrailingZeros s = s \<longleftrightarrow> s = [] \<or> last s \<noteq> CHR 0x00"
proof (cases s rule: rev_cases)
  case Nil
  then show ?thesis by (simp add: withoutTrailingZeros_def)
next
  case (snoc xs c)
  show ?thesis
  proof (cases "c = CHR 0x00")
    case True
    have "length (dropWhile (\<lambda>c. c = CHR 0x00) (rev xs)) \<le> length xs"
      using length_dropWhile_le [of "\<lambda>c. c = CHR 0x00" "rev xs"] by simp
    have "rev (dropWhile (\<lambda>c. c = CHR 0x00) (rev xs)) \<noteq> xs @ [c]"
    proof
      assume "rev (dropWhile (\<lambda>c. c = CHR 0x00) (rev xs)) = xs @ [c]"
      then have "length (rev (dropWhile (\<lambda>c. c = CHR 0x00) (rev xs))) = length (xs @ [c])"
        by (rule arg_cong)
      with \<open>length (dropWhile (\<lambda>c. c = CHR 0x00) (rev xs)) \<le> length xs\<close> show False
        by simp
    qed
    with snoc True show ?thesis
      by (simp add: withoutTrailingZeros_def)
  next
    case False
    with snoc show ?thesis
      by (simp add: withoutTrailingZeros_def)
  qed
qed

lemma map_unchanged_iff: "map f xs = xs \<longleftrightarrow> (\<forall>x \<in> set xs. f x = x)"
  by (induction xs) auto

lemma withoutPadding_id: "withoutPadding x = x \<longleftrightarrow> paddingFree x"
proof (induction x)
  case (MemoStringPrimitive s)
  then show ?case
    by (simp add: withoutTrailingZeros_id)
next
  case (LengthPrefixedListPrimitive w k xs)
  have "map withoutPadding xs = xs \<longleftrightarrow> (\<forall>x \<in> set xs. withoutPadding x = x)"
    by (rule map_unchanged_iff)
  with LengthPrefixedListPrimitive show ?case
    by (simp add: list_all_iff)
qed simp_all

lemma deserializeWire_serializeWire_padded:
  assumes "wellFormedFormat fmt"
  shows "wellFormedWire x \<Longrightarrow>
    deserializeWire fmt (wireKind x) (serializeWire fmt x @ rest) = Inr (withoutPadding x, rest)"
proof (induction x arbitrary: rest)
  case (MemoStringPrimitive s)
  then have "length (contentBytes s @ replicate (MEMO_MAX_LENGTH_BYTES - length s) 0)
      = MEMO_MAX_LENGTH_BYTES"
    by simp
  from readBytes_append [OF this]
  have "readBytes MEMO_MAX_LENGTH_BYTES
      (contentBytes s @ replicate (MEMO_MAX_LENGTH_BYTES - length s) 0 @ rest)
    = Inr (contentBytes s @ replicate (MEMO_MAX_LENGTH_BYTES - length s) 0, rest)"
    by simp
  then show ?case
    by (simp add: andThen_def stripPadding_zeros stripPadding_withoutTrailingZeros)
next
  case (LengthPrefixedListPrimitive w k xs)
  then have len: "length xs < 256 ^ w"
    by simp
  have many: "readMany (deserializeWire fmt k) (length ys)
      (concat (map (serializeWire fmt) ys) @ r) = Inr (map withoutPadding ys, r)"
    if "set ys \<subseteq> set xs" for ys r
    using that
  proof (induction ys arbitrary: r)
    case Nil
    then show ?case by simp
  next
    case (Cons y ys)
    then have y: "y \<in> set xs" and ys: "set ys \<subseteq> set xs"
      by simp_all
    with LengthPrefixedListPrimitive.prems
    have "wireKind y = k" "wellFormedWire y"
      by (simp_all add: list_all_iff)
    with LengthPrefixedListPrimitive.IH [OF y, of "concat (map (serializeWire fmt) ys) @ r"]
    have "deserializeWire fmt k
        (serializeWire fmt y @ concat (map (serializeWire fmt) ys) @ r)
      = Inr (withoutPadding y, concat (map (serializeWire fmt) ys) @ r)"
      by simp
    with Cons.IH [OF ys, of r] show ?case
      by (simp add: andThen_def)
  qed
  from many [of xs rest] len show ?case
    by (simp add: andThen_def readUInt_bigEndian)
next
  case (AddressPrimitive v h)
  then show ?case
    by (simp add: andThen_def readBytes_def)
next
  case (LengthPrefixedStringPrimitive s w m)
  then have "length s < 256 ^ w" "length s \<le> m"
    by simp_all
  then show ?case
    by (simp add: andThen_def readUInt_bigEndian readBytes_append)
next
  case (PublicKeyPrimitive enc bs)
  with assms show ?case
    by (cases enc) (simp_all add: andThen_def readBytes_def wellFormedFormat_def)
next
  case (MessageSignaturePrimitive bs)
  then show ?case
    by (simp add: andThen_def readBytes_append)
qed

lemma find_distinct_map:
  "distinct (map f xs) \<Longrightarrow> x \<in> set xs \<Longrightarrow> find (\<lambda>y. f y = f x) xs = Some x"
  by (induction xs) auto

lemma find_clarityTag:
  assumes "wellFormedFormat fmt"
  shows "find (\<lambda>ty. clarityTag fmt ty = clarityTag fmt t) allClarityWireTypes = Some t"
proof (rule find_distinct_map)
  from assms show "distinct (map (clarityTag fmt) allClarityWireTypes)"
    by (simp add: wellFormedFormat_def)
  show "t \<in> set allClarityWireTypes"
    by (cases t) (simp_all add: allClarityWireTypes_def)
qed

lemma twosComplement128_mod:
  assumes "- (2 ^ 127) \<le> i" "i < 2 ^ 127"
  shows "twosComplement128 (nat (i mod 2 ^ 128)) = i"
proof (cases "0 \<le> i")
  case True
  with assms have "i mod 2 ^ 128 = i"
    by simp
  with True assms show ?thesis
    by (simp add: twosComplement128_def)
next
  case False
  have "i mod 2 ^ 128 = (i + 2 ^ 128) mod 2 ^ 128"
    by simp
  also from assms False have "\<dots> = i + 2 ^ 128"
    by (intro mod_pos_pos_trivial) simp_all
  finally have "i mod 2 ^ 128 = i + 2 ^ 128" .
  with False assms show ?thesis
    by (simp add: twosComplement128_def)
qed

lemma readUInt_int128:
  assumes "- (2 ^ 127) \<le> i" "i < 2 ^ 127"
  shows "readUInt 16 (bigEndian 16 (nat (i mod 2 ^ 128)) @ rest) = Inr (nat (i mod 2 ^ 128), rest)"
proof (rule readUInt_bigEndian)
  have "i mod 2 ^ 128 < 2 ^ 128"
    by simp
  then show "nat (i mod 2 ^ 128) < 256 ^ 16"
    by simp
qed

lemma readUInt_uint128:
  assumes "0 \<le> u" "u < 2 ^ 128"
  shows "readUInt 16 (bigEndian 16 (nat (u mod 2 ^ 128)) @ rest) = Inr (nat u, rest)"
proof -
  from assms have "u mod 2 ^ 128 = u"
    by simp
  moreover from assms have "nat u < 256 ^ 16"
    by simp
  ultimately show ?thesis
    by (simp add: readUInt_bigEndian)
qed

lemma deserializeName_serializeName:
  assumes "wellFormedFormat fmt" "length (contentBytes name) \<le> nameMaxLengthBytes fmt"
  shows "deserializeName fmt (serializeName fmt name @ rest) = Inr (name, rest)"
proof -
  let ?p = "LengthPrefixedStringPrimitive name (nameLengthPrefixBytes fmt) (nameMaxLengthBytes fmt)"
  from assms have "wellFormedWire ?p" "paddingFree ?p"
    by (simp_all add: wellFormedFormat_def)
  from deserializeWire_serializeWire [OF assms(1) this]
  show ?thesis
    by (simp add: deserializeName_def serializeName_def andThen_def)
qed

lemma deserializeAddress_serializeWire:
  assumes "length h = HASH_LENGTH_BYTES"
  shows "deserializeAddress fmt (serializeWire fmt (AddressPrimitive v h) @ rest)
    = Inr ((v, h), rest)"
  using assms by (simp add: deserializeAddress_def andThen_def readBytes_def)

lemma length_concat_member:
  "x \<in> set xs \<Longrightarrow> length (f x) \<le> length (concat (map f xs))"
  by (induction xs) auto

lemma serializeCV_nonempty: "0 < length (serializeCV fmt v)"
  by (cases v) simp_all

lemma deserializeCVDepth_tag:
  assumes "wellFormedFormat fmt"
  shows "deserializeCVDepth fmt (Suc d) (clarityTag fmt t # bs) =
    (case t of
        WireInt \<Rightarrow>
          andThen (readUInt 16 bs) (\<lambda>(n, r). Inr (IntCV (twosComplement128 n), r))
      | WireUInt \<Rightarrow>
          andThen (readUInt 16 bs) (\<lambda>(n, r). Inr (UIntCV (int n), r))
      | WireBuffer \<Rightarrow>
          andThen (readUInt 4 bs) (\<lambda>(n, r).
          andThen (readBytes n r) (\<lambda>(b, r'). Inr (BufferCV b, r')))
      | WireTrue \<Rightarrow> Inr (BoolTrue, bs)
      | WireFalse \<Rightarrow> Inr (BoolFalse, bs)
      | WireAddress \<Rightarrow>
          andThen (deserializeAddress fmt bs) (\<lambda>((v, h), r). Inr (StandardPrincipalCV v h, r))
      | WireContract \<Rightarrow>
          andThen (deserializeAddress fmt bs) (\<lambda>((v, h), r).
          andThen (deserializeName fmt r) (\<lambda>(name, r').
          Inr (ContractPrincipalCV v h name, r')))
      | WireNone \<Rightarrow> Inr (OptionalNone, bs)
      | WireSome \<Rightarrow>
          andThen (deserializeCVDepth fmt d bs) (\<lambda>(v, r). Inr (OptionalSome v, r))
      | WireOk \<Rightarrow>
          andThen (deserializeCVDepth fmt d bs) (\<lambda>(v, r). Inr (ResponseOk v, r))
      | WireErr \<Rightarrow>
          andThen (deserializeCVDepth fmt d bs) (\<lambda>(v, r). Inr (ResponseErr v, r))
      | WireList \<Rightarrow>
          andThen (readUInt 4 bs) (\<lambda>(n, r).
          andThen (readMany (\<lambda>b. deserializeCVDepth fmt d b) n r) (\<lambda>(vs, r').
          Inr (ListCV vs, r')))
      | WireTuple \<Rightarrow>
          andThen (readUInt 4 bs) (\<lambda>(n, r).
          andThen (readMany (\<lambda>b.
              andThen (deserializeName fmt b) (\<lambda>(k, r1).
              andThen (deserializeCVDepth fmt d r1) (\<lambda>(v, r2). Inr ((k, v), r2)))) n r)
            (\<lambda>(kvs, r'). Inr (TupleCV kvs, r'))))"
  by (simp add: find_clarityTag [OF assms])

lemma deserializeCVDepth_serializeCV:
  assumes fmt: "wellFormedFormat fmt"
  shows "wellFormedCV fmt v \<Longrightarrow> length (serializeCV fmt v) \<le> d \<Longrightarrow>
    deserializeCVDepth fmt d (serializeCV fmt v @ rest) = Inr (v, rest)"
proof (induction v arbitrary: d rest)
  case (IntCV i)
  then obtain d' where "d = Suc d'"
    by (cases d) simp_all
  moreover from IntCV have range: "- (2 ^ 127) \<le> i" "i < 2 ^ 127"
    by simp_all
  note readUInt_int128 [OF range, of rest] twosComplement128_mod [OF range]
  ultimately show ?case
    by (simp add: deserializeCVDepth_tag [OF fmt] andThen_def
        del: deserializeCVDepth.simps)
next
  case (UIntCV u)
  then obtain d' where "d = Suc d'"
    by (cases d) simp_all
  moreover from UIntCV have range: "0 \<le> u" "u < 2 ^ 128"
    by simp_all
  note readUInt_uint128 [OF range, of rest]
  ultimately show ?case
    using range by (simp add: deserializeCVDepth_tag [OF fmt] andThen_def
        del: deserializeCVDepth.simps)
next
  case (BufferCV b)
  then obtain d' where "d = Suc d'"
    by (cases d) simp_all
  with BufferCV show ?case
    by (simp add: deserializeCVDepth_tag [OF fmt] andThen_def readUInt_bigEndian
        readBytes_append del: deserializeCVDepth.simps)
next
  case BoolTrue
  then obtain d' where "d = Suc d'"
    by (cases d) simp_all
  then show ?case
    by (simp add: deserializeCVDepth_tag [OF fmt] del: deserializeCVDepth.simps)
next
  case BoolFalse
  then obtain d' where "d = Suc d'"
    by (cases d) simp_all
  then show ?case
    by (simp add: deserializeCVDepth_tag [OF fmt] del: deserializeCVDepth.simps)
next
  case (StandardPrincipalCV v h)
  then obtain d' where "d = Suc d'"
    by (cases d) simp_all
  moreover from StandardPrincipalCV have "length h = HASH_LENGTH_BYTES"
    by simp
  note deserializeAddress_serializeWire [OF this, of fmt v rest]
  ultimately show ?case
    by (simp add: deserializeCVDepth_tag [OF fmt] andThen_def
        del: deserializeCVDepth.simps)
next
  case (ContractPrincipalCV v h name)
  then obtain d' where "d = Suc d'"
    by (cases d) simp_all
  moreover from ContractPrincipalCV have "length h = HASH_LENGTH_BYTES"
    by simp
  note deserializeAddress_serializeWire [OF this, of fmt v "serializeName fmt name @ rest"]
  moreover from ContractPrincipalCV
  have "length (contentBytes name) \<le> nameMaxLengthBytes fmt"
    by simp
  note deserializeName_serializeName [OF fmt this, of rest]
  ultimately show ?case
    by (simp add: deserializeCVDepth_tag [OF fmt] andThen_def
        del: deserializeCVDepth.simps)
next
  case OptionalNone
  then obtain d' where "d = Suc d'"
    by (cases d) simp_all
  then show ?case
    by (simp add: deserializeCVDepth_tag [OF fmt] del: deserializeCVDepth.simps)
next
  case (OptionalSome v)
  then obtain d' where d: "d = Suc d'"
    by (cases d) simp_all
  with OptionalSome.prems have "wellFormedCV fmt v" "length (serializeCV fmt v) \<le> d'"
    by simp_all
  from OptionalSome.IH [OF this, of rest] d show ?case
    by (simp add: deserializeCVDepth_tag [OF fmt] andThen_def
        del: deserializeCVDepth.simps)
next
  case (ResponseOk v)
  then obtain d' where d: "d = Suc d'"
    by (cases d) simp_all
  with ResponseOk.prems have "wellFormedCV fmt v" "length (serializeCV fmt v) \<le> d'"
    by simp_all
  from ResponseOk.IH [OF this, of rest] d show ?case
    by (simp add: deserializeCVDepth_tag [OF fmt] andThen_def
        del: deserializeCVDepth.simps)
next
  case (ResponseErr v)
  then obtain d' where d: "d = Suc d'"
    by (cases d) simp_all
  with ResponseErr.prems have "wellFormedCV fmt v" "length (serializeCV fmt v) \<le> d'"
    by simp_all
  from ResponseErr.IH [OF this, of rest] d show ?case
    by (simp add: deserializeCVDepth_tag [OF fmt] andThen_def
        del: deserializeCVDepth.simps)
next
  case (ListCV vs)
  then obtain d' where d: "d = Suc d'"
    by (cases d) simp_all
  from ListCV.prems have len: "length vs < 256 ^ 4"
    by simp
  have "readMany (deserializeCVDepth fmt d') (length vs)
      (concat (map (serializeCV fmt) vs) @ rest) = Inr (vs, rest)"
  proof (rule readMany_concat)
    fix x r
    assume x: "x \<in> set vs"
    with ListCV.prems have "wellFormedCV fmt x"
      by (simp add: list_all_iff)
    moreover from length_concat_member [OF x, of "serializeCV fmt"] ListCV.prems d
    have "length (serializeCV fmt x) \<le> d'"
      by simp
    ultimately show "deserializeCVDepth fmt d' (serializeCV fmt x @ r) = Inr (x, r)"
      by (rule ListCV.IH [OF x])
  qed
  with len d show ?case
    by (simp add: deserializeCVDepth_tag [OF fmt] andThen_def readUInt_bigEndian
        del: deserializeCVDepth.simps)
next
  case (TupleCV kvs)
  then obtain d' where d: "d = Suc d'"
    by (cases d) simp_all
  from TupleCV.prems have len: "length kvs < 256 ^ 4"
    by simp
  let ?enc = "\<lambda>(k, v). serializeName fmt k @ serializeCV fmt v"
  let ?dec = "\<lambda>b. andThen (deserializeName fmt b) (\<lambda>(k, r1).
      andThen (deserializeCVDepth fmt d' r1) (\<lambda>(v, r2). Inr ((k, v), r2)))"
  have "readMany ?dec (length kvs) (concat (map ?enc kvs) @ rest) = Inr (kvs, rest)"
  proof (rule readMany_concat)
    fix x r
    assume x: "x \<in> set kvs"
    obtain k v where kv: "x = (k, v)"
      by (cases x)
    from x kv TupleCV.prems
    have wf: "length (contentBytes k) \<le> nameMaxLengthBytes fmt" "wellFormedCV fmt v"
      by (auto simp add: list_all_iff)
    from length_concat_member [OF x, of ?enc] kv TupleCV.prems d
    have "length (serializeCV fmt v) \<le> d'"
      by simp
    with wf have "deserializeCVDepth fmt d' (serializeCV fmt v @ r) = Inr (v, r)"
      using x kv by (intro TupleCV.IH [of x v]) simp_all
    with deserializeName_serializeName [OF fmt wf(1), of "serializeCV fmt v @ r"] kv
    show "?dec (?enc x @ r) = Inr (x, r)"
      by (simp add: andThen_def)
  qed
  with len d show ?case
    by (simp add: deserializeCVDepth_tag [OF fmt] andThen_def readUInt_bigEndian
        del: deserializeCVDepth.simps)
qed

lemma deserializeCV_serializeCV:
  assumes "wellFormedFormat fmt" "wellFormedCV fmt v"
  shows "deserializeCV fmt (serializeCV fmt v @ rest) = Inr (v, rest)"
  unfolding deserializeCV_def
  by (rule deserializeCVDepth_serializeCV [OF assms]) simp

lemma serializeWire_memo_zero:
  assumes "length s < MEMO_MAX_LENGTH_BYTES"
  shows "serializeWire fmt (MemoStringPrimitive (s @ [CHR 0x00]))
    = serializeWire fmt (MemoStringPrimitive s)"
proof -
  from assms
  have "MEMO_MAX_LENGTH_BYTES - length s = Suc (MEMO_MAX_LENGTH_BYTES - Suc (length s))"
    by simp
  then have "replicate (MEMO_MAX_LENGTH_BYTES - length s) (0 :: 8 word)
      = 0 # replicate (MEMO_MAX_LENGTH_BYTES - Suc (length s)) 0"
    by simp
  then show ?thesis
    by (simp add: contentBytes_def)
qed

lemma exampleFormat_wellFormed: "wellFormedFormat exampleFormat"
  by (simp add: wellFormedFormat_def exampleFormat_def allClarityWireTypes_def)

lemma bigEndian_numeral:
  "bigEndian (numeral k) n = bigEndian (pred_numeral k) (n div 256) @ [of_nat (n mod 256)]"
proof -
  have "bigEndian (numeral k) n = bigEndian (Suc (pred_numeral k)) n"
    by (simp only: numeral_eq_Suc)
  then show ?thesis
    by (simp only: bigEndian.simps)
qed

lemma readMany_numeral:
  "readMany dec (numeral k) bs =
     andThen (dec bs) (\<lambda>(x, r).
     andThen (readMany dec (pred_numeral k) r) (\<lambda>(xs, r'). Inr (x # xs, r')))"
proof -
  have "readMany dec (numeral k) bs = readMany dec (Suc (pred_numeral k)) bs"
    by (simp only: numeral_eq_Suc)
  then show ?thesis
    by (simp only: readMany.simps)
qed

text \<open>
  Claim C6, as amended.  Under a wire format whose tags are distinct, decoding the encoding
  of a Clarity value returns the value and the bytes that followed it, for every variant and
  every depth of nesting, when the value is within the bounds of the data model (128-bit
  integers, 20-byte hashes, names within their declared maximum, lengths and counts that fit
  their 4-byte prefix).  Decoding the encoding of a wire primitive as the kind it was declared,
  when the primitive satisfies the constraints of its construction, returns the bytes that
  followed it and the primitive with the trailing zero characters of every memo in it removed;
  that is the primitive itself exactly when no memo in it ends in a zero character, so the
  round trip holds for those primitives, and a memo that ends in zero characters decodes to
  the memo without them.
\<close>

theorem codec_round_trip:
  assumes "wellFormedFormat fmt"
  shows "(wellFormedCV fmt v \<longrightarrow>
            deserializeCV fmt (serializeCV fmt v @ rest) = Inr (v, rest))
       \<and> (wellFormedWire x \<longrightarrow>
            deserializeWire fmt (wireKind x) (serializeWire fmt x @ rest) =
              Inr (withoutPadding x, rest))
       \<and> (withoutPadding x = x \<longleftrightarrow> paddingFree x)
       \<and> (wellFormedWire x \<and> paddingFree x \<longrightarrow>
            deserializeWire fmt (wireKind x) (serializeWire fmt x @ rest) = Inr (x, rest))
       \<and> (length (contentBytes memo') \<le> MEMO_MAX_LENGTH_BYTES \<longrightarrow>
            deserializeWire fmt MemoStringKind
              (serializeWire fmt (MemoStringPrimitive memo') @ rest) =
              Inr (MemoStringPrimitive (withoutTrailingZeros memo'), rest))"
proof (intro conjI impI)
  assume "wellFormedCV fmt v"
  with assms show "deserializeCV fmt (serializeCV fmt v @ rest) = Inr (v, rest)"
    by (rule deserializeCV_serializeCV)
next
  assume "wellFormedWire x"
  then show "deserializeWire fmt (wireKind x) (serializeWire fmt x @ rest) =
      Inr (withoutPadding x, rest)"
    by (rule deserializeWire_serializeWire_padded [OF assms])
next
  show "withoutPadding x = x \<longleftrightarrow> paddingFree x"
    by (rule withoutPadding_id)
next
  assume "wellFormedWire x \<and> paddingFree x"
  then show "deserializeWire fmt (wireKind x) (serializeWire fmt x @ rest) = Inr (x, rest)"
    using deserializeWire_serializeWire [OF assms] by blast
next
  assume "length (contentBytes memo') \<le> MEMO_MAX_LENGTH_BYTES"
  then have "wellFormedWire (MemoStringPrimitive memo')"
    by simp
  from deserializeWire_serializeWire_padded [OF assms this, of rest]
  show "deserializeWire fmt MemoStringKind
      (serializeWire fmt (MemoStringPrimitive memo') @ rest) =
      Inr (MemoStringPrimitive (withoutTrailingZeros memo'), rest)"
    by simp
qed

theorem codec_round_trip_witness:
  "wellFormedFormat exampleFormat
   \<and> wellFormedCV exampleFormat exampleClarityValue
   \<and> deserializeCV exampleFormat (serializeCV exampleFormat exampleClarityValue @ [255])
       = Inr (exampleClarityValue, [255])
   \<and> serializeCV exampleFormat (ListCV [OptionalSome (IntCV (- 2)), BufferCV [7]])
       = [11, 0, 0, 0, 2,
          10, 0, 255, 255, 255, 255, 255, 255, 255, 255, 255, 255, 255, 255, 255, 255, 255, 254,
          2, 0, 0, 0, 1, 7]
   \<and> deserializeCV exampleFormat
         [11, 0, 0, 0, 2,
          10, 0, 255, 255, 255, 255, 255, 255, 255, 255, 255, 255, 255, 255, 255, 255, 255, 254,
          2, 0, 0, 0, 1, 7]
       = Inr (ListCV [OptionalSome (IntCV (- 2)), BufferCV [7]], [])
   \<and> wellFormedWire exampleMemoList \<and> paddingFree exampleMemoList
   \<and> deserializeWire exampleFormat (wireKind exampleMemoList)
         (serializeWire exampleFormat exampleMemoList @ [255])
       = Inr (exampleMemoList, [255])
   \<and> wellFormedWire examplePublicKey \<and> paddingFree examplePublicKey
   \<and> deserializeWire exampleFormat PublicKeyKind
         (serializeWire exampleFormat examplePublicKey @ [255])
       = Inr (examplePublicKey, [255])
   \<and> length (contentBytes [CHR ''a'', CHR 0x00]) \<le> MEMO_MAX_LENGTH_BYTES
   \<and> deserializeWire exampleFormat MemoStringKind
         (serializeWire exampleFormat (MemoStringPrimitive [CHR ''a'', CHR 0x00]) @ [255])
       = Inr (MemoStringPrimitive ''a'', [255])
   \<and> withoutPadding exampleMemoWithZero = MemoStringPrimitive ''a''"
proof -
  have v: "wellFormedCV exampleFormat exampleClarityValue"
    by (simp add: exampleClarityValue_def exampleFormat_def HASH_LENGTH_BYTES_def)
  have m: "wellFormedWire exampleMemoList" "paddingFree exampleMemoList"
    by (simp_all add: exampleMemoList_def MEMO_MAX_LENGTH_BYTES_def)
  have k: "wellFormedWire examplePublicKey" "paddingFree examplePublicKey"
      "wireKind examplePublicKey = PublicKeyKind"
    by (simp_all add: examplePublicKey_def)
  have s: "serializeCV exampleFormat (ListCV [OptionalSome (IntCV (- 2)), BufferCV [7]])
       = [11, 0, 0, 0, 2,
          10, 0, 255, 255, 255, 255, 255, 255, 255, 255, 255, 255, 255, 255, 255, 255, 255, 254,
          2, 0, 0, 0, 1, 7]"
    by (simp add: exampleFormat_def bigEndian_numeral)
  have d: "deserializeCV exampleFormat
         [11, 0, 0, 0, 2,
          10, 0, 255, 255, 255, 255, 255, 255, 255, 255, 255, 255, 255, 255, 255, 255, 255, 254,
          2, 0, 0, 0, 1, 7]
       = Inr (ListCV [OptionalSome (IntCV (- 2)), BufferCV [7]], [])"
    by (simp add: deserializeCV_def exampleFormat_def allClarityWireTypes_def andThen_def
        readUInt_def readBytes_def fromBigEndian_def twosComplement128_def readMany_numeral)
  from codec_round_trip [OF exampleFormat_wellFormed, of exampleClarityValue "[255]"
      exampleMemoList]
    codec_round_trip [OF exampleFormat_wellFormed, of exampleClarityValue "[255]"
      examplePublicKey]
    exampleFormat_wellFormed v m k
  have "deserializeCV exampleFormat (serializeCV exampleFormat exampleClarityValue @ [255])
       = Inr (exampleClarityValue, [255])"
    and "deserializeWire exampleFormat (wireKind exampleMemoList)
         (serializeWire exampleFormat exampleMemoList @ [255])
       = Inr (exampleMemoList, [255])"
    and "deserializeWire exampleFormat PublicKeyKind
         (serializeWire exampleFormat examplePublicKey @ [255])
       = Inr (examplePublicKey, [255])"
    by simp_all
  note round = this
  have z: "length (contentBytes [CHR ''a'', CHR 0x00]) \<le> MEMO_MAX_LENGTH_BYTES"
    "withoutTrailingZeros [CHR ''a'', CHR 0x00] = ''a''"
    "withoutPadding exampleMemoWithZero = MemoStringPrimitive ''a''"
    by (simp_all add: MEMO_MAX_LENGTH_BYTES_def withoutTrailingZeros_def
        exampleMemoWithZero_def)
  from codec_round_trip [OF exampleFormat_wellFormed, where memo' = "[CHR ''a'', CHR 0x00]"
      and rest = "[255]"] z
  have padded: "deserializeWire exampleFormat MemoStringKind
         (serializeWire exampleFormat (MemoStringPrimitive [CHR ''a'', CHR 0x00]) @ [255])
       = Inr (MemoStringPrimitive ''a'', [255])"
    by simp
  from exampleFormat_wellFormed v m k s d round z(1,3) padded show ?thesis
    by (intro conjI)
qed

text \<open>
  The claim as stated fails on memos: the encoding pads a memo with zero bytes to 34
  bytes, so a memo that ends in a zero byte has the encoding of the memo without it, and
  decoding returns the shorter memo.
\<close>

theorem memo_round_trip_counterexample:
  "wellFormedWire exampleMemoWithZero
   \<and> serializeWire exampleFormat exampleMemoWithZero
       = serializeWire exampleFormat (MemoStringPrimitive ''a'')
   \<and> deserializeWire exampleFormat (wireKind exampleMemoWithZero)
         (serializeWire exampleFormat exampleMemoWithZero)
       = Inr (MemoStringPrimitive ''a'', [])
   \<and> MemoStringPrimitive ''a'' \<noteq> exampleMemoWithZero"
proof -
  have same: "serializeWire exampleFormat exampleMemoWithZero
      = serializeWire exampleFormat (MemoStringPrimitive ''a'')"
    using serializeWire_memo_zero [of "''a''" exampleFormat]
    by (simp add: exampleMemoWithZero_def MEMO_MAX_LENGTH_BYTES_def)
  have "deserializeWire exampleFormat (wireKind (MemoStringPrimitive ''a''))
      (serializeWire exampleFormat (MemoStringPrimitive ''a'') @ [])
    = Inr (MemoStringPrimitive ''a'', [])"
    by (rule deserializeWire_serializeWire [OF exampleFormat_wellFormed])
      (simp_all add: MEMO_MAX_LENGTH_BYTES_def)
  with same show ?thesis
    by (simp add: exampleMemoWithZero_def MEMO_MAX_LENGTH_BYTES_def)
qed

end
